theory Spec2Isabelle
  imports Complex_Main "HOL-Library.Monad_Syntax" "HOL-Library.Char_ord"
    "HOL-Library.List_Lexorder" "HOL-Library.Product_Lexorder"
begin

section \<open>The comparator's query suite (queries/performance\_comparison.py)\<close>

text \<open>
  Python strings are modelled as byte strings in UTF-8: the SQL texts are plain ASCII, the
  Ukrainian query names are given by their bytes. A triple-quoted literal is the sequence of
  its source lines separated by newline characters.
\<close>

fun py_lines :: "string list \<Rightarrow> string" where
  "py_lines [] = []"
| "py_lines [l] = l"
| "py_lines (l # ls) = l @ CHR ''\<newline>'' # py_lines ls"

definition sales_by_region_name :: string where
  "sales_by_region_name = map char_of
     [208, 159, 209, 128, 208, 190, 208, 180, 208, 176, 208, 182, 209, 150, 32, 208, 191,
      208, 190, 32, 209, 128, 208, 181, 208, 179, 209, 150, 208, 190, 208, 189, 208, 176,
      209, 133 :: nat]"

definition sales_by_region_star :: string where
  "sales_by_region_star = py_lines
     ['''',
      ''                SELECT '',
      ''                    dc.region_name,'',
      ''                    SUM(sf.total_amount) as total_sales,'',
      ''                    COUNT(*) as transaction_count,'',
      ''                    AVG(sf.total_amount) as avg_transaction'',
      ''                FROM sales_facts sf'',
      ''                JOIN dim_customer dc ON sf.customer_id = dc.customer_id'',
      ''                GROUP BY dc.region_name'',
      ''                ORDER BY total_sales DESC'',
      ''                '']"

definition sales_by_region_snowflake :: string where
  "sales_by_region_snowflake = py_lines
     ['''',
      ''                SELECT '',
      ''                    dr.region_name,'',
      ''                    SUM(sf.total_amount) as total_sales,'',
      ''                    COUNT(*) as transaction_count,'',
      ''                    AVG(sf.total_amount) as avg_transaction'',
      ''                FROM sales_facts sf'',
      ''                JOIN dim_customer dc ON sf.customer_id = dc.customer_id'',
      ''                JOIN dim_city dci ON dc.city_id = dci.city_id'',
      ''                JOIN dim_region dr ON dci.region_id = dr.region_id'',
      ''                GROUP BY dr.region_name'',
      ''                ORDER BY total_sales DESC'',
      ''                '']"

definition top_products_name :: string where
  "top_products_name = map char_of
     [208, 162, 208, 190, 208, 191, 45, 49, 48, 32, 208, 191, 209, 128, 208, 190, 208, 180,
      209, 131, 208, 186, 209, 130, 209, 150, 208, 178 :: nat]"

definition top_products_star :: string where
  "top_products_star = py_lines
     ['''',
      ''                SELECT '',
      ''                    dp.product_name,'',
      ''                    dp.category_name,'',
      ''                    SUM(sf.total_amount) as total_sales,'',
      ''                    SUM(sf.quantity) as total_quantity'',
      ''                FROM sales_facts sf'',
      ''                JOIN dim_product dp ON sf.product_id = dp.product_id'',
      ''                GROUP BY dp.product_id, dp.product_name, dp.category_name'',
      ''                ORDER BY total_sales DESC'',
      ''                LIMIT 10'',
      ''                '']"

definition top_products_snowflake :: string where
  "top_products_snowflake = py_lines
     ['''',
      ''                SELECT '',
      ''                    dp.product_name,'',
      ''                    dcat.category_name,'',
      ''                    SUM(sf.total_amount) as total_sales,'',
      ''                    SUM(sf.quantity) as total_quantity'',
      ''                FROM sales_facts sf'',
      ''                JOIN dim_product dp ON sf.product_id = dp.product_id'',
      ''                JOIN dim_subcategory dsub ON dp.subcategory_id = dsub.subcategory_id'',
      ''                JOIN dim_category dcat ON dsub.category_id = dcat.category_id'',
      ''                GROUP BY dp.product_id, dp.product_name, dcat.category_name'',
      ''                ORDER BY total_sales DESC'',
      ''                LIMIT 10'',
      ''                '']"

definition monthly_trend_name :: string where
  "monthly_trend_name = map char_of
     [208, 162, 209, 128, 208, 181, 208, 189, 208, 180, 32, 208, 191, 209, 128, 208, 190,
      208, 180, 208, 176, 208, 182, 209, 150, 208, 178, 32, 208, 191, 208, 190, 32, 208,
      188, 209, 150, 209, 129, 209, 143, 209, 134, 209, 143, 209, 133, 32, 50, 48, 50, 51 :: nat]"

definition monthly_trend_star :: string where
  "monthly_trend_star = py_lines
     ['''',
      ''                SELECT '',
      ''                    dt.month,'',
      ''                    dt.month_name,'',
      ''                    SUM(sf.total_amount) as total_sales,'',
      ''                    COUNT(*) as transaction_count'',
      ''                FROM sales_facts sf'',
      ''                JOIN dim_time dt ON sf.time_id = dt.time_id'',
      ''                WHERE dt.year = 2023'',
      ''                GROUP BY dt.month, dt.month_name'',
      ''                ORDER BY dt.month'',
      ''                '']"

definition monthly_trend_snowflake :: string where
  "monthly_trend_snowflake = py_lines
     ['''',
      ''                SELECT '',
      ''                    dt.month,'',
      ''                    dt.month_name,'',
      ''                    SUM(sf.total_amount) as total_sales,'',
      ''                    COUNT(*) as transaction_count'',
      ''                FROM sales_facts sf'',
      ''                JOIN dim_time dt ON sf.time_id = dt.time_id'',
      ''                WHERE dt.year = 2023'',
      ''                GROUP BY dt.month, dt.month_name'',
      ''                ORDER BY dt.month'',
      ''                '']"

definition salesperson_performance_name :: string where
  "salesperson_performance_name = map char_of
     [208, 159, 209, 128, 208, 190, 208, 180, 209, 131, 208, 186, 209, 130, 208, 184, 208,
      178, 208, 189, 209, 150, 209, 129, 209, 130, 209, 140, 32, 208, 191, 209, 128, 208,
      190, 208, 180, 208, 176, 208, 178, 209, 134, 209, 150, 208, 178 :: nat]"

definition salesperson_performance_star :: string where
  "salesperson_performance_star = py_lines
     ['''',
      ''                SELECT '',
      ''                    ds.salesperson_name,'',
      ''                    ds.region_name,'',
      ''                    SUM(sf.total_amount) as total_sales,'',
      ''                    COUNT(*) as deals_count,'',
      ''                    AVG(sf.total_amount) as avg_deal_size'',
      ''                FROM sales_facts sf'',
      ''                JOIN dim_salesperson ds ON sf.salesperson_id = ds.salesperson_id'',
      ''                GROUP BY ds.salesperson_id, ds.salesperson_name, ds.region_name'',
      ''                ORDER BY total_sales DESC'',
      ''                LIMIT 20'',
      ''                '']"

definition salesperson_performance_snowflake :: string where
  "salesperson_performance_snowflake = py_lines
     ['''',
      ''                SELECT '',
      ''                    ds.salesperson_name,'',
      ''                    dr.region_name,'',
      ''                    SUM(sf.total_amount) as total_sales,'',
      ''                    COUNT(*) as deals_count,'',
      ''                    AVG(sf.total_amount) as avg_deal_size'',
      ''                FROM sales_facts sf'',
      ''                JOIN dim_salesperson ds ON sf.salesperson_id = ds.salesperson_id'',
      ''                JOIN dim_region dr ON ds.region_id = dr.region_id'',
      ''                GROUP BY ds.salesperson_id, ds.salesperson_name, dr.region_name'',
      ''                ORDER BY total_sales DESC'',
      ''                LIMIT 20'',
      ''                '']"

definition complex_analysis_name :: string where
  "complex_analysis_name = map char_of
     [208, 154, 208, 190, 208, 188, 208, 191, 208, 187, 208, 181, 208, 186, 209, 129, 208,
      189, 208, 184, 208, 185, 32, 208, 176, 208, 189, 208, 176, 208, 187, 209, 150, 208,
      183, 32, 208, 191, 209, 128, 208, 190, 208, 180, 208, 176, 208, 182, 209, 150, 208,
      178 :: nat]"

definition complex_analysis_star :: string where
  "complex_analysis_star = py_lines
     ['''',
      ''                SELECT '',
      ''                    dp.category_name,'',
      ''                    dc.region_name,'',
      ''                    dt.quarter,'',
      ''                    dt.year,'',
      ''                    SUM(sf.total_amount) as total_sales,'',
      ''                    SUM(sf.quantity) as total_quantity,'',
      ''                    AVG(sf.discount) as avg_discount,'',
      ''                    COUNT(DISTINCT sf.customer_id) as unique_customers'',
      ''                FROM sales_facts sf'',
      ''                JOIN dim_product dp ON sf.product_id = dp.product_id'',
      ''                JOIN dim_customer dc ON sf.customer_id = dc.customer_id'',
      ''                JOIN dim_time dt ON sf.time_id = dt.time_id'',
      ''                WHERE dt.year IN (2023, 2024)'',
      ''                GROUP BY dp.category_name, dc.region_name, dt.quarter, dt.year'',
      ''                HAVING SUM(sf.total_amount) > 10000'',
      ''                ORDER BY total_sales DESC'',
      ''                '']"

definition complex_analysis_snowflake :: string where
  "complex_analysis_snowflake = py_lines
     ['''',
      ''                SELECT '',
      ''                    dcat.category_name,'',
      ''                    dr.region_name,'',
      ''                    dt.quarter,'',
      ''                    dt.year,'',
      ''                    SUM(sf.total_amount) as total_sales,'',
      ''                    SUM(sf.quantity) as total_quantity,'',
      ''                    AVG(sf.discount) as avg_discount,'',
      ''                    COUNT(DISTINCT sf.customer_id) as unique_customers'',
      ''                FROM sales_facts sf'',
      ''                JOIN dim_product dp ON sf.product_id = dp.product_id'',
      ''                JOIN dim_subcategory dsub ON dp.subcategory_id = dsub.subcategory_id'',
      ''                JOIN dim_category dcat ON dsub.category_id = dcat.category_id'',
      ''                JOIN dim_customer dc ON sf.customer_id = dc.customer_id'',
      ''                JOIN dim_city dci ON dc.city_id = dci.city_id'',
      ''                JOIN dim_region dr ON dci.region_id = dr.region_id'',
      ''                JOIN dim_time dt ON sf.time_id = dt.time_id'',
      ''                WHERE dt.year IN (2023, 2024)'',
      ''                GROUP BY dcat.category_name, dr.region_name, dt.quarter, dt.year'',
      ''                HAVING SUM(sf.total_amount) > 10000'',
      ''                ORDER BY total_sales DESC'',
      ''                '']"

text \<open>\<open>get_analytical_queries\<close>: the list of (name, star SQL, snowflake SQL) triples.\<close>

definition get_analytical_queries :: "(string \<times> string \<times> string) list" where
  "get_analytical_queries =
     [(sales_by_region_name, sales_by_region_star, sales_by_region_snowflake),
      (top_products_name, top_products_star, top_products_snowflake),
      (monthly_trend_name, monthly_trend_star, monthly_trend_snowflake),
      (salesperson_performance_name, salesperson_performance_star,
         salesperson_performance_snowflake),
      (complex_analysis_name, complex_analysis_star, complex_analysis_snowflake)]"

text \<open>
  The join hops of a query are the \<open>JOIN\<close> keywords of its text: the text is cut into
  words at blanks and newlines and the words equal to \<open>JOIN\<close> are counted.
\<close>

definition is_blank :: "char \<Rightarrow> bool" where
  "is_blank c = (c = CHR '' '' \<or> c = CHR ''\<newline>'')"

fun sql_words :: "string \<Rightarrow> string \<Rightarrow> string list" where
  "sql_words w [] = (if w = [] then [] else [rev w])"
| "sql_words w (c # cs) =
     (if is_blank c then (if w = [] then sql_words [] cs else rev w # sql_words [] cs)
      else sql_words (c # w) cs)"

definition join_hops :: "string \<Rightarrow> nat" where
  "join_hops q = length (filter (\<lambda>w. w = ''JOIN'') (sql_words [] q))"

definition star_sql :: "string \<times> string \<times> string \<Rightarrow> string" where
  "star_sql q = fst (snd q)"

definition snowflake_sql :: "string \<times> string \<times> string \<Rightarrow> string" where
  "snowflake_sql q = snd (snd q)"

section \<open>The comparator's measurement loop and report\<close>

text \<open>
  Exceptions are values. Elapsed times are Python floats; they are modelled as rationals,
  which is exact for the comparisons with zero and the divisions the report makes.
\<close>

datatype error = ZeroDivisionError | OperationalError | FileNotFoundError | ValueError

definition py_truediv :: "rat \<Rightarrow> rat \<Rightarrow> error + rat" where
  "py_truediv a b = (if b = 0 then Inl ZeroDivisionError else Inr (a / b))"

text \<open>
  What the program prints is kept as a list of messages carrying the printed values; rulers
  and blank lines are left out.
\<close>

datatype message =
    Executing string
  | StarMs rat
  | SnowflakeMs rat
  | StarFaster rat
  | SnowflakeFaster rat
  | DetailTitle nat string
  | MeanStar "rat option"
  | MeanSnowflake "rat option"
  | MedianStar "rat option"
  | MedianSnowflake "rat option"
  | StarWins nat nat
  | SnowflakeWins nat nat

text \<open>The dictionary returned by \<open>execute_query_with_timing\<close>.\<close>

record 'r timing =
  tm_query_name :: string
  execution_time_ms :: rat
  result_count :: nat
  tm_results :: "'r list"

text \<open>One entry of \<open>self.results\<close>.\<close>

record 'r comparison =
  query_name :: string
  star_time_ms :: rat
  snowflake_time_ms :: rat
  star_results :: "'r list"
  snowflake_results :: "'r list"

text \<open>
  The database engine and the clock are outside the program: \<open>connectable\<close> tells whether
  \<open>sqlite3.connect\<close> succeeds on a path, \<open>run_query\<close> gives for a database and a query text
  either the exception raised or the elapsed milliseconds and the rows fetched.
\<close>

record 'r engine =
  connectable :: "string \<Rightarrow> bool"
  run_query :: "string \<Rightarrow> string \<Rightarrow> error + (rat \<times> 'r list)"

text \<open>
  The comparator object together with the part of the world it acts on: the connections
  that are open and the standard output.
\<close>

record 'r comparator =
  star_db :: string
  snowflake_db :: string
  results :: "'r comparison list"
  open_connections :: "string list"
  stdout :: "message list"

definition init_comparator :: "'r comparator" where
  "init_comparator = \<lparr>star_db = ''data/star_schema.db'',
     snowflake_db = ''data/snowflake_schema.db'', results = [],
     open_connections = [], stdout = []\<rparr>"

definition print :: "message list \<Rightarrow> 'r comparator \<Rightarrow> 'r comparator" where
  "print ms s = s\<lparr>stdout := stdout s @ ms\<rparr>"

definition connect_to_db :: "'r engine \<Rightarrow> string \<Rightarrow> 'r comparator \<Rightarrow> error + 'r comparator" where
  "connect_to_db eng db_path s =
     (if connectable eng db_path
      then Inr (s\<lparr>open_connections := open_connections s @ [db_path]\<rparr>)
      else Inl OperationalError)"

definition close_connection :: "string \<Rightarrow> 'r comparator \<Rightarrow> 'r comparator" where
  "close_connection db_path s = s\<lparr>open_connections := remove1 db_path (open_connections s)\<rparr>"

definition execute_query_with_timing ::
    "'r engine \<Rightarrow> string \<Rightarrow> string \<Rightarrow> string \<Rightarrow> error + 'r timing" where
  "execute_query_with_timing eng conn query name =
     (case run_query eng conn query of
        Inl e \<Rightarrow> Inl e
      | Inr (ms, rows) \<Rightarrow>
          Inr \<lparr>tm_query_name = name, execution_time_ms = ms,
               result_count = length rows, tm_results = take 5 rows\<rparr>)"

text \<open>The ratio lines of one iteration of the loop in \<open>run_performance_tests\<close>.\<close>

definition ratio_lines :: "rat \<Rightarrow> rat \<Rightarrow> error + message list" where
  "ratio_lines star_ms snowflake_ms =
     (if snowflake_ms > 0 then
        (case py_truediv star_ms snowflake_ms of
           Inl e \<Rightarrow> Inl e
         | Inr ratio \<Rightarrow>
             if ratio < 1 then
               (case py_truediv 1 ratio of
                  Inl e \<Rightarrow> Inl e
                | Inr r \<Rightarrow> Inr [StarFaster r])
             else Inr [SnowflakeFaster ratio])
      else Inr [])"

text \<open>The loop over the query pairs; an exception leaves the loop with the state reached.\<close>

fun run_queries ::
    "'r engine \<Rightarrow> (string \<times> string \<times> string) list \<Rightarrow> 'r comparator
      \<Rightarrow> (error + unit) \<times> 'r comparator" where
  "run_queries eng [] s = (Inr (), s)"
| "run_queries eng ((name, star_query, snowflake_query) # qs) s =
     (let s1 = print [Executing name] s in
      case execute_query_with_timing eng (star_db s1) star_query name of
        Inl e \<Rightarrow> (Inl e, s1)
      | Inr star_result \<Rightarrow>
          let s2 = print [StarMs (execution_time_ms star_result)] s1 in
          (case execute_query_with_timing eng (snowflake_db s2) snowflake_query name of
             Inl e \<Rightarrow> (Inl e, s2)
           | Inr snowflake_result \<Rightarrow>
               let s3 = print [SnowflakeMs (execution_time_ms snowflake_result)] s2 in
               (case ratio_lines (execution_time_ms star_result)
                       (execution_time_ms snowflake_result) of
                  Inl e \<Rightarrow> (Inl e, s3)
                | Inr ms \<Rightarrow>
                    run_queries eng qs
                      ((print ms s3)\<lparr>results := results s3 @
                         [\<lparr>query_name = name,
                           star_time_ms = execution_time_ms star_result,
                           snowflake_time_ms = execution_time_ms snowflake_result,
                           star_results = tm_results star_result,
                           snowflake_results = tm_results snowflake_result\<rparr>]\<rparr>))))"

text \<open>
  \<open>run_performance_tests\<close>: both connections are opened, the loop runs, and the two
  \<open>close\<close> calls follow the loop; there is no \<open>try\<close> around any of it.
\<close>

definition run_performance_tests ::
    "'r engine \<Rightarrow> 'r comparator \<Rightarrow> (error + 'r comparison list) \<times> 'r comparator" where
  "run_performance_tests eng s =
     (let queries = get_analytical_queries in
      case connect_to_db eng (star_db s) s of
        Inl e \<Rightarrow> (Inl e, s)
      | Inr s1 \<Rightarrow>
          (case connect_to_db eng (snowflake_db s1) s1 of
             Inl e \<Rightarrow> (Inl e, s1)
           | Inr s2 \<Rightarrow>
               (case run_queries eng queries s2 of
                  (Inl e, s3) \<Rightarrow> (Inl e, s3)
                | (Inr u, s3) \<Rightarrow>
                    let s4 = close_connection (star_db s3) s3;
                        s5 = close_connection (snowflake_db s4) s4
                    in (Inr (results s5), s5))))"

text \<open>The lines \<open>print_detailed_results\<close> prints for one entry of the results.\<close>

definition detail_lines :: "nat \<Rightarrow> 'r comparison \<Rightarrow> error + message list" where
  "detail_lines i result =
     (let star_time = star_time_ms result;
          snowflake_time = snowflake_time_ms result
      in case (if star_time > 0 then py_truediv snowflake_time star_time else Inr 0) of
           Inl e \<Rightarrow> Inl e
         | Inr ratio \<Rightarrow>
             let title = [DetailTitle i (query_name result), StarMs star_time,
                         SnowflakeMs snowflake_time]
             in if ratio > 1 then Inr (title @ [StarFaster ratio])
                else (case py_truediv 1 ratio of
                        Inl e \<Rightarrow> Inl e
                      | Inr r \<Rightarrow> Inr (title @ [SnowflakeFaster r])))"

fun detail_loop :: "nat \<Rightarrow> 'r comparison list \<Rightarrow> error + message list" where
  "detail_loop i [] = Inr []"
| "detail_loop i (result # rs) =
     (case detail_lines i result of
        Inl e \<Rightarrow> Inl e
      | Inr ms \<Rightarrow> (case detail_loop (Suc i) rs of Inl e \<Rightarrow> Inl e | Inr ms' \<Rightarrow> Inr (ms @ ms')))"

text \<open>\<open>np.mean\<close> and \<open>np.median\<close>; on an empty list both give \<open>nan\<close>, here \<open>None\<close>.\<close>

definition np_mean :: "rat list \<Rightarrow> rat option" where
  "np_mean xs = (if xs = [] then None else Some (sum_list xs / of_nat (length xs)))"

definition np_median :: "rat list \<Rightarrow> rat option" where
  "np_median xs =
     (let s = sort xs; n = length xs in
      if n = 0 then None
      else if odd n then Some (s ! (n div 2))
      else Some ((s ! (n div 2 - 1) + s ! (n div 2)) / 2))"

definition print_detailed_results :: "'r comparator \<Rightarrow> (error + unit) \<times> 'r comparator" where
  "print_detailed_results s =
     (case detail_loop 1 (results s) of
        Inl e \<Rightarrow> (Inl e, s)
      | Inr ms \<Rightarrow>
          let star_times = map star_time_ms (results s);
              snowflake_times = map snowflake_time_ms (results s);
              ratios = map (\<lambda>(sn, st). if st > 0 then sn / st else 0)
                         (zip snowflake_times star_times);
              star_wins = length (filter (\<lambda>r. r > 1) ratios);
              n = length (results s)
          in (Inr (), print (ms @ [MeanStar (np_mean star_times),
                 MeanSnowflake (np_mean snowflake_times),
                 MedianStar (np_median star_times),
                 MedianSnowflake (np_median snowflake_times),
                 StarWins star_wins n, SnowflakeWins (n - star_wins) n]) s))"

text \<open>
  Two engines used as concrete inputs. The first is what the comparator meets when the
  stores were never built: \<open>sqlite3.connect\<close> creates an empty database file and every query
  raises for a missing table. The second answers every star query in no measurable time.
\<close>

definition unbuilt_engine :: "unit engine" where
  "unbuilt_engine = \<lparr>connectable = (\<lambda>p. True), run_query = (\<lambda>db q. Inl OperationalError)\<rparr>"

definition instant_star_engine :: "unit engine" where
  "instant_star_engine = \<lparr>connectable = (\<lambda>p. True),
     run_query = (\<lambda>db q. if db = ''data/star_schema.db'' then Inr (0, []) else Inr (1, []))\<rparr>"

section \<open>The flat dataset and the relational stores (schemas/*.py)\<close>

text \<open>
  One record per CSV file, with the columns of the file. A foreign-key column carries the
  name of its table in front, since the same column name occurs in several files. Keys are
  integers, names are byte strings, prices and amounts are the rationals that stand for
  Python floats and SQLite reals.
\<close>

record date =
  d_year :: int
  d_month :: int
  d_day :: int

record country_row =
  country_id :: int
  country_name :: string

record region_row =
  region_id :: int
  region_name :: string
  region_country_id :: int

record city_row =
  city_id :: int
  city_name :: string
  city_region_id :: int

record category_row =
  category_id :: int
  category_name :: string

record subcategory_row =
  subcategory_id :: int
  subcategory_name :: string
  subcategory_category_id :: int

record product_row =
  product_id :: int
  product_name :: string
  product_code :: string
  product_subcategory_id :: int
  unit_price :: rat

record customer_row =
  customer_id :: int
  customer_name :: string
  email :: string
  phone :: string
  customer_city_id :: int
  registration_date :: date

record salesperson_row =
  salesperson_id :: int
  salesperson_name :: string
  hire_date :: date
  salesperson_region_id :: int

record time_row =
  time_id :: int
  date :: date
  year :: int
  quarter :: string
  month :: int
  month_name :: string
  day :: int
  weekday :: int
  weekday_name :: string

record sale_row =
  sale_id :: int
  sale_time_id :: int
  sale_product_id :: int
  sale_customer_id :: int
  sale_salesperson_id :: int
  quantity :: int
  sale_unit_price :: rat
  discount :: rat
  total_amount :: rat

text \<open>The ten data frames that \<open>load_data\<close> reads from the directory \<open>data\<close>.\<close>

record dataset =
  countries :: "country_row list"
  regions :: "region_row list"
  cities :: "city_row list"
  categories :: "category_row list"
  subcategories :: "subcategory_row list"
  products :: "product_row list"
  customers :: "customer_row list"
  sales_people :: "salesperson_row list"
  time_dimension :: "time_row list"
  sales_facts :: "sale_row list"

text \<open>The wide dimension rows of the star schema; the prefixes are the aliases of the queries.\<close>

record dim_product_row =
  dp_product_id :: int
  dp_product_name :: string
  dp_product_code :: string
  dp_unit_price :: rat
  dp_subcategory_name :: string
  dp_category_name :: string

record dim_customer_row =
  dc_customer_id :: int
  dc_customer_name :: string
  dc_email :: string
  dc_phone :: string
  dc_registration_date :: date
  dc_city_name :: string
  dc_region_name :: string
  dc_country_name :: string

record dim_salesperson_row =
  ds_salesperson_id :: int
  ds_salesperson_name :: string
  ds_hire_date :: date
  ds_region_name :: string
  ds_country_name :: string

text \<open>
  A table of a store holds rows of one of these shapes. A store is the SQLite database
  file: its tables by name and its secondary indexes (index name, table, column).
\<close>

datatype table_rows =
    Countries "country_row list"
  | Regions "region_row list"
  | Cities "city_row list"
  | Categories "category_row list"
  | Subcategories "subcategory_row list"
  | Products "product_row list"
  | Customers "customer_row list"
  | SalesPeople "salesperson_row list"
  | Times "time_row list"
  | Sales "sale_row list"
  | DimProducts "dim_product_row list"
  | DimCustomers "dim_customer_row list"
  | DimSalespeople "dim_salesperson_row list"

record store =
  tables :: "string \<rightharpoonup> table_rows"
  indexes :: "(string \<times> string \<times> string) list"

definition empty_store :: store where
  "empty_store = \<lparr>tables = Map.empty, indexes = []\<rparr>"

subsection \<open>The statements the builders execute\<close>

text \<open>
  \<open>DROP TABLE IF EXISTS\<close> removes the table and, as SQLite does, the indexes on it.
\<close>

definition drop_table_if_exists :: "string \<Rightarrow> store \<Rightarrow> store" where
  "drop_table_if_exists t s =
     s\<lparr>tables := (tables s)(t := None),
       indexes := filter (\<lambda>(i, t', c). t' \<noteq> t) (indexes s)\<rparr>"

text \<open>\<open>CREATE TABLE\<close> raises when the table exists; the new table is empty.\<close>

definition create_table :: "string \<Rightarrow> table_rows \<Rightarrow> store \<Rightarrow> error + store" where
  "create_table t empty_rows s =
     (if tables s t \<noteq> None then Inl OperationalError
      else Inr (s\<lparr>tables := (tables s)(t \<mapsto> empty_rows)\<rparr>))"

text \<open>\<open>CREATE INDEX\<close> raises when the index name is taken or the table is missing.\<close>

definition create_index :: "string \<times> string \<times> string \<Rightarrow> store \<Rightarrow> error + store" where
  "create_index ix s =
     (case ix of (i, t, c) \<Rightarrow>
        if i \<in> set (map fst (indexes s)) \<or> tables s t = None then Inl OperationalError
        else Inr (s\<lparr>indexes := indexes s @ [(i, t, c)]\<rparr>))"

text \<open>
  \<open>DataFrame.to_sql(name, conn, if_exists='replace', index=False)\<close>: pandas drops an
  existing table of that name, creates the table anew from the frame and inserts the rows.
\<close>

definition to_sql_replace :: "string \<Rightarrow> table_rows \<Rightarrow> store \<Rightarrow> store" where
  "to_sql_replace t rows s =
     (let s' = drop_table_if_exists t s in s'\<lparr>tables := (tables s')(t \<mapsto> rows)\<rparr>)"

text \<open>A sequence of statements stops at the first one that raises, with the state reached.\<close>

fun execute_all ::
    "('a \<Rightarrow> store \<Rightarrow> error + store) \<Rightarrow> 'a list \<Rightarrow> store \<Rightarrow> (error + unit) \<times> store" where
  "execute_all f [] s = (Inr (), s)"
| "execute_all f (x # xs) s =
     (case f x s of Inl e \<Rightarrow> (Inl e, s) | Inr s' \<Rightarrow> execute_all f xs s')"

text \<open>
  \<open>DataFrame.merge(right, on=key)\<close>: the inner join on one key column, in the order of the
  left frame, each left row with its matching right rows.
\<close>

definition pd_merge :: "'a list \<Rightarrow> 'b list \<Rightarrow> ('a \<Rightarrow> int) \<Rightarrow> ('b \<Rightarrow> int) \<Rightarrow> ('a \<times> 'b) list" where
  "pd_merge left right left_on right_on =
     concat (map (\<lambda>l. map (Pair l) (filter (\<lambda>r. left_on l = right_on r) right)) left)"

subsection \<open>StarSchemaBuilder\<close>

definition star_tables_to_drop :: "string list" where
  "star_tables_to_drop =
     [''sales_facts'', ''dim_product'', ''dim_customer'', ''dim_salesperson'', ''dim_time'']"

text \<open>The five \<open>CREATE TABLE\<close> statements, in the order in which they are executed.\<close>

definition star_table_definitions :: "(string \<times> table_rows) list" where
  "star_table_definitions =
     [(''dim_product'', DimProducts []),
      (''dim_customer'', DimCustomers []),
      (''dim_salesperson'', DimSalespeople []),
      (''dim_time'', Times []),
      (''sales_facts'', Sales [])]"

definition star_indexes :: "(string \<times> string \<times> string) list" where
  "star_indexes =
     [(''idx_sales_time'', ''sales_facts'', ''time_id''),
      (''idx_sales_product'', ''sales_facts'', ''product_id''),
      (''idx_sales_customer'', ''sales_facts'', ''customer_id''),
      (''idx_sales_salesperson'', ''sales_facts'', ''salesperson_id''),
      (''idx_time_date'', ''dim_time'', ''date''),
      (''idx_time_year'', ''dim_time'', ''year''),
      (''idx_product_category'', ''dim_product'', ''category_name''),
      (''idx_customer_city'', ''dim_customer'', ''city_name''),
      (''idx_customer_region'', ''dim_customer'', ''region_name'')]"

definition create_star_schema :: "store \<Rightarrow> (error + unit) \<times> store" where
  "create_star_schema s =
     (let s1 = fold drop_table_if_exists star_tables_to_drop s in
      case execute_all (\<lambda>(t, rows). create_table t rows) star_table_definitions s1 of
        (Inl e, s2) \<Rightarrow> (Inl e, s2)
      | (Inr u, s2) \<Rightarrow> execute_all create_index star_indexes s2)"

text \<open>The three denormalised frames that the star \<open>load_data\<close> computes by merging.\<close>

definition star_dim_product :: "dataset \<Rightarrow> dim_product_row list" where
  "star_dim_product d =
     map (\<lambda>((p, s), c).
            \<lparr>dp_product_id = product_id p, dp_product_name = product_name p,
             dp_product_code = product_code p, dp_unit_price = unit_price p,
             dp_subcategory_name = subcategory_name s, dp_category_name = category_name c\<rparr>)
       (pd_merge
          (pd_merge (products d) (subcategories d) product_subcategory_id subcategory_id)
          (categories d) (\<lambda>(p, s). subcategory_category_id s) category_id)"

definition star_dim_customer :: "dataset \<Rightarrow> dim_customer_row list" where
  "star_dim_customer d =
     map (\<lambda>(((c, ci), r), co).
            \<lparr>dc_customer_id = customer_id c, dc_customer_name = customer_name c,
             dc_email = email c, dc_phone = phone c,
             dc_registration_date = registration_date c, dc_city_name = city_name ci,
             dc_region_name = region_name r, dc_country_name = country_name co\<rparr>)
       (pd_merge
          (pd_merge
             (pd_merge (customers d) (cities d) customer_city_id city_id)
             (regions d) (\<lambda>(c, ci). city_region_id ci) region_id)
          (countries d) (\<lambda>((c, ci), r). region_country_id r) country_id)"

definition star_dim_salesperson :: "dataset \<Rightarrow> dim_salesperson_row list" where
  "star_dim_salesperson d =
     map (\<lambda>((sp, r), co).
            \<lparr>ds_salesperson_id = salesperson_id sp, ds_salesperson_name = salesperson_name sp,
             ds_hire_date = hire_date sp, ds_region_name = region_name r,
             ds_country_name = country_name co\<rparr>)
       (pd_merge
          (pd_merge (sales_people d) (regions d) salesperson_region_id region_id)
          (countries d) (\<lambda>(sp, r). region_country_id r) country_id)"

text \<open>
  \<open>load_data\<close> reads the CSV files (\<open>None\<close>: the files are missing and \<open>read_csv\<close> raises),
  merges, and replaces the five tables. It returns the row counts.
\<close>

definition star_load_data :: "dataset option \<Rightarrow> store \<Rightarrow> (error + (string \<times> nat) list) \<times> store" where
  "star_load_data src s =
     (case src of
        None \<Rightarrow> (Inl FileNotFoundError, s)
      | Some d \<Rightarrow>
          let dim_product = star_dim_product d;
              dim_customer = star_dim_customer d;
              dim_salesperson = star_dim_salesperson d;
              s1 = to_sql_replace ''dim_product'' (DimProducts dim_product) s;
              s2 = to_sql_replace ''dim_customer'' (DimCustomers dim_customer) s1;
              s3 = to_sql_replace ''dim_salesperson'' (DimSalespeople dim_salesperson) s2;
              s4 = to_sql_replace ''dim_time'' (Times (time_dimension d)) s3;
              s5 = to_sql_replace ''sales_facts'' (Sales (sales_facts d)) s4
          in (Inr [(''dim_product'', length dim_product),
                   (''dim_customer'', length dim_customer),
                   (''dim_salesperson'', length dim_salesperson),
                   (''dim_time'', length (time_dimension d)),
                   (''sales_facts'', length (sales_facts d))], s5))"

text \<open>The build sequence of \<open>main\<close>: schema creation followed by the data load.\<close>

definition star_build :: "dataset option \<Rightarrow> store \<Rightarrow> (error + (string \<times> nat) list) \<times> store" where
  "star_build src s =
     (case create_star_schema s of
        (Inl e, s1) \<Rightarrow> (Inl e, s1)
      | (Inr u, s1) \<Rightarrow> star_load_data src s1)"

text \<open>
  The world of a builder's \<open>main\<close>: the database file at the builder's path and the
  connections that are open. \<open>main\<close> wraps the build in \<open>try\<close>, prints a caught exception
  and disconnects in \<open>finally\<close>; \<open>disconnect\<close> closes when \<open>connect\<close> had set \<open>self.conn\<close>.
  The flag tells whether \<open>connect\<close> (\<open>os.makedirs\<close> and \<open>sqlite3.connect\<close>) succeeds.
\<close>

record world =
  db :: store
  open_conns :: "string list"

definition star_main :: "bool \<Rightarrow> dataset option \<Rightarrow> world \<Rightarrow> error option \<times> world" where
  "star_main can_connect src w =
     (if \<not> can_connect then (Some OperationalError, w)
      else
        let w1 = w\<lparr>open_conns := open_conns w @ [''data/star_schema.db'']\<rparr>;
            (r, s) = star_build src (db w1);
            w2 = w1\<lparr>db := s\<rparr>
        in ((case r of Inl e \<Rightarrow> Some e | Inr stats \<Rightarrow> None),
            w2\<lparr>open_conns := remove1 ''data/star_schema.db'' (open_conns w2)\<rparr>))"

subsection \<open>SnowflakeSchemaBuilder\<close>

definition snowflake_tables_to_drop :: "string list" where
  "snowflake_tables_to_drop =
     [''sales_facts'', ''dim_product'', ''dim_customer'', ''dim_salesperson'', ''dim_time'',
      ''dim_category'', ''dim_subcategory'', ''dim_city'', ''dim_region'', ''dim_country'']"

definition snowflake_table_definitions :: "(string \<times> table_rows) list" where
  "snowflake_table_definitions =
     [(''dim_country'', Countries []),
      (''dim_region'', Regions []),
      (''dim_city'', Cities []),
      (''dim_category'', Categories []),
      (''dim_subcategory'', Subcategories []),
      (''dim_product'', Products []),
      (''dim_customer'', Customers []),
      (''dim_salesperson'', SalesPeople []),
      (''dim_time'', Times []),
      (''sales_facts'', Sales [])]"

definition snowflake_indexes :: "(string \<times> string \<times> string) list" where
  "snowflake_indexes =
     [(''idx_sf_sales_time'', ''sales_facts'', ''time_id''),
      (''idx_sf_sales_product'', ''sales_facts'', ''product_id''),
      (''idx_sf_sales_customer'', ''sales_facts'', ''customer_id''),
      (''idx_sf_sales_salesperson'', ''sales_facts'', ''salesperson_id''),
      (''idx_sf_time_date'', ''dim_time'', ''date''),
      (''idx_sf_time_year'', ''dim_time'', ''year''),
      (''idx_sf_product_subcategory'', ''dim_product'', ''subcategory_id''),
      (''idx_sf_subcategory_category'', ''dim_subcategory'', ''category_id''),
      (''idx_sf_customer_city'', ''dim_customer'', ''city_id''),
      (''idx_sf_city_region'', ''dim_city'', ''region_id''),
      (''idx_sf_region_country'', ''dim_region'', ''country_id''),
      (''idx_sf_salesperson_region'', ''dim_salesperson'', ''region_id'')]"

definition create_snowflake_schema :: "store \<Rightarrow> (error + unit) \<times> store" where
  "create_snowflake_schema s =
     (let s1 = fold drop_table_if_exists snowflake_tables_to_drop s in
      case execute_all (\<lambda>(t, rows). create_table t rows) snowflake_table_definitions s1 of
        (Inl e, s2) \<Rightarrow> (Inl e, s2)
      | (Inr u, s2) \<Rightarrow> execute_all create_index snowflake_indexes s2)"

definition snowflake_load_data ::
    "dataset option \<Rightarrow> store \<Rightarrow> (error + (string \<times> nat) list) \<times> store" where
  "snowflake_load_data src s =
     (case src of
        None \<Rightarrow> (Inl FileNotFoundError, s)
      | Some d \<Rightarrow>
          let s1 = to_sql_replace ''dim_country'' (Countries (countries d)) s;
              s2 = to_sql_replace ''dim_region'' (Regions (regions d)) s1;
              s3 = to_sql_replace ''dim_city'' (Cities (cities d)) s2;
              s4 = to_sql_replace ''dim_category'' (Categories (categories d)) s3;
              s5 = to_sql_replace ''dim_subcategory'' (Subcategories (subcategories d)) s4;
              s6 = to_sql_replace ''dim_product'' (Products (products d)) s5;
              s7 = to_sql_replace ''dim_customer'' (Customers (customers d)) s6;
              s8 = to_sql_replace ''dim_salesperson'' (SalesPeople (sales_people d)) s7;
              s9 = to_sql_replace ''dim_time'' (Times (time_dimension d)) s8;
              s10 = to_sql_replace ''sales_facts'' (Sales (sales_facts d)) s9
          in (Inr [(''dim_country'', length (countries d)),
                   (''dim_region'', length (regions d)),
                   (''dim_city'', length (cities d)),
                   (''dim_category'', length (categories d)),
                   (''dim_subcategory'', length (subcategories d)),
                   (''dim_product'', length (products d)),
                   (''dim_customer'', length (customers d)),
                   (''dim_salesperson'', length (sales_people d)),
                   (''dim_time'', length (time_dimension d)),
                   (''sales_facts'', length (sales_facts d))], s10))"

definition snowflake_build ::
    "dataset option \<Rightarrow> store \<Rightarrow> (error + (string \<times> nat) list) \<times> store" where
  "snowflake_build src s =
     (case create_snowflake_schema s of
        (Inl e, s1) \<Rightarrow> (Inl e, s1)
      | (Inr u, s1) \<Rightarrow> snowflake_load_data src s1)"

definition snowflake_main :: "bool \<Rightarrow> dataset option \<Rightarrow> world \<Rightarrow> error option \<times> world" where
  "snowflake_main can_connect src w =
     (if \<not> can_connect then (Some OperationalError, w)
      else
        let w1 = w\<lparr>open_conns := open_conns w @ [''data/snowflake_schema.db'']\<rparr>;
            (r, s) = snowflake_build src (db w1);
            w2 = w1\<lparr>db := s\<rparr>
        in ((case r of Inl e \<Rightarrow> Some e | Inr stats \<Rightarrow> None),
            w2\<lparr>open_conns := remove1 ''data/snowflake_schema.db'' (open_conns w2)\<rparr>))"

text \<open>The empty dataset: ten CSV files holding their header rows only.\<close>

definition empty_dataset :: dataset where
  "empty_dataset = \<lparr>countries = [], regions = [], cities = [], categories = [],
     subcategories = [], products = [], customers = [], sales_people = [],
     time_dimension = [], sales_facts = []\<rparr>"

section \<open>The meaning of the five query pairs\<close>

text \<open>
  The SQL engine is not part of the repository; the queries are given the textbook meaning
  of their clauses. \<open>FROM ... JOIN ... ON\<close> is the inner join taken in the order of the text,
  \<open>WHERE\<close> filters the joined rows, \<open>GROUP BY\<close> forms one group for each key with the keys
  in ascending order, aggregates are exact sums and counts, \<open>HAVING\<close> filters the groups,
  \<open>ORDER BY\<close> sorts stably and \<open>LIMIT\<close> keeps a prefix. Rows whose sort keys tie keep the
  order of their group keys, in both stores alike.
\<close>

datatype sql_value = SqlInt int | SqlReal rat | SqlText string

definition sql_join :: "'a list \<Rightarrow> 'b list \<Rightarrow> ('a \<Rightarrow> 'b \<Rightarrow> bool) \<Rightarrow> ('a \<times> 'b) list" where
  "sql_join left right on = concat (map (\<lambda>l. map (Pair l) (filter (on l) right)) left)"

definition group_by :: "('r \<Rightarrow> 'k::linorder) \<Rightarrow> 'r list \<Rightarrow> ('k \<times> 'r list) list" where
  "group_by key rows =
     map (\<lambda>k. (k, filter (\<lambda>r. key r = k) rows)) (sort (remdups (map key rows)))"

definition order_by_desc :: "('a \<Rightarrow> rat) \<Rightarrow> 'a list \<Rightarrow> 'a list" where
  "order_by_desc f rows = sort_key (\<lambda>r. - f r) rows"

definition order_by_asc :: "('a \<Rightarrow> int) \<Rightarrow> 'a list \<Rightarrow> 'a list" where
  "order_by_asc f rows = sort_key f rows"

definition sql_avg :: "rat list \<Rightarrow> rat" where
  "sql_avg xs = sum_list xs / of_nat (length xs)"

definition count_distinct :: "'a list \<Rightarrow> int" where
  "count_distinct xs = int (length (remdups xs))"

text \<open>Reading a table of a store; a missing table, or one of another shape, is \<open>None\<close>.\<close>

definition sales_facts_of :: "store \<Rightarrow> sale_row list option" where
  "sales_facts_of s = (case tables s ''sales_facts'' of Some (Sales rs) \<Rightarrow> Some rs | _ \<Rightarrow> None)"

definition dim_time_of :: "store \<Rightarrow> time_row list option" where
  "dim_time_of s = (case tables s ''dim_time'' of Some (Times rs) \<Rightarrow> Some rs | _ \<Rightarrow> None)"

definition star_dim_product_of :: "store \<Rightarrow> dim_product_row list option" where
  "star_dim_product_of s =
     (case tables s ''dim_product'' of Some (DimProducts rs) \<Rightarrow> Some rs | _ \<Rightarrow> None)"

definition star_dim_customer_of :: "store \<Rightarrow> dim_customer_row list option" where
  "star_dim_customer_of s =
     (case tables s ''dim_customer'' of Some (DimCustomers rs) \<Rightarrow> Some rs | _ \<Rightarrow> None)"

definition star_dim_salesperson_of :: "store \<Rightarrow> dim_salesperson_row list option" where
  "star_dim_salesperson_of s =
     (case tables s ''dim_salesperson'' of Some (DimSalespeople rs) \<Rightarrow> Some rs | _ \<Rightarrow> None)"

definition dim_product_of :: "store \<Rightarrow> product_row list option" where
  "dim_product_of s =
     (case tables s ''dim_product'' of Some (Products rs) \<Rightarrow> Some rs | _ \<Rightarrow> None)"

definition dim_subcategory_of :: "store \<Rightarrow> subcategory_row list option" where
  "dim_subcategory_of s =
     (case tables s ''dim_subcategory'' of Some (Subcategories rs) \<Rightarrow> Some rs | _ \<Rightarrow> None)"

definition dim_category_of :: "store \<Rightarrow> category_row list option" where
  "dim_category_of s =
     (case tables s ''dim_category'' of Some (Categories rs) \<Rightarrow> Some rs | _ \<Rightarrow> None)"

definition dim_customer_of :: "store \<Rightarrow> customer_row list option" where
  "dim_customer_of s =
     (case tables s ''dim_customer'' of Some (Customers rs) \<Rightarrow> Some rs | _ \<Rightarrow> None)"

definition dim_city_of :: "store \<Rightarrow> city_row list option" where
  "dim_city_of s = (case tables s ''dim_city'' of Some (Cities rs) \<Rightarrow> Some rs | _ \<Rightarrow> None)"

definition dim_region_of :: "store \<Rightarrow> region_row list option" where
  "dim_region_of s = (case tables s ''dim_region'' of Some (Regions rs) \<Rightarrow> Some rs | _ \<Rightarrow> None)"

definition dim_country_of :: "store \<Rightarrow> country_row list option" where
  "dim_country_of s =
     (case tables s ''dim_country'' of Some (Countries rs) \<Rightarrow> Some rs | _ \<Rightarrow> None)"

definition dim_salesperson_of :: "store \<Rightarrow> salesperson_row list option" where
  "dim_salesperson_of s =
     (case tables s ''dim_salesperson'' of Some (SalesPeople rs) \<Rightarrow> Some rs | _ \<Rightarrow> None)"

text \<open>A query on a missing table raises.\<close>

definition or_raise :: "'a option \<Rightarrow> error + 'a" where
  "or_raise x = (case x of None \<Rightarrow> Inl OperationalError | Some v \<Rightarrow> Inr v)"

subsection \<open>1. Sales by region\<close>

text \<open>
  The clauses after the joins are the same text in both variants up to the alias of the
  region column; they are given once, on the columns (region name, total amount) of the
  joined rows.
\<close>

definition select_sales_by_region :: "(string \<times> rat) list \<Rightarrow> sql_value list list" where
  "select_sales_by_region rows =
     map (\<lambda>(region_name, g).
            [SqlText region_name, SqlReal (sum_list (map snd g)), SqlInt (int (length g)),
             SqlReal (sql_avg (map snd g))])
       (order_by_desc (\<lambda>(region_name, g). sum_list (map snd g)) (group_by fst rows))"

definition star_sales_by_region :: "store \<Rightarrow> error + sql_value list list" where
  "star_sales_by_region s = or_raise (do {
     sf \<leftarrow> sales_facts_of s;
     dc \<leftarrow> star_dim_customer_of s;
     Some (select_sales_by_region
       (map (\<lambda>(sf, dc). (dc_region_name dc, total_amount sf))
          (sql_join sf dc (\<lambda>sf dc. sale_customer_id sf = dc_customer_id dc))))
   })"

definition snowflake_sales_by_region :: "store \<Rightarrow> error + sql_value list list" where
  "snowflake_sales_by_region s = or_raise (do {
     sf \<leftarrow> sales_facts_of s;
     dc \<leftarrow> dim_customer_of s;
     dci \<leftarrow> dim_city_of s;
     dr \<leftarrow> dim_region_of s;
     Some (select_sales_by_region
       (map (\<lambda>(((sf, dc), dci), dr). (region_name dr, total_amount sf))
          (sql_join
             (sql_join
                (sql_join sf dc (\<lambda>sf dc. sale_customer_id sf = customer_id dc))
                dci (\<lambda>(sf, dc) dci. customer_city_id dc = city_id dci))
             dr (\<lambda>((sf, dc), dci) dr. city_region_id dci = region_id dr))))
   })"

subsection \<open>2. Top ten products\<close>

text \<open>Columns: product id, product name, category name, total amount, quantity.\<close>

definition select_top_products ::
    "(int \<times> string \<times> string \<times> rat \<times> int) list \<Rightarrow> sql_value list list" where
  "select_top_products rows =
     take 10
       (map (\<lambda>((pid, product_name, category_name), g).
               [SqlText product_name, SqlText category_name,
                SqlReal (sum_list (map (\<lambda>(pid, pn, cn, amount, qty). amount) g)),
                SqlInt (sum_list (map (\<lambda>(pid, pn, cn, amount, qty). qty) g))])
          (order_by_desc (\<lambda>(k, g). sum_list (map (\<lambda>(pid, pn, cn, amount, qty). amount) g))
             (group_by (\<lambda>(pid, pn, cn, amount, qty). (pid, pn, cn)) rows)))"

definition star_top_products :: "store \<Rightarrow> error + sql_value list list" where
  "star_top_products s = or_raise (do {
     sf \<leftarrow> sales_facts_of s;
     dp \<leftarrow> star_dim_product_of s;
     Some (select_top_products
       (map (\<lambda>(sf, dp). (dp_product_id dp, dp_product_name dp, dp_category_name dp,
                          total_amount sf, quantity sf))
          (sql_join sf dp (\<lambda>sf dp. sale_product_id sf = dp_product_id dp))))
   })"

definition snowflake_top_products :: "store \<Rightarrow> error + sql_value list list" where
  "snowflake_top_products s = or_raise (do {
     sf \<leftarrow> sales_facts_of s;
     dp \<leftarrow> dim_product_of s;
     dsub \<leftarrow> dim_subcategory_of s;
     dcat \<leftarrow> dim_category_of s;
     Some (select_top_products
       (map (\<lambda>(((sf, dp), dsub), dcat).
               (product_id dp, product_name dp, category_name dcat,
                total_amount sf, quantity sf))
          (sql_join
             (sql_join
                (sql_join sf dp (\<lambda>sf dp. sale_product_id sf = product_id dp))
                dsub (\<lambda>(sf, dp) dsub. product_subcategory_id dp = subcategory_id dsub))
             dcat (\<lambda>((sf, dp), dsub) dcat. subcategory_category_id dsub = category_id dcat))))
   })"

subsection \<open>3. Monthly trend of 2023\<close>

text \<open>Columns: month, month name, total amount; the two variants are the same text.\<close>

definition select_monthly_trend :: "(int \<times> string \<times> rat) list \<Rightarrow> sql_value list list" where
  "select_monthly_trend rows =
     map (\<lambda>((month, month_name), g).
            [SqlInt month, SqlText month_name,
             SqlReal (sum_list (map (\<lambda>(m, mn, amount). amount) g)), SqlInt (int (length g))])
       (order_by_asc (\<lambda>((month, month_name), g). month)
          (group_by (\<lambda>(m, mn, amount). (m, mn)) rows))"

definition star_monthly_trend :: "store \<Rightarrow> error + sql_value list list" where
  "star_monthly_trend s = or_raise (do {
     sf \<leftarrow> sales_facts_of s;
     dt \<leftarrow> dim_time_of s;
     Some (select_monthly_trend
       (map (\<lambda>(sf, dt). (month dt, month_name dt, total_amount sf))
          (filter (\<lambda>(sf, dt). year dt = 2023)
             (sql_join sf dt (\<lambda>sf dt. sale_time_id sf = time_id dt)))))
   })"

definition snowflake_monthly_trend :: "store \<Rightarrow> error + sql_value list list" where
  "snowflake_monthly_trend s = or_raise (do {
     sf \<leftarrow> sales_facts_of s;
     dt \<leftarrow> dim_time_of s;
     Some (select_monthly_trend
       (map (\<lambda>(sf, dt). (month dt, month_name dt, total_amount sf))
          (filter (\<lambda>(sf, dt). year dt = 2023)
             (sql_join sf dt (\<lambda>sf dt. sale_time_id sf = time_id dt)))))
   })"

subsection \<open>4. Salesperson performance\<close>

text \<open>Columns: salesperson id, salesperson name, region name, total amount.\<close>

definition select_salesperson_performance ::
    "(int \<times> string \<times> string \<times> rat) list \<Rightarrow> sql_value list list" where
  "select_salesperson_performance rows =
     take 20
       (map (\<lambda>((sid, salesperson_name, region_name), g).
               [SqlText salesperson_name, SqlText region_name,
                SqlReal (sum_list (map (\<lambda>(sid, sn, rn, amount). amount) g)),
                SqlInt (int (length g)),
                SqlReal (sql_avg (map (\<lambda>(sid, sn, rn, amount). amount) g))])
          (order_by_desc (\<lambda>(k, g). sum_list (map (\<lambda>(sid, sn, rn, amount). amount) g))
             (group_by (\<lambda>(sid, sn, rn, amount). (sid, sn, rn)) rows)))"

definition star_salesperson_performance :: "store \<Rightarrow> error + sql_value list list" where
  "star_salesperson_performance s = or_raise (do {
     sf \<leftarrow> sales_facts_of s;
     ds \<leftarrow> star_dim_salesperson_of s;
     Some (select_salesperson_performance
       (map (\<lambda>(sf, ds). (ds_salesperson_id ds, ds_salesperson_name ds, ds_region_name ds,
                          total_amount sf))
          (sql_join sf ds (\<lambda>sf ds. sale_salesperson_id sf = ds_salesperson_id ds))))
   })"

definition snowflake_salesperson_performance :: "store \<Rightarrow> error + sql_value list list" where
  "snowflake_salesperson_performance s = or_raise (do {
     sf \<leftarrow> sales_facts_of s;
     ds \<leftarrow> dim_salesperson_of s;
     dr \<leftarrow> dim_region_of s;
     Some (select_salesperson_performance
       (map (\<lambda>((sf, ds), dr). (salesperson_id ds, salesperson_name ds, region_name dr,
                                total_amount sf))
          (sql_join
             (sql_join sf ds (\<lambda>sf ds. sale_salesperson_id sf = salesperson_id ds))
             dr (\<lambda>(sf, ds) dr. salesperson_region_id ds = region_id dr))))
   })"

subsection \<open>5. Category by region by quarter\<close>

text \<open>The columns of the joined rows that the grouped query uses.\<close>

record analysis_row =
  a_category_name :: string
  a_region_name :: string
  a_quarter :: string
  a_year :: int
  a_total_amount :: rat
  a_quantity :: int
  a_discount :: rat
  a_customer_id :: int

definition select_complex_analysis :: "analysis_row list \<Rightarrow> sql_value list list" where
  "select_complex_analysis rows =
     map (\<lambda>((category_name, region_name, quarter, year), g).
            [SqlText category_name, SqlText region_name, SqlText quarter, SqlInt year,
             SqlReal (sum_list (map a_total_amount g)), SqlInt (sum_list (map a_quantity g)),
             SqlReal (sql_avg (map a_discount g)),
             SqlInt (count_distinct (map a_customer_id g))])
       (order_by_desc (\<lambda>(k, g). sum_list (map a_total_amount g))
          (filter (\<lambda>(k, g). sum_list (map a_total_amount g) > 10000)
             (group_by (\<lambda>r. (a_category_name r, a_region_name r, a_quarter r, a_year r))
                (filter (\<lambda>r. a_year r \<in> {2023, 2024}) rows))))"

definition star_complex_analysis :: "store \<Rightarrow> error + sql_value list list" where
  "star_complex_analysis s = or_raise (do {
     sf \<leftarrow> sales_facts_of s;
     dp \<leftarrow> star_dim_product_of s;
     dc \<leftarrow> star_dim_customer_of s;
     dt \<leftarrow> dim_time_of s;
     Some (select_complex_analysis
       (map (\<lambda>(((sf, dp), dc), dt).
               \<lparr>a_category_name = dp_category_name dp, a_region_name = dc_region_name dc,
                a_quarter = quarter dt, a_year = year dt, a_total_amount = total_amount sf,
                a_quantity = quantity sf, a_discount = discount sf,
                a_customer_id = sale_customer_id sf\<rparr>)
          (sql_join
             (sql_join
                (sql_join sf dp (\<lambda>sf dp. sale_product_id sf = dp_product_id dp))
                dc (\<lambda>(sf, dp) dc. sale_customer_id sf = dc_customer_id dc))
             dt (\<lambda>((sf, dp), dc) dt. sale_time_id sf = time_id dt))))
   })"

definition snowflake_complex_analysis :: "store \<Rightarrow> error + sql_value list list" where
  "snowflake_complex_analysis s = or_raise (do {
     sf \<leftarrow> sales_facts_of s;
     dp \<leftarrow> dim_product_of s;
     dsub \<leftarrow> dim_subcategory_of s;
     dcat \<leftarrow> dim_category_of s;
     dc \<leftarrow> dim_customer_of s;
     dci \<leftarrow> dim_city_of s;
     dr \<leftarrow> dim_region_of s;
     dt \<leftarrow> dim_time_of s;
     Some (select_complex_analysis
       (map (\<lambda>(((((((sf, dp), dsub), dcat), dc), dci), dr), dt).
               \<lparr>a_category_name = category_name dcat, a_region_name = region_name dr,
                a_quarter = quarter dt, a_year = year dt, a_total_amount = total_amount sf,
                a_quantity = quantity sf, a_discount = discount sf,
                a_customer_id = sale_customer_id sf\<rparr>)
          (sql_join (sql_join (sql_join (sql_join (sql_join (sql_join
             (sql_join sf dp (\<lambda>sf dp. sale_product_id sf = product_id dp))
             dsub (\<lambda>(sf, dp) dsub. product_subcategory_id dp = subcategory_id dsub))
             dcat (\<lambda>((sf, dp), dsub) dcat. subcategory_category_id dsub = category_id dcat))
             dc (\<lambda>(((sf, dp), dsub), dcat) dc. sale_customer_id sf = customer_id dc))
             dci (\<lambda>((((sf, dp), dsub), dcat), dc) dci. customer_city_id dc = city_id dci))
             dr (\<lambda>(((((sf, dp), dsub), dcat), dc), dci) dr. city_region_id dci = region_id dr))
             dt (\<lambda>((((((sf, dp), dsub), dcat), dc), dci), dr) dt.
                   sale_time_id sf = time_id dt))))
   })"

text \<open>
  The flat dataset resolves its region references when every region row's country id is the
  id of exactly one country row.
\<close>

definition regions_resolve :: "dataset \<Rightarrow> bool" where
  "regions_resolve d =
     list_all (\<lambda>r. length (filter (\<lambda>co. region_country_id r = country_id co) (countries d)) = 1)
       (regions d)"

text \<open>
  A dataset with a dangling region reference: one sale to a customer whose region names a
  country that is not in the country file.
\<close>

definition dangling_dataset :: dataset where
  "dangling_dataset = \<lparr>countries = [],
     regions = [\<lparr>region_id = 1, region_name = ''North'', region_country_id = 9\<rparr>],
     cities = [\<lparr>city_id = 1, city_name = ''Town'', city_region_id = 1\<rparr>],
     categories = [\<lparr>category_id = 1, category_name = ''Books''\<rparr>],
     subcategories = [\<lparr>subcategory_id = 1, subcategory_name = ''Novels'',
                        subcategory_category_id = 1\<rparr>],
     products = [\<lparr>product_id = 1, product_name = ''Book'', product_code = ''PRD00001'',
                   product_subcategory_id = 1, unit_price = 10\<rparr>],
     customers = [\<lparr>customer_id = 1, customer_name = ''Ann'', email = ''a@x.org'',
                    phone = ''1'', customer_city_id = 1,
                    registration_date = \<lparr>d_year = 2023, d_month = 1, d_day = 1\<rparr>\<rparr>],
     sales_people = [\<lparr>salesperson_id = 1, salesperson_name = ''Bob'',
                       hire_date = \<lparr>d_year = 2022, d_month = 1, d_day = 1\<rparr>,
                       salesperson_region_id = 1\<rparr>],
     time_dimension = [\<lparr>time_id = 1, date = \<lparr>d_year = 2023, d_month = 1, d_day = 2\<rparr>,
                         year = 2023, quarter = ''Q1'', month = 1, month_name = ''January'',
                         day = 2, weekday = 1, weekday_name = ''Monday''\<rparr>],
     sales_facts = [\<lparr>sale_id = 1, sale_time_id = 1, sale_product_id = 1,
                      sale_customer_id = 1, sale_salesperson_id = 1, quantity = 2,
                      sale_unit_price = 10, discount = 0, total_amount = 20\<rparr>]\<rparr>"

text \<open>The same dataset with the missing country added.\<close>

definition small_dataset :: dataset where
  "small_dataset = dangling_dataset\<lparr>countries :=
     [\<lparr>country_id = 9, country_name = ''Land''\<rparr>]\<rparr>"

section \<open>Embedded names and normalised chains\<close>

text \<open>
  The names a star dimension row embeds, by key, and the names reached in the snowflake
  store by following the parent references from the row of the same key: product to
  subcategory to category, customer to city to region to country, salesperson to region
  to country.
\<close>

definition embedded_product_names :: "store \<Rightarrow> (int \<times> string \<times> string) list option" where
  "embedded_product_names st = do {
     dp \<leftarrow> star_dim_product_of st;
     Some (map (\<lambda>r. (dp_product_id r, dp_subcategory_name r, dp_category_name r)) dp)
   }"

definition reached_product_names :: "store \<Rightarrow> (int \<times> string \<times> string) list option" where
  "reached_product_names sf = do {
     dp \<leftarrow> dim_product_of sf;
     dsub \<leftarrow> dim_subcategory_of sf;
     dcat \<leftarrow> dim_category_of sf;
     Some [(product_id p, subcategory_name s, category_name c).
             p \<leftarrow> dp, s \<leftarrow> dsub, product_subcategory_id p = subcategory_id s,
             c \<leftarrow> dcat, subcategory_category_id s = category_id c]
   }"

definition embedded_customer_names ::
    "store \<Rightarrow> (int \<times> string \<times> string \<times> string) list option" where
  "embedded_customer_names st = do {
     dc \<leftarrow> star_dim_customer_of st;
     Some (map (\<lambda>r. (dc_customer_id r, dc_city_name r, dc_region_name r, dc_country_name r)) dc)
   }"

definition reached_customer_names ::
    "store \<Rightarrow> (int \<times> string \<times> string \<times> string) list option" where
  "reached_customer_names sf = do {
     dc \<leftarrow> dim_customer_of sf;
     dci \<leftarrow> dim_city_of sf;
     dr \<leftarrow> dim_region_of sf;
     dco \<leftarrow> dim_country_of sf;
     Some [(customer_id c, city_name ci, region_name r, country_name co).
             c \<leftarrow> dc, ci \<leftarrow> dci, customer_city_id c = city_id ci,
             r \<leftarrow> dr, city_region_id ci = region_id r,
             co \<leftarrow> dco, region_country_id r = country_id co]
   }"

definition embedded_salesperson_names :: "store \<Rightarrow> (int \<times> string \<times> string) list option" where
  "embedded_salesperson_names st = do {
     ds \<leftarrow> star_dim_salesperson_of st;
     Some (map (\<lambda>r. (ds_salesperson_id r, ds_region_name r, ds_country_name r)) ds)
   }"

definition reached_salesperson_names :: "store \<Rightarrow> (int \<times> string \<times> string) list option" where
  "reached_salesperson_names sf = do {
     ds \<leftarrow> dim_salesperson_of sf;
     dr \<leftarrow> dim_region_of sf;
     dco \<leftarrow> dim_country_of sf;
     Some [(salesperson_id sp, region_name r, country_name co).
             sp \<leftarrow> ds, r \<leftarrow> dr, salesperson_region_id sp = region_id r,
             co \<leftarrow> dco, region_country_id r = country_id co]
   }"

section \<open>The dataset generator (generate\_data.py)\<close>

text \<open>
  The module constants and the literal name lists. Ukrainian text is kept as its UTF-8
  bytes.
\<close>

definition utf8 :: "nat list \<Rightarrow> string" where
  "utf8 bs = map char_of bs"

definition NUM_REGIONS :: nat where "NUM_REGIONS = 5"
definition NUM_CITIES :: nat where "NUM_CITIES = 20"
definition NUM_COUNTRIES :: nat where "NUM_COUNTRIES = 3"
definition NUM_CATEGORIES :: nat where "NUM_CATEGORIES = 8"
definition NUM_SUBCATEGORIES :: nat where "NUM_SUBCATEGORIES = 25"
definition NUM_PRODUCTS :: nat where "NUM_PRODUCTS = 500"
definition NUM_CUSTOMERS :: nat where "NUM_CUSTOMERS = 2000"
definition NUM_SALES_PEOPLE :: nat where "NUM_SALES_PEOPLE = 50"
definition NUM_SALES_RECORDS :: nat where "NUM_SALES_RECORDS = 50000"

definition country_names :: "string list" where
  "country_names =
     [utf8 [208, 163, 208, 186, 209, 128, 208, 176, 209, 151, 208, 189, 208, 176],
      utf8 [208, 159, 208, 190, 208, 187, 209, 140, 209, 137, 208, 176],
      utf8 [208, 157, 209, 150, 208, 188, 208, 181, 209, 135, 209, 135, 208, 184, 208, 189, 208, 176]]"

definition ukrainian_regions :: "string list" where
  "ukrainian_regions =
     [utf8 [208, 154, 208, 184, 209, 151, 208, 178, 209, 129, 209, 140, 208, 186, 208, 176],
      utf8 [208, 155, 209, 140, 208, 178, 209, 150, 208, 178, 209, 129, 209, 140, 208, 186, 208, 176],
      utf8 [208, 158, 208, 180, 208, 181, 209, 129, 209, 140, 208, 186, 208, 176],
      utf8 [208, 165, 208, 176, 209, 128, 208, 186, 209, 150, 208, 178, 209, 129, 209, 140, 208, 186, 208, 176],
      utf8 [208, 148, 208, 189, 209, 150, 208, 191, 209, 128, 208, 190, 208, 191, 208, 181, 209, 130, 209, 128, 208, 190, 208, 178, 209, 129, 209, 140, 208, 186, 208, 176]]"

definition ukrainian_cities :: "string list" where
  "ukrainian_cities =
     [utf8 [208, 154, 208, 184, 209, 151, 208, 178],
      utf8 [208, 155, 209, 140, 208, 178, 209, 150, 208, 178],
      utf8 [208, 158, 208, 180, 208, 181, 209, 129, 208, 176],
      utf8 [208, 165, 208, 176, 209, 128, 208, 186, 209, 150, 208, 178],
      utf8 [208, 148, 208, 189, 209, 150, 208, 191, 209, 128, 208, 190],
      utf8 [208, 151, 208, 176, 208, 191, 208, 190, 209, 128, 209, 150, 208, 182, 208, 182, 209, 143],
      utf8 [208, 146, 209, 150, 208, 189, 208, 189, 208, 184, 209, 134, 209, 143],
      utf8 [208, 159, 208, 190, 208, 187, 209, 130, 208, 176, 208, 178, 208, 176],
      utf8 [208, 167, 208, 181, 209, 128, 208, 189, 209, 150, 208, 178, 209, 134, 209, 150],
      utf8 [208, 134, 208, 178, 208, 176, 208, 189, 208, 190, 45, 208, 164, 209, 128, 208, 176, 208, 189, 208, 186, 209, 150, 208, 178, 209, 129, 209, 140, 208, 186],
      utf8 [208, 162, 208, 181, 209, 128, 208, 189, 208, 190, 208, 191, 209, 150, 208, 187, 209, 140],
      utf8 [208, 150, 208, 184, 209, 130, 208, 190, 208, 188, 208, 184, 209, 128],
      utf8 [208, 167, 208, 181, 209, 128, 208, 186, 208, 176, 209, 129, 208, 184],
      utf8 [208, 161, 209, 131, 208, 188, 208, 184],
      utf8 [208, 160, 209, 150, 208, 178, 208, 189, 208, 181],
      utf8 [208, 165, 208, 188, 208, 181, 208, 187, 209, 140, 208, 189, 208, 184, 209, 134, 209, 140, 208, 186, 208, 184, 208, 185],
      utf8 [208, 167, 208, 181, 209, 128, 208, 189, 209, 150, 208, 179, 209, 150, 208, 178],
      utf8 [208, 154, 209, 128, 208, 190, 208, 191, 208, 184, 208, 178, 208, 189, 208, 184, 209, 134, 209, 140, 208, 186, 208, 184, 208, 185],
      utf8 [208, 156, 208, 184, 208, 186, 208, 190, 208, 187, 208, 176, 209, 151, 208, 178],
      utf8 [208, 163, 208, 182, 208, 179, 208, 190, 209, 128, 208, 190, 208, 180]]"

definition category_names :: "string list" where
  "category_names =
     [utf8 [208, 149, 208, 187, 208, 181, 208, 186, 209, 130, 209, 128, 208, 190, 208, 189, 209, 150, 208, 186, 208, 176],
      utf8 [208, 158, 208, 180, 209, 143, 208, 179],
      utf8 [208, 154, 208, 189, 208, 184, 208, 179, 208, 184],
      utf8 [208, 148, 209, 150, 208, 188, 32, 209, 150, 32, 209, 129, 208, 176, 208, 180],
      utf8 [208, 161, 208, 191, 208, 190, 209, 128, 209, 130],
      utf8 [208, 144, 208, 178, 209, 130, 208, 190],
      utf8 [208, 154, 209, 128, 208, 176, 209, 129, 208, 176],
      utf8 [208, 135, 208, 182, 208, 176]]"

definition oblast_suffix :: string where
  "oblast_suffix = utf8 [32, 208, 190, 208, 177, 208, 187, 208, 176, 209, 129, 209, 130, 209, 140]"

definition subcategory_data :: "(int \<times> string list) list" where
  "subcategory_data =
     [(1, [utf8 [208, 161, 208, 188, 208, 176, 209, 128, 209, 130, 209, 132, 208, 190, 208, 189, 208, 184],
           utf8 [208, 157, 208, 190, 209, 131, 209, 130, 208, 177, 209, 131, 208, 186, 208, 184],
           utf8 [208, 162, 208, 181, 208, 187, 208, 181, 208, 178, 209, 150, 208, 183, 208, 190, 209, 128, 208, 184]]),
      (2, [utf8 [208, 161, 208, 190, 209, 128, 208, 190, 209, 135, 208, 186, 208, 184],
           utf8 [208, 148, 208, 182, 208, 184, 208, 189, 209, 129, 208, 184],
           utf8 [208, 146, 208, 183, 209, 131, 209, 130, 209, 130, 209, 143]]),
      (3, [utf8 [208, 164, 208, 176, 208, 189, 209, 130, 208, 176, 209, 129, 209, 130, 208, 184, 208, 186, 208, 176],
           utf8 [208, 148, 208, 181, 209, 130, 208, 181, 208, 186, 209, 130, 208, 184, 208, 178, 208, 184],
           utf8 [208, 157, 208, 176, 208, 178, 209, 135, 208, 176, 208, 187, 209, 140, 208, 189, 208, 176, 32, 208, 187, 209, 150, 209, 130, 208, 181, 209, 128, 208, 176, 209, 130, 209, 131, 209, 128, 208, 176]]),
      (4, [utf8 [208, 156, 208, 181, 208, 177, 208, 187, 209, 150],
           utf8 [208, 134, 208, 189, 209, 129, 209, 130, 209, 128, 209, 131, 208, 188, 208, 181, 208, 189, 209, 130, 208, 184],
           utf8 [208, 148, 208, 181, 208, 186, 208, 190, 209, 128]]),
      (5, [utf8 [208, 164, 209, 150, 209, 130, 208, 189, 208, 181, 209, 129],
           utf8 [208, 162, 209, 131, 209, 128, 208, 184, 208, 183, 208, 188],
           utf8 [208, 154, 208, 190, 208, 188, 208, 176, 208, 189, 208, 180, 208, 189, 209, 150, 32, 208, 178, 208, 184, 208, 180, 208, 184, 32, 209, 129, 208, 191, 208, 190, 209, 128, 209, 130, 209, 131]]),
      (6, [utf8 [208, 168, 208, 184, 208, 189, 208, 184],
           utf8 [208, 156, 208, 176, 209, 129, 208, 187, 208, 176],
           utf8 [208, 144, 208, 186, 209, 129, 208, 181, 209, 129, 209, 131, 208, 176, 209, 128, 208, 184]]),
      (7, [utf8 [208, 154, 208, 190, 209, 129, 208, 188, 208, 181, 209, 130, 208, 184, 208, 186, 208, 176],
           utf8 [208, 159, 208, 176, 209, 128, 209, 132, 209, 131, 208, 188, 208, 184],
           utf8 [208, 148, 208, 190, 208, 179, 208, 187, 209, 143, 208, 180]]),
      (8, [utf8 [208, 156, 39, 209, 143, 209, 129, 208, 190],
           utf8 [208, 158, 208, 178, 208, 190, 209, 135, 209, 150],
           utf8 [208, 161, 208, 190, 208, 187, 208, 190, 208, 180, 208, 190, 209, 137, 209, 150]])]"

subsection \<open>Sources of randomness and of fake text\<close>

text \<open>
  The generator draws from three sources: the \<open>random\<close> module, numpy's generator behind
  \<open>DataFrame.sample\<close>, and Faker. Each is an infinite stream fixed by the seed, read at a
  position that the generator advances. The properties below hold for every stream, hence
  for the streams of seed 42. \<open>str.capitalize\<close> on the fake words is the runtime's.
\<close>

record entropy =
  random_bits :: "nat \<Rightarrow> nat"
  numpy_bits :: "nat \<Rightarrow> nat"
  fake_text :: "nat \<Rightarrow> string"
  fake_date :: "nat \<Rightarrow> date"
  capitalize :: "string \<Rightarrow> string"

record gen_state =
  random_pos :: nat
  numpy_pos :: nat
  faker_pos :: nat

definition init_state :: gen_state where
  "init_state = \<lparr>random_pos = 0, numpy_pos = 0, faker_pos = 0\<rparr>"

text \<open>\<open>random.randint(a, b)\<close>, for \<open>a \<le> b\<close> as in every call of the generator.\<close>

definition randint :: "entropy \<Rightarrow> int \<Rightarrow> int \<Rightarrow> gen_state \<Rightarrow> int \<times> gen_state" where
  "randint e a b s =
     (a + int (random_bits e (random_pos s)) mod (b - a + 1),
      s\<lparr>random_pos := Suc (random_pos s)\<rparr>)"

text \<open>
  \<open>random.uniform(a, b)\<close> is \<open>a + (b - a) * random()\<close>, and \<open>random()\<close> is a multiple of
  \<open>2\<^sup>-\<^sup>5\<^sup>3\<close> below 1.
\<close>

definition uniform :: "entropy \<Rightarrow> rat \<Rightarrow> rat \<Rightarrow> gen_state \<Rightarrow> rat \<times> gen_state" where
  "uniform e a b s =
     (a + (b - a) * (of_nat (random_bits e (random_pos s) mod 2 ^ 53) / 2 ^ 53),
      s\<lparr>random_pos := Suc (random_pos s)\<rparr>)"

definition fake :: "entropy \<Rightarrow> gen_state \<Rightarrow> string \<times> gen_state" where
  "fake e s = (fake_text e (faker_pos s), s\<lparr>faker_pos := Suc (faker_pos s)\<rparr>)"

definition date_between :: "entropy \<Rightarrow> gen_state \<Rightarrow> date \<times> gen_state" where
  "date_between e s = (fake_date e (faker_pos s), s\<lparr>faker_pos := Suc (faker_pos s)\<rparr>)"

text \<open>\<open>df.sample(1).iloc[0]\<close>: one row of the frame; an empty frame raises ValueError.\<close>

definition sample_one :: "entropy \<Rightarrow> 'a list \<Rightarrow> gen_state \<Rightarrow> error + ('a \<times> gen_state)" where
  "sample_one e rows s =
     (if rows = [] then Inl ValueError
      else Inr (rows ! (numpy_bits e (numpy_pos s) mod length rows),
                s\<lparr>numpy_pos := Suc (numpy_pos s)\<rparr>))"

text \<open>\<open>round(x, n)\<close>: to the nearest multiple of \<open>10\<^sup>-\<^sup>n\<close>, a tie to the even one.\<close>

definition round_half_even :: "rat \<Rightarrow> int" where
  "round_half_even y =
     (let f = \<lfloor>y\<rfloor>; r = y - of_int f in
      if r < 1 / 2 then f else if r > 1 / 2 then f + 1 else if even f then f else f + 1)"

definition py_round :: "rat \<Rightarrow> nat \<Rightarrow> rat" where
  "py_round x n = of_int (round_half_even (x * 10 ^ n)) / 10 ^ n"

subsection \<open>Text formatting\<close>

fun decimal :: "nat \<Rightarrow> string" where
  "decimal n =
     (if n < 10 then [char_of (48 + n)] else decimal (n div 10) @ [char_of (48 + n mod 10)])"

declare decimal.simps [simp del]

text \<open>\<open>f'{i}'\<close> and \<open>f'{i:05d}'\<close> for an integer.\<close>

definition format_int :: "int \<Rightarrow> string" where
  "format_int i = (if i < 0 then CHR ''-'' # decimal (nat (- i)) else decimal (nat i))"

definition format_05d :: "int \<Rightarrow> string" where
  "format_05d i =
     (if i < 0 then CHR ''-'' # replicate (4 - length (decimal (nat (- i)))) CHR ''0''
                      @ decimal (nat (- i))
      else replicate (5 - length (decimal (nat i))) CHR ''0'' @ decimal (nat i))"

fun enumerate_from :: "int \<Rightarrow> 'a list \<Rightarrow> (int \<times> 'a) list" where
  "enumerate_from i [] = []"
| "enumerate_from i (x # xs) = (i, x) # enumerate_from (i + 1) xs"

subsection \<open>Dates\<close>

text \<open>
  The calendar of Python's \<open>datetime\<close>: leap years, month lengths, the proleptic Gregorian
  ordinal with 1 for 0001-01-01, the weekday with Monday as 0, the successor of a day
  (\<open>+ timedelta(days=1)\<close>), the comparison of dates, and the month and weekday names that
  \<open>strftime\<close> gives in the C locale.
\<close>

definition is_leap :: "int \<Rightarrow> bool" where
  "is_leap y = (y mod 4 = 0 \<and> (y mod 100 \<noteq> 0 \<or> y mod 400 = 0))"

definition days_in_month :: "int \<Rightarrow> int \<Rightarrow> int" where
  "days_in_month y m =
     (if m = 2 then (if is_leap y then 29 else 28)
      else if m = 4 \<or> m = 6 \<or> m = 9 \<or> m = 11 then 30 else 31)"

definition days_before_year :: "int \<Rightarrow> int" where
  "days_before_year y = (let y1 = y - 1 in y1 * 365 + y1 div 4 - y1 div 100 + y1 div 400)"

text \<open>A date object always has a month from 1 to 12; outside of it the count is 0 here.\<close>

definition days_before_month :: "int \<Rightarrow> int \<Rightarrow> int" where
  "days_before_month y m =
     (if 1 \<le> m \<and> m \<le> 12
      then [0, 31, 59, 90, 120, 151, 181, 212, 243, 273, 304, 334] ! nat (m - 1)
             + (if m > 2 \<and> is_leap y then 1 else 0)
      else 0)"

definition toordinal :: "date \<Rightarrow> int" where
  "toordinal dt = days_before_year (d_year dt) + days_before_month (d_year dt) (d_month dt)
                    + d_day dt"

definition py_weekday :: "date \<Rightarrow> int" where
  "py_weekday dt = (toordinal dt + 6) mod 7"

definition add_one_day :: "date \<Rightarrow> date" where
  "add_one_day dt =
     (if d_day dt < days_in_month (d_year dt) (d_month dt) then dt\<lparr>d_day := d_day dt + 1\<rparr>
      else if d_month dt < 12 then dt\<lparr>d_month := d_month dt + 1, d_day := 1\<rparr>
      else \<lparr>d_year = d_year dt + 1, d_month = 1, d_day = 1\<rparr>)"

definition date_le :: "date \<Rightarrow> date \<Rightarrow> bool" where
  "date_le a b =
     (d_year a < d_year b
      \<or> (d_year a = d_year b
          \<and> (d_month a < d_month b \<or> (d_month a = d_month b \<and> d_day a \<le> d_day b))))"

definition valid_date :: "date \<Rightarrow> bool" where
  "valid_date dt = (1 \<le> d_month dt \<and> d_month dt \<le> 12 \<and> 1 \<le> d_day dt
                     \<and> d_day dt \<le> days_in_month (d_year dt) (d_month dt))"

definition month_names :: "string list" where
  "month_names = [''January'', ''February'', ''March'', ''April'', ''May'', ''June'', ''July'',
     ''August'', ''September'', ''October'', ''November'', ''December'']"

definition day_names :: "string list" where
  "day_names = [''Monday'', ''Tuesday'', ''Wednesday'', ''Thursday'', ''Friday'', ''Saturday'',
     ''Sunday'']"

definition strftime_B :: "date \<Rightarrow> string" where
  "strftime_B dt =
     (if 1 \<le> d_month dt \<and> d_month dt \<le> 12 then month_names ! nat (d_month dt - 1) else [])"

definition strftime_A :: "date \<Rightarrow> string" where
  "strftime_A dt = day_names ! nat (py_weekday dt)"

subsection \<open>generate\_geography\_data\<close>

fun cities_loop ::
    "entropy \<Rightarrow> (int \<times> string) list \<Rightarrow> gen_state \<Rightarrow> city_row list \<times> gen_state" where
  "cities_loop e [] s = ([], s)"
| "cities_loop e ((i, city) # rest) s =
     (let (rid, s1) = randint e 1 (int NUM_REGIONS) s;
          (rows, s2) = cities_loop e rest s1
      in (\<lparr>city_id = i, city_name = city, city_region_id = rid\<rparr> # rows, s2))"

definition generate_geography_data ::
    "entropy \<Rightarrow> gen_state \<Rightarrow> (country_row list \<times> region_row list \<times> city_row list) \<times> gen_state" where
  "generate_geography_data e s =
     (let countries_df = map (\<lambda>(i, name). \<lparr>country_id = i, country_name = name\<rparr>)
                        (enumerate_from 1 country_names);
          regions_df = map (\<lambda>(i, region). \<lparr>region_id = i, region_name = region @ oblast_suffix,
                                          region_country_id = 1\<rparr>)
                      (enumerate_from 1 ukrainian_regions);
          (cities_df, s1) = cities_loop e (enumerate_from 1 ukrainian_cities) s
      in ((countries_df, regions_df, cities_df), s1))"

subsection \<open>generate\_product\_data\<close>

fun subcategories_loop :: "(int \<times> string list) list \<Rightarrow> int \<Rightarrow> subcategory_row list" where
  "subcategories_loop [] sid = []"
| "subcategories_loop ((cid, subcats) # rest) sid =
     map (\<lambda>(k, name). \<lparr>subcategory_id = k, subcategory_name = name,
                        subcategory_category_id = cid\<rparr>) (enumerate_from sid subcats)
       @ subcategories_loop rest (sid + int (length subcats))"

text \<open>The loop \<open>for i in range(1, NUM_PRODUCTS + 1)\<close>, by the number of rounds left.\<close>

fun products_loop ::
    "entropy \<Rightarrow> subcategory_row list \<Rightarrow> nat \<Rightarrow> int \<Rightarrow> gen_state \<Rightarrow> product_row list \<times> gen_state" where
  "products_loop e subcategories_df 0 i s = ([], s)"
| "products_loop e subcategories_df (Suc n) i s =
     (let (sid, s1) = randint e 1 (int (length subcategories_df)) s;
          (w1, s2) = fake e s1;
          (w2, s3) = fake e s2;
          (price, s4) = uniform e 10 5000 s3;
          (rows, s5) = products_loop e subcategories_df n (i + 1) s4
      in (\<lparr>product_id = i,
           product_name = capitalize e w1 @ '' '' @ capitalize e w2,
           product_code = ''PRD'' @ format_05d i,
           product_subcategory_id = sid,
           unit_price = py_round price 2\<rparr> # rows, s5))"

definition generate_product_data ::
    "entropy \<Rightarrow> gen_state
      \<Rightarrow> (category_row list \<times> subcategory_row list \<times> product_row list) \<times> gen_state" where
  "generate_product_data e s =
     (let categories_df = map (\<lambda>(i, name). \<lparr>category_id = i, category_name = name\<rparr>)
                         (enumerate_from 1 category_names);
          subcategories_df = subcategories_loop subcategory_data 1;
          (products_df, s1) = products_loop e subcategories_df NUM_PRODUCTS 1 s
      in ((categories_df, subcategories_df, products_df), s1))"

subsection \<open>generate\_customer\_data and generate\_sales\_people\_data\<close>

fun customers_loop ::
    "entropy \<Rightarrow> nat \<Rightarrow> int \<Rightarrow> gen_state \<Rightarrow> customer_row list \<times> gen_state" where
  "customers_loop e 0 i s = ([], s)"
| "customers_loop e (Suc n) i s =
     (let (name, s1) = fake e s;
          (mail, s2) = fake e s1;
          (ph, s3) = fake e s2;
          (cid, s4) = randint e 1 (int NUM_CITIES) s3;
          (reg, s5) = date_between e s4;
          (rows, s6) = customers_loop e n (i + 1) s5
      in (\<lparr>customer_id = i, customer_name = name, email = mail, phone = ph,
           customer_city_id = cid, registration_date = reg\<rparr> # rows, s6))"

definition generate_customer_data :: "entropy \<Rightarrow> gen_state \<Rightarrow> customer_row list \<times> gen_state" where
  "generate_customer_data e s = customers_loop e NUM_CUSTOMERS 1 s"

fun sales_people_loop ::
    "entropy \<Rightarrow> nat \<Rightarrow> int \<Rightarrow> gen_state \<Rightarrow> salesperson_row list \<times> gen_state" where
  "sales_people_loop e 0 i s = ([], s)"
| "sales_people_loop e (Suc n) i s =
     (let (name, s1) = fake e s;
          (hired, s2) = date_between e s1;
          (rid, s3) = randint e 1 (int NUM_REGIONS) s2;
          (rows, s4) = sales_people_loop e n (i + 1) s3
      in (\<lparr>salesperson_id = i, salesperson_name = name, hire_date = hired,
           salesperson_region_id = rid\<rparr> # rows, s4))"

definition generate_sales_people_data ::
    "entropy \<Rightarrow> gen_state \<Rightarrow> salesperson_row list \<times> gen_state" where
  "generate_sales_people_data e s = sales_people_loop e NUM_SALES_PEOPLE 1 s"

subsection \<open>generate\_time\_data\<close>

definition mk_time_record :: "int \<Rightarrow> date \<Rightarrow> time_row" where
  "mk_time_record tid current_date =
     \<lparr>time_id = tid, date = current_date, year = d_year current_date,
      quarter = ''Q'' @ format_int ((d_month current_date - 1) div 3 + 1),
      month = d_month current_date, month_name = strftime_B current_date,
      day = d_day current_date, weekday = py_weekday current_date + 1,
      weekday_name = strftime_A current_date\<rparr>"

function time_loop :: "date \<Rightarrow> date \<Rightarrow> int \<Rightarrow> time_row list" where
  "time_loop current_date end_date tid =
     (if date_le current_date end_date
      then mk_time_record tid current_date # time_loop (add_one_day current_date) end_date (tid + 1)
      else [])"
  by pat_completeness auto
termination
  by (relation "measures [\<lambda>(c, e, t). nat (d_year e + 1 - d_year c),
                           \<lambda>(c, e, t). nat (12 - d_month c),
                           \<lambda>(c, e, t). nat (31 - d_day c)]")
    (auto simp: add_one_day_def date_le_def days_in_month_def split: if_splits)

declare time_loop.simps [simp del]

definition generate_time_data :: "time_row list" where
  "generate_time_data =
     time_loop \<lparr>d_year = 2022, d_month = 1, d_day = 1\<rparr> \<lparr>d_year = 2024, d_month = 12, d_day = 31\<rparr> 1"

subsection \<open>generate\_sales\_data\<close>

fun sales_loop ::
    "entropy \<Rightarrow> time_row list \<Rightarrow> product_row list \<Rightarrow> customer_row list \<Rightarrow> salesperson_row list
      \<Rightarrow> nat \<Rightarrow> int \<Rightarrow> gen_state \<Rightarrow> error + (sale_row list \<times> gen_state)" where
  "sales_loop e time_df products_df customers_df sales_people_df 0 i s = Inr ([], s)"
| "sales_loop e time_df products_df customers_df sales_people_df (Suc n) i s =
     (case sample_one e time_df s of
        Inl err \<Rightarrow> Inl err
      | Inr (time_record, s1) \<Rightarrow>
     (case sample_one e products_df s1 of
        Inl err \<Rightarrow> Inl err
      | Inr (product_record, s2) \<Rightarrow>
     (case sample_one e customers_df s2 of
        Inl err \<Rightarrow> Inl err
      | Inr (customer_record, s3) \<Rightarrow>
     (case sample_one e sales_people_df s3 of
        Inl err \<Rightarrow> Inl err
      | Inr (salesperson_record, s4) \<Rightarrow>
          (let (qty, s5) = randint e 1 10 s4;
               price = unit_price product_record;
               (u, s6) = uniform e 0 (2 / 10) s5;
               disc = py_round u 3;
               total = py_round (of_int qty * price * (1 - disc)) 2
           in (case sales_loop e time_df products_df customers_df sales_people_df n (i + 1) s6 of
                 Inl err \<Rightarrow> Inl err
               | Inr (rows, s7) \<Rightarrow>
                   Inr (\<lparr>sale_id = i, sale_time_id = time_id time_record,
                         sale_product_id = product_id product_record,
                         sale_customer_id = customer_id customer_record,
                         sale_salesperson_id = salesperson_id salesperson_record,
                         quantity = qty, sale_unit_price = price, discount = disc,
                         total_amount = total\<rparr> # rows, s7)))))))"

definition generate_sales_data ::
    "entropy \<Rightarrow> time_row list \<Rightarrow> product_row list \<Rightarrow> customer_row list \<Rightarrow> salesperson_row list
      \<Rightarrow> gen_state \<Rightarrow> error + (sale_row list \<times> gen_state)" where
  "generate_sales_data e time_df products_df customers_df sales_people_df s =
     sales_loop e time_df products_df customers_df sales_people_df NUM_SALES_RECORDS 1 s"

subsection \<open>save\_data\_to\_csv\<close>

text \<open>The ten frames in the order of their generation; the result is what the CSV files hold.\<close>

definition save_data_to_csv :: "entropy \<Rightarrow> error + dataset" where
  "save_data_to_csv e =
     (let ((countries_df, regions_df, cities_df), s1) = generate_geography_data e init_state;
          ((categories_df, subcategories_df, products_df), s2) = generate_product_data e s1;
          (customers_df, s3) = generate_customer_data e s2;
          (sales_people_df, s4) = generate_sales_people_data e s3;
          time_df = generate_time_data
      in case generate_sales_data e time_df products_df customers_df sales_people_df s4 of
           Inl err \<Rightarrow> Inl err
         | Inr (sales_df, s5) \<Rightarrow>
             Inr \<lparr>countries = countries_df, regions = regions_df, cities = cities_df,
                  categories = categories_df, subcategories = subcategories_df,
                  products = products_df, customers = customers_df,
                  sales_people = sales_people_df, time_dimension = time_df,
                  sales_facts = sales_df\<rparr>)"

text \<open>A concrete source: every draw is 0, every fake text is empty.\<close>

definition zero_entropy :: entropy where
  "zero_entropy = \<lparr>random_bits = (\<lambda>n. 0), numpy_bits = (\<lambda>n. 0), fake_text = (\<lambda>n. []),
     fake_date = (\<lambda>n. \<lparr>d_year = 2023, d_month = 1, d_day = 1\<rparr>), capitalize = (\<lambda>w. w)\<rparr>"

section \<open>Referential integrity\<close>

text \<open>
  Every foreign key of every fact row is the key of a row of its dimension: in the flat
  dataset, in the star store and in the snowflake store. A store that lacks one of the
  tables does not qualify.
\<close>

definition dataset_keys_resolve :: "dataset \<Rightarrow> bool" where
  "dataset_keys_resolve d =
     list_all (\<lambda>f. sale_time_id f \<in> set (map time_id (time_dimension d))
                  \<and> sale_product_id f \<in> set (map product_id (products d))
                  \<and> sale_customer_id f \<in> set (map customer_id (customers d))
                  \<and> sale_salesperson_id f \<in> set (map salesperson_id (sales_people d)))
       (sales_facts d)"

definition star_keys_resolve :: "store \<Rightarrow> bool" where
  "star_keys_resolve st =
     (do {
        sf \<leftarrow> sales_facts_of st;
        dt \<leftarrow> dim_time_of st;
        dp \<leftarrow> star_dim_product_of st;
        dc \<leftarrow> star_dim_customer_of st;
        ds \<leftarrow> star_dim_salesperson_of st;
        Some (list_all (\<lambda>f. sale_time_id f \<in> set (map time_id dt)
                            \<and> sale_product_id f \<in> set (map dp_product_id dp)
                            \<and> sale_customer_id f \<in> set (map dc_customer_id dc)
                            \<and> sale_salesperson_id f \<in> set (map ds_salesperson_id ds)) sf)
      } = Some True)"

definition snowflake_keys_resolve :: "store \<Rightarrow> bool" where
  "snowflake_keys_resolve s =
     (do {
        sf \<leftarrow> sales_facts_of s;
        dt \<leftarrow> dim_time_of s;
        dp \<leftarrow> dim_product_of s;
        dc \<leftarrow> dim_customer_of s;
        ds \<leftarrow> dim_salesperson_of s;
        Some (list_all (\<lambda>f. sale_time_id f \<in> set (map time_id dt)
                            \<and> sale_product_id f \<in> set (map product_id dp)
                            \<and> sale_customer_id f \<in> set (map customer_id dc)
                            \<and> sale_salesperson_id f \<in> set (map salesperson_id ds)) sf)
      } = Some True)"

section \<open>Properties of the query suite\<close>

lemma sql_words_blank:
  "is_blank c \<Longrightarrow> sql_words w (xs @ c # ys) = sql_words w xs @ sql_words [] ys"
  by (induction xs arbitrary: w) auto

lemma sql_words_py_lines:
  "sql_words [] (py_lines ls) = concat (map (sql_words []) ls)"
proof (induction ls rule: py_lines.induct)
  case (3 l v va)
  have "is_blank (CHR ''\<newline>'')" by (simp add: is_blank_def)
  from sql_words_blank[OF this] 3 show ?case by simp
qed simp_all

text \<open>Words never span lines, so the hops of a text are the hops of its lines.\<close>

lemma join_hops_py_lines:
  "join_hops (py_lines ls) = sum_list (map join_hops ls)"
  unfolding join_hops_def sql_words_py_lines
  by (induction ls) simp_all

lemma join_hops_sales_by_region_star: "join_hops sales_by_region_star = 1"
  unfolding sales_by_region_star_def join_hops_py_lines
  by (simp add: join_hops_def is_blank_def)

lemma join_hops_sales_by_region_snowflake: "join_hops sales_by_region_snowflake = 3"
  unfolding sales_by_region_snowflake_def join_hops_py_lines
  by (simp add: join_hops_def is_blank_def)

lemma join_hops_top_products_star: "join_hops top_products_star = 1"
  unfolding top_products_star_def join_hops_py_lines
  by (simp add: join_hops_def is_blank_def)

lemma join_hops_top_products_snowflake: "join_hops top_products_snowflake = 3"
  unfolding top_products_snowflake_def join_hops_py_lines
  by (simp add: join_hops_def is_blank_def)

lemma join_hops_monthly_trend_star: "join_hops monthly_trend_star = 1"
  unfolding monthly_trend_star_def join_hops_py_lines
  by (simp add: join_hops_def is_blank_def)

lemma join_hops_monthly_trend_snowflake: "join_hops monthly_trend_snowflake = 1"
  unfolding monthly_trend_snowflake_def join_hops_py_lines
  by (simp add: join_hops_def is_blank_def)

lemma join_hops_salesperson_performance_star: "join_hops salesperson_performance_star = 1"
  unfolding salesperson_performance_star_def join_hops_py_lines
  by (simp add: join_hops_def is_blank_def)

lemma join_hops_salesperson_performance_snowflake: "join_hops salesperson_performance_snowflake = 2"
  unfolding salesperson_performance_snowflake_def join_hops_py_lines
  by (simp add: join_hops_def is_blank_def)

lemma join_hops_complex_analysis_star: "join_hops complex_analysis_star = 3"
  unfolding complex_analysis_star_def join_hops_py_lines
  by (simp add: join_hops_def is_blank_def)

lemma join_hops_complex_analysis_snowflake: "join_hops complex_analysis_snowflake = 7"
  unfolding complex_analysis_snowflake_def join_hops_py_lines
  by (simp add: join_hops_def is_blank_def)

lemma monthly_trend_same_text: "monthly_trend_star = monthly_trend_snowflake"
  by (simp add: monthly_trend_star_def monthly_trend_snowflake_def)

text \<open>
  Claim C9: the suite has exactly five entries; the SQL of the third entry is the same text
  in both variants; in each of the other four entries the snowflake text has strictly more
  join hops than the star text.
\<close>

theorem query_suite_join_hops:
  "length get_analytical_queries = 5
   \<and> star_sql (get_analytical_queries ! 2) = snowflake_sql (get_analytical_queries ! 2)
   \<and> join_hops (star_sql (get_analytical_queries ! 0))
       < join_hops (snowflake_sql (get_analytical_queries ! 0))
   \<and> join_hops (star_sql (get_analytical_queries ! 1))
       < join_hops (snowflake_sql (get_analytical_queries ! 1))
   \<and> join_hops (star_sql (get_analytical_queries ! 3))
       < join_hops (snowflake_sql (get_analytical_queries ! 3))
   \<and> join_hops (star_sql (get_analytical_queries ! 4))
       < join_hops (snowflake_sql (get_analytical_queries ! 4))"
  by (simp add: get_analytical_queries_def star_sql_def snowflake_sql_def
      monthly_trend_same_text
      join_hops_sales_by_region_star join_hops_sales_by_region_snowflake join_hops_top_products_star join_hops_top_products_snowflake
      join_hops_monthly_trend_star
      join_hops_monthly_trend_snowflake
      join_hops_salesperson_performance_star
      join_hops_salesperson_performance_snowflake
      join_hops_complex_analysis_star join_hops_complex_analysis_snowflake)

section \<open>Properties of the comparator's run and report\<close>

lemma ratio_lines_zero: "0 < t \<Longrightarrow> ratio_lines 0 t = Inl ZeroDivisionError"
  by (simp add: ratio_lines_def py_truediv_def)

lemma detail_lines_error: "detail_lines i r = Inl e \<Longrightarrow> e = ZeroDivisionError"
  by (auto simp: detail_lines_def py_truediv_def Let_def split: if_splits sum.splits)

lemma detail_lines_zero:
  "0 < star_time_ms r \<Longrightarrow> snowflake_time_ms r = 0 \<Longrightarrow> detail_lines i r = Inl ZeroDivisionError"
  by (simp add: detail_lines_def py_truediv_def)

lemma detail_loop_zero:
  "r \<in> set rs \<Longrightarrow> 0 < star_time_ms r \<Longrightarrow> snowflake_time_ms r = 0
   \<Longrightarrow> detail_loop i rs = Inl ZeroDivisionError"
proof (induction rs arbitrary: i)
  case Nil
  then show ?case by simp
next
  case (Cons a rs)
  show ?case
  proof (cases "detail_lines i a")
    case (Inl e)
    then show ?thesis using detail_lines_error[OF Inl] by simp
  next
    case (Inr ms)
    with Cons.prems detail_lines_zero[of a i] have "r \<in> set rs" by auto
    from Cons.IH[OF this Cons.prems(2,3)] Inr show ?thesis by simp
  qed
qed

text \<open>
  Claim C10: the ratio reporting is not total. In the measurement loop a star time of
  exactly 0 with a positive snowflake time gives the ratio 0, and the branch for a faster
  star store divides by it; in the detailed report a snowflake time of exactly 0 with a
  positive star time runs into the same division. Both procedures then raise
  ZeroDivisionError instead of reporting.
\<close>

theorem ratio_report_not_total:
  "(connectable eng (star_db s) \<and> connectable eng (snowflake_db s)
      \<and> run_query eng (star_db s) sales_by_region_star = Inr (0, rows1)
      \<and> run_query eng (snowflake_db s) sales_by_region_snowflake = Inr (t, rows2) \<and> 0 < t
     \<longrightarrow> fst (run_performance_tests eng s) = Inl ZeroDivisionError)
   \<and> (r \<in> set (results c) \<and> 0 < star_time_ms r \<and> snowflake_time_ms r = 0
     \<longrightarrow> fst (print_detailed_results c) = Inl ZeroDivisionError)"
  by (auto simp: run_performance_tests_def connect_to_db_def get_analytical_queries_def
      execute_query_with_timing_def print_def ratio_lines_zero print_detailed_results_def
      detail_loop_zero)

theorem ratio_report_not_total_witness:
  "fst (run_performance_tests instant_star_engine init_comparator) = Inl ZeroDivisionError
   \<and> fst (print_detailed_results ((init_comparator :: unit comparator)\<lparr>results :=
        [\<lparr>query_name = sales_by_region_name, star_time_ms = 1, snowflake_time_ms = 0,
          star_results = [], snowflake_results = []\<rparr>]\<rparr>)) = Inl ZeroDivisionError"
  using ratio_report_not_total [of instant_star_engine init_comparator "[]" 1 "[]"
      "\<lparr>query_name = sales_by_region_name, star_time_ms = 1, snowflake_time_ms = 0,
          star_results = [], snowflake_results = []\<rparr>"
      "(init_comparator :: unit comparator)\<lparr>results :=
        [\<lparr>query_name = sales_by_region_name, star_time_ms = 1, snowflake_time_ms = 0,
          star_results = [], snowflake_results = []\<rparr>]\<rparr>"]
  by (simp add: instant_star_engine_def init_comparator_def)

text \<open>
  Claim C8: every entry point closes the connections it opened, on normal completion and
  on any exception. The comparator's run does not: when the first query raises, the
  exception leaves \<open>run_performance_tests\<close> with both connections still open.
\<close>

theorem comparator_leaves_connections_open:
  "fst (run_performance_tests unbuilt_engine init_comparator) = Inl OperationalError
   \<and> open_connections (snd (run_performance_tests unbuilt_engine init_comparator))
       = [''data/star_schema.db'', ''data/snowflake_schema.db'']"
  by (simp add: run_performance_tests_def connect_to_db_def get_analytical_queries_def
      execute_query_with_timing_def print_def unbuilt_engine_def init_comparator_def)

section \<open>Properties of the schema builders\<close>

lemma fold_drop_tables:
  "tables (fold drop_table_if_exists ts s) = (\<lambda>t. if t \<in> set ts then None else tables s t)"
  by (induction ts arbitrary: s) (auto simp: drop_table_if_exists_def)

lemma fold_drop_indexes:
  "indexes (fold drop_table_if_exists ts s)
     = filter (\<lambda>(i, t, c). t \<notin> set ts) (indexes s)"
proof (induction ts arbitrary: s)
  case Nil
  then show ?case by simp
next
  case (Cons a ts)
  have "indexes (fold drop_table_if_exists (a # ts) s)
      = filter (\<lambda>(i, t, c). t \<notin> set ts) (indexes (drop_table_if_exists a s))"
    using Cons[of "drop_table_if_exists a s"] by simp
  also have "\<dots> = filter (\<lambda>(i, t, c). t \<notin> set (a # ts)) (indexes s)"
    by (auto simp: drop_table_if_exists_def intro!: filter_cong)
  finally show ?case .
qed

lemma execute_all_create_index:
  "\<exists>k. snd (execute_all create_index ixs s) = s\<lparr>indexes := indexes s @ take k ixs\<rparr>
       \<and> (fst (execute_all create_index ixs s) = Inr () \<longrightarrow> k = length ixs)"
proof (induction ixs arbitrary: s)
  case Nil
  then show ?case by simp
next
  case (Cons ix ixs)
  show ?case
  proof (cases "create_index ix s")
    case (Inl e)
    then have "snd (execute_all create_index (ix # ixs) s) = s\<lparr>indexes := indexes s @ take 0 (ix # ixs)\<rparr>"
      by simp
    moreover have "fst (execute_all create_index (ix # ixs) s) \<noteq> Inr ()" using Inl by simp
    ultimately show ?thesis by blast
  next
    case (Inr s')
    then have s': "s' = s\<lparr>indexes := indexes s @ [ix]\<rparr>"
      by (auto simp: create_index_def split: prod.splits if_splits)
    from Cons.IH[of s'] obtain k where
      k: "snd (execute_all create_index ixs s') = s'\<lparr>indexes := indexes s' @ take k ixs\<rparr>"
         "fst (execute_all create_index ixs s') = Inr () \<longrightarrow> k = length ixs"
      by blast
    have "snd (execute_all create_index (ix # ixs) s) = s\<lparr>indexes := indexes s @ take (Suc k) (ix # ixs)\<rparr>"
      using Inr k(1) s' by simp
    moreover have "fst (execute_all create_index (ix # ixs) s) = Inr () \<longrightarrow> Suc k = length (ix # ixs)"
      using Inr k(2) by simp
    ultimately show ?thesis by blast
  qed
qed


lemma fold_drop_idem:
  "fold drop_table_if_exists ts (fold drop_table_if_exists ts s) = fold drop_table_if_exists ts s"
  by (rule store.equality) (auto simp: fold_drop_tables fold_drop_indexes intro!: filter_cong)

lemma execute_all_create_table_frame:
  "execute_all (\<lambda>(t, rows). create_table t rows) defs s = (r, s') \<Longrightarrow>
     indexes s' = indexes s \<and> (\<forall>t. t \<notin> fst ` set defs \<longrightarrow> tables s' t = tables s t)"
proof (induction defs arbitrary: s)
  case Nil
  then show ?case by simp
next
  case (Cons a defs)
  obtain t rows where a: "a = (t, rows)" by (cases a)
  show ?case
  proof (cases "create_table t rows s")
    case (Inl e)
    with Cons.prems a show ?thesis by simp
  next
    case (Inr s1)
    then have s1: "s1 = s\<lparr>tables := (tables s)(t \<mapsto> rows)\<rparr>"
      by (auto simp: create_table_def split: if_splits)
    from Cons.prems a Inr
    have "execute_all (\<lambda>(t, rows). create_table t rows) defs s1 = (r, s')" by simp
    from Cons.IH[OF this] show ?thesis using s1 a by auto
  qed
qed

lemma execute_all_create_index_frame:
  "execute_all create_index ixs s = (r, s') \<Longrightarrow>
     tables s' = tables s \<and> (\<exists>k. indexes s' = indexes s @ take k ixs)"
proof -
  obtain k where "snd (execute_all create_index ixs s) = s\<lparr>indexes := indexes s @ take k ixs\<rparr>"
    using execute_all_create_index[of ixs s] by blast
  moreover assume "execute_all create_index ixs s = (r, s')"
  ultimately have "s' = s\<lparr>indexes := indexes s @ take k ixs\<rparr>" by simp
  then show ?thesis by auto
qed

lemma tables_to_sql_replace: "tables (to_sql_replace t rows s) = (tables s)(t \<mapsto> rows)"
  by (simp add: to_sql_replace_def drop_table_if_exists_def Let_def)

lemma indexes_to_sql_replace:
  "indexes (to_sql_replace t rows s) = filter (\<lambda>(i, t', c). t' \<noteq> t) (indexes s)"
  by (simp add: to_sql_replace_def drop_table_if_exists_def Let_def)

lemma filter_take_none: "\<forall>x\<in>set xs. \<not> P x \<Longrightarrow> filter P (take k xs) = []"
  by (auto simp: filter_empty_conv dest: in_set_takeD)

lemma create_star_schema_frame:
  assumes "create_star_schema s = (r, s')"
  shows "(\<forall>t. t \<notin> set star_tables_to_drop \<longrightarrow> tables s' t = tables s t)"
    and "filter (\<lambda>(i, t, c). t \<notin> set star_tables_to_drop) (indexes s')
          = filter (\<lambda>(i, t, c). t \<notin> set star_tables_to_drop) (indexes s)"
proof -
  let ?s1 = "fold drop_table_if_exists star_tables_to_drop s"
  obtain r2 s2 where s2:
    "execute_all (\<lambda>(t, rows). create_table t rows) star_table_definitions ?s1 = (r2, s2)"
    by (cases "execute_all (\<lambda>(t, rows). create_table t rows) star_table_definitions ?s1")
  from execute_all_create_table_frame[OF s2]
  have f2: "indexes s2 = indexes ?s1"
    "\<And>t. t \<notin> fst ` set star_table_definitions \<Longrightarrow> tables s2 t = tables ?s1 t" by auto
  have dom: "fst ` set star_table_definitions \<subseteq> set star_tables_to_drop"
    by (simp add: star_table_definitions_def star_tables_to_drop_def)
  have ix: "\<forall>x\<in>set star_indexes. \<not> (case x of (i, t, c) \<Rightarrow> t \<notin> set star_tables_to_drop)"
    by (simp add: star_indexes_def star_tables_to_drop_def)
  have s': "tables s' = tables s2 \<and> (\<exists>k. indexes s' = indexes s2 @ take k star_indexes)"
  proof (cases r2)
    case (Inl e)
    with assms s2 have "s' = s2" by (simp add: create_star_schema_def)
    then show ?thesis by (auto intro: exI[of _ 0])
  next
    case (Inr u)
    with assms s2 have "execute_all create_index star_indexes s2 = (r, s')"
      by (simp add: create_star_schema_def)
    from execute_all_create_index_frame[OF this] show ?thesis .
  qed
  then obtain k where k: "indexes s' = indexes s2 @ take k star_indexes" by blast
  show "\<forall>t. t \<notin> set star_tables_to_drop \<longrightarrow> tables s' t = tables s t"
  proof (intro allI impI)
    fix t assume t: "t \<notin> set star_tables_to_drop"
    with dom have "t \<notin> fst ` set star_table_definitions" by blast
    from f2(2)[OF this] s' t show "tables s' t = tables s t" by (simp add: fold_drop_tables)
  qed
  show "filter (\<lambda>(i, t, c). t \<notin> set star_tables_to_drop) (indexes s')
          = filter (\<lambda>(i, t, c). t \<notin> set star_tables_to_drop) (indexes s)"
    unfolding k f2(1) fold_drop_indexes
    by (simp add: filter_take_none[OF ix])
qed

lemma filter_not_dropped:
  "t \<in> set ts \<Longrightarrow>
     filter (\<lambda>(i, t', c). t' \<notin> set ts) (filter (\<lambda>(i, t', c). t' \<noteq> t) xs)
       = filter (\<lambda>(i, t', c). t' \<notin> set ts) xs"
  by (induction xs) auto

lemma star_load_data_frame:
  assumes "star_load_data src s = (r, s')"
  shows "(\<forall>t. t \<notin> set star_tables_to_drop \<longrightarrow> tables s' t = tables s t)"
    and "filter (\<lambda>(i, t, c). t \<notin> set star_tables_to_drop) (indexes s')
          = filter (\<lambda>(i, t, c). t \<notin> set star_tables_to_drop) (indexes s)"
proof -
  show "\<forall>t. t \<notin> set star_tables_to_drop \<longrightarrow> tables s' t = tables s t"
    using assms
    by (auto simp: star_load_data_def Let_def tables_to_sql_replace star_tables_to_drop_def
        split: option.splits)
  have m: "''dim_product'' \<in> set star_tables_to_drop" "''dim_customer'' \<in> set star_tables_to_drop"
    "''dim_salesperson'' \<in> set star_tables_to_drop" "''dim_time'' \<in> set star_tables_to_drop"
    "''sales_facts'' \<in> set star_tables_to_drop"
    by (simp_all add: star_tables_to_drop_def)
  show "filter (\<lambda>(i, t, c). t \<notin> set star_tables_to_drop) (indexes s')
          = filter (\<lambda>(i, t, c). t \<notin> set star_tables_to_drop) (indexes s)"
  proof (cases src)
    case None
    with assms show ?thesis by (simp add: star_load_data_def)
  next
    case (Some d)
    with assms have "s' = to_sql_replace ''sales_facts'' (Sales (sales_facts d))
       (to_sql_replace ''dim_time'' (Times (time_dimension d))
         (to_sql_replace ''dim_salesperson'' (DimSalespeople (star_dim_salesperson d))
           (to_sql_replace ''dim_customer'' (DimCustomers (star_dim_customer d))
             (to_sql_replace ''dim_product'' (DimProducts (star_dim_product d)) s))))"
      by (auto simp: star_load_data_def Let_def)
    then show ?thesis
      by (simp only: indexes_to_sql_replace filter_not_dropped[OF m(1)]
          filter_not_dropped[OF m(2)] filter_not_dropped[OF m(3)] filter_not_dropped[OF m(4)]
          filter_not_dropped[OF m(5)])
  qed
qed

lemma star_build_frame:
  assumes "star_build src s = (r, s')"
  shows "(\<forall>t. t \<notin> set star_tables_to_drop \<longrightarrow> tables s' t = tables s t)"
    and "filter (\<lambda>(i, t, c). t \<notin> set star_tables_to_drop) (indexes s')
          = filter (\<lambda>(i, t, c). t \<notin> set star_tables_to_drop) (indexes s)"
proof -
  obtain r1 s1 where c: "create_star_schema s = (r1, s1)" by (cases "create_star_schema s")
  note f1 = create_star_schema_frame[OF c]
  have "(\<forall>t. t \<notin> set star_tables_to_drop \<longrightarrow> tables s' t = tables s t) \<and>
     filter (\<lambda>(i, t, c). t \<notin> set star_tables_to_drop) (indexes s')
          = filter (\<lambda>(i, t, c). t \<notin> set star_tables_to_drop) (indexes s)"
  proof (cases r1)
    case (Inl e)
    with assms c have "s' = s1" by (simp add: star_build_def)
    with f1 show ?thesis by simp
  next
    case (Inr u)
    with assms c have "star_load_data src s1 = (r, s')" by (simp add: star_build_def)
    from star_load_data_frame[OF this] f1 show ?thesis by simp
  qed
  then show "(\<forall>t. t \<notin> set star_tables_to_drop \<longrightarrow> tables s' t = tables s t)"
    and "filter (\<lambda>(i, t, c). t \<notin> set star_tables_to_drop) (indexes s')
          = filter (\<lambda>(i, t, c). t \<notin> set star_tables_to_drop) (indexes s)" by auto
qed

lemma star_build_drop:
  "fold drop_table_if_exists star_tables_to_drop (snd (star_build src s))
     = fold drop_table_if_exists star_tables_to_drop s"
proof -
  obtain r s' where b: "star_build src s = (r, s')" by (cases "star_build src s")
  from star_build_frame[OF b] show ?thesis
    by (intro store.equality) (auto simp: b fold_drop_tables fold_drop_indexes)
qed

lemma star_build_after_drop:
  "star_build src (fold drop_table_if_exists star_tables_to_drop s) = star_build src s"
  by (simp add: star_build_def create_star_schema_def fold_drop_idem)

lemma star_build_idem: "star_build src (snd (star_build src s)) = star_build src s"
proof -
  have "star_build src (snd (star_build src s))
      = star_build src (fold drop_table_if_exists star_tables_to_drop (snd (star_build src s)))"
    by (simp only: star_build_after_drop)
  also have "\<dots> = star_build src s"
    by (simp only: star_build_drop star_build_after_drop)
  finally show ?thesis .
qed

lemma create_snowflake_schema_frame:
  assumes "create_snowflake_schema s = (r, s')"
  shows "(\<forall>t. t \<notin> set snowflake_tables_to_drop \<longrightarrow> tables s' t = tables s t)"
    and "filter (\<lambda>(i, t, c). t \<notin> set snowflake_tables_to_drop) (indexes s')
          = filter (\<lambda>(i, t, c). t \<notin> set snowflake_tables_to_drop) (indexes s)"
proof -
  let ?s1 = "fold drop_table_if_exists snowflake_tables_to_drop s"
  obtain r2 s2 where s2:
    "execute_all (\<lambda>(t, rows). create_table t rows) snowflake_table_definitions ?s1 = (r2, s2)"
    by (cases "execute_all (\<lambda>(t, rows). create_table t rows) snowflake_table_definitions ?s1")
  from execute_all_create_table_frame[OF s2]
  have f2: "indexes s2 = indexes ?s1"
    "\<And>t. t \<notin> fst ` set snowflake_table_definitions \<Longrightarrow> tables s2 t = tables ?s1 t" by auto
  have dom: "fst ` set snowflake_table_definitions \<subseteq> set snowflake_tables_to_drop"
    by (simp add: snowflake_table_definitions_def snowflake_tables_to_drop_def)
  have ix: "\<forall>x\<in>set snowflake_indexes. \<not> (case x of (i, t, c) \<Rightarrow> t \<notin> set snowflake_tables_to_drop)"
    by (simp add: snowflake_indexes_def snowflake_tables_to_drop_def)
  have s': "tables s' = tables s2 \<and> (\<exists>k. indexes s' = indexes s2 @ take k snowflake_indexes)"
  proof (cases r2)
    case (Inl e)
    with assms s2 have "s' = s2" by (simp add: create_snowflake_schema_def)
    then show ?thesis by (auto intro: exI[of _ 0])
  next
    case (Inr u)
    with assms s2 have "execute_all create_index snowflake_indexes s2 = (r, s')"
      by (simp add: create_snowflake_schema_def)
    from execute_all_create_index_frame[OF this] show ?thesis .
  qed
  then obtain k where k: "indexes s' = indexes s2 @ take k snowflake_indexes" by blast
  show "\<forall>t. t \<notin> set snowflake_tables_to_drop \<longrightarrow> tables s' t = tables s t"
  proof (intro allI impI)
    fix t assume t: "t \<notin> set snowflake_tables_to_drop"
    with dom have "t \<notin> fst ` set snowflake_table_definitions" by blast
    from f2(2)[OF this] s' t show "tables s' t = tables s t" by (simp add: fold_drop_tables)
  qed
  show "filter (\<lambda>(i, t, c). t \<notin> set snowflake_tables_to_drop) (indexes s')
          = filter (\<lambda>(i, t, c). t \<notin> set snowflake_tables_to_drop) (indexes s)"
    unfolding k f2(1) fold_drop_indexes
    by (simp add: filter_take_none[OF ix])
qed

lemma snowflake_load_data_frame:
  assumes "snowflake_load_data src s = (r, s')"
  shows "(\<forall>t. t \<notin> set snowflake_tables_to_drop \<longrightarrow> tables s' t = tables s t)"
    and "filter (\<lambda>(i, t, c). t \<notin> set snowflake_tables_to_drop) (indexes s')
          = filter (\<lambda>(i, t, c). t \<notin> set snowflake_tables_to_drop) (indexes s)"
proof -
  show "\<forall>t. t \<notin> set snowflake_tables_to_drop \<longrightarrow> tables s' t = tables s t"
    using assms
    by (auto simp: snowflake_load_data_def Let_def tables_to_sql_replace snowflake_tables_to_drop_def
        split: option.splits)
  have m: "''dim_country'' \<in> set snowflake_tables_to_drop"
    "''dim_region'' \<in> set snowflake_tables_to_drop"
    "''dim_city'' \<in> set snowflake_tables_to_drop"
    "''dim_category'' \<in> set snowflake_tables_to_drop"
    "''dim_subcategory'' \<in> set snowflake_tables_to_drop"
    "''dim_product'' \<in> set snowflake_tables_to_drop"
    "''dim_customer'' \<in> set snowflake_tables_to_drop"
    "''dim_salesperson'' \<in> set snowflake_tables_to_drop"
    "''dim_time'' \<in> set snowflake_tables_to_drop"
    "''sales_facts'' \<in> set snowflake_tables_to_drop"
    by (simp_all add: snowflake_tables_to_drop_def)
  show "filter (\<lambda>(i, t, c). t \<notin> set snowflake_tables_to_drop) (indexes s')
          = filter (\<lambda>(i, t, c). t \<notin> set snowflake_tables_to_drop) (indexes s)"
  proof (cases src)
    case None
    with assms show ?thesis by (simp add: snowflake_load_data_def)
  next
    case (Some d)
    with assms have "s' = to_sql_replace ''sales_facts'' (Sales (sales_facts d))
       (to_sql_replace ''dim_time'' (Times (time_dimension d))
       (to_sql_replace ''dim_salesperson'' (SalesPeople (sales_people d))
       (to_sql_replace ''dim_customer'' (Customers (customers d))
       (to_sql_replace ''dim_product'' (Products (products d))
       (to_sql_replace ''dim_subcategory'' (Subcategories (subcategories d))
       (to_sql_replace ''dim_category'' (Categories (categories d))
       (to_sql_replace ''dim_city'' (Cities (cities d))
       (to_sql_replace ''dim_region'' (Regions (regions d))
       (to_sql_replace ''dim_country'' (Countries (countries d))
       s)))))))))"
      by (auto simp: snowflake_load_data_def Let_def)
    then show ?thesis
      by (simp only: indexes_to_sql_replace filter_not_dropped[OF m(1)]
          filter_not_dropped[OF m(2)]
          filter_not_dropped[OF m(3)]
          filter_not_dropped[OF m(4)]
          filter_not_dropped[OF m(5)]
          filter_not_dropped[OF m(6)]
          filter_not_dropped[OF m(7)]
          filter_not_dropped[OF m(8)]
          filter_not_dropped[OF m(9)]
          filter_not_dropped[OF m(10)])
  qed
qed

lemma snowflake_build_frame:
  assumes "snowflake_build src s = (r, s')"
  shows "(\<forall>t. t \<notin> set snowflake_tables_to_drop \<longrightarrow> tables s' t = tables s t)"
    and "filter (\<lambda>(i, t, c). t \<notin> set snowflake_tables_to_drop) (indexes s')
          = filter (\<lambda>(i, t, c). t \<notin> set snowflake_tables_to_drop) (indexes s)"
proof -
  obtain r1 s1 where c: "create_snowflake_schema s = (r1, s1)" by (cases "create_snowflake_schema s")
  note f1 = create_snowflake_schema_frame[OF c]
  have "(\<forall>t. t \<notin> set snowflake_tables_to_drop \<longrightarrow> tables s' t = tables s t) \<and>
     filter (\<lambda>(i, t, c). t \<notin> set snowflake_tables_to_drop) (indexes s')
          = filter (\<lambda>(i, t, c). t \<notin> set snowflake_tables_to_drop) (indexes s)"
  proof (cases r1)
    case (Inl e)
    with assms c have "s' = s1" by (simp add: snowflake_build_def)
    with f1 show ?thesis by simp
  next
    case (Inr u)
    with assms c have "snowflake_load_data src s1 = (r, s')" by (simp add: snowflake_build_def)
    from snowflake_load_data_frame[OF this] f1 show ?thesis by simp
  qed
  then show "(\<forall>t. t \<notin> set snowflake_tables_to_drop \<longrightarrow> tables s' t = tables s t)"
    and "filter (\<lambda>(i, t, c). t \<notin> set snowflake_tables_to_drop) (indexes s')
          = filter (\<lambda>(i, t, c). t \<notin> set snowflake_tables_to_drop) (indexes s)" by auto
qed

lemma snowflake_build_drop:
  "fold drop_table_if_exists snowflake_tables_to_drop (snd (snowflake_build src s))
     = fold drop_table_if_exists snowflake_tables_to_drop s"
proof -
  obtain r s' where b: "snowflake_build src s = (r, s')" by (cases "snowflake_build src s")
  from snowflake_build_frame[OF b] show ?thesis
    by (intro store.equality) (auto simp: b fold_drop_tables fold_drop_indexes)
qed

lemma snowflake_build_after_drop:
  "snowflake_build src (fold drop_table_if_exists snowflake_tables_to_drop s) = snowflake_build src s"
  by (simp add: snowflake_build_def create_snowflake_schema_def fold_drop_idem)

lemma snowflake_build_idem: "snowflake_build src (snd (snowflake_build src s)) = snowflake_build src s"
proof -
  have "snowflake_build src (snd (snowflake_build src s))
      = snowflake_build src (fold drop_table_if_exists snowflake_tables_to_drop (snd (snowflake_build src s)))"
    by (simp only: snowflake_build_after_drop)
  also have "\<dots> = snowflake_build src s"
    by (simp only: snowflake_build_drop snowflake_build_after_drop)
  finally show ?thesis .
qed


lemma star_build_empty_store:
  "star_build (Some d) empty_store =
     (Inr [(''dim_product'', length (star_dim_product d)),
           (''dim_customer'', length (star_dim_customer d)),
           (''dim_salesperson'', length (star_dim_salesperson d)),
           (''dim_time'', length (time_dimension d)),
           (''sales_facts'', length (sales_facts d))],
      \<lparr>tables = [''dim_product'' \<mapsto> DimProducts (star_dim_product d),
                 ''dim_customer'' \<mapsto> DimCustomers (star_dim_customer d),
                 ''dim_salesperson'' \<mapsto> DimSalespeople (star_dim_salesperson d),
                 ''dim_time'' \<mapsto> Times (time_dimension d),
                 ''sales_facts'' \<mapsto> Sales (sales_facts d)],
       indexes = []\<rparr>)"
  by (simp add: star_build_def create_star_schema_def star_tables_to_drop_def
      star_table_definitions_def star_indexes_def create_table_def create_index_def
      drop_table_if_exists_def to_sql_replace_def empty_store_def star_load_data_def Let_def)

lemma create_star_schema_empty_store:
  "fst (create_star_schema empty_store) = Inr ()
   \<and> indexes (snd (create_star_schema empty_store)) = star_indexes"
  by (simp add: create_star_schema_def star_tables_to_drop_def
      star_table_definitions_def star_indexes_def create_table_def create_index_def
      drop_table_if_exists_def empty_store_def)

lemma snowflake_build_empty_store:
  "snowflake_build (Some d) empty_store =
     (Inr [(''dim_country'', length (countries d)),
           (''dim_region'', length (regions d)),
           (''dim_city'', length (cities d)),
           (''dim_category'', length (categories d)),
           (''dim_subcategory'', length (subcategories d)),
           (''dim_product'', length (products d)),
           (''dim_customer'', length (customers d)),
           (''dim_salesperson'', length (sales_people d)),
           (''dim_time'', length (time_dimension d)),
           (''sales_facts'', length (sales_facts d))],
      \<lparr>tables = [''dim_country'' \<mapsto> Countries (countries d),
                 ''dim_region'' \<mapsto> Regions (regions d),
                 ''dim_city'' \<mapsto> Cities (cities d),
                 ''dim_category'' \<mapsto> Categories (categories d),
                 ''dim_subcategory'' \<mapsto> Subcategories (subcategories d),
                 ''dim_product'' \<mapsto> Products (products d),
                 ''dim_customer'' \<mapsto> Customers (customers d),
                 ''dim_salesperson'' \<mapsto> SalesPeople (sales_people d),
                 ''dim_time'' \<mapsto> Times (time_dimension d),
                 ''sales_facts'' \<mapsto> Sales (sales_facts d)],
       indexes = []\<rparr>)"
  by (simp add: snowflake_build_def create_snowflake_schema_def snowflake_tables_to_drop_def
      snowflake_table_definitions_def snowflake_indexes_def create_table_def create_index_def
      drop_table_if_exists_def to_sql_replace_def empty_store_def snowflake_load_data_def Let_def)

lemma create_snowflake_schema_empty_store:
  "fst (create_snowflake_schema empty_store) = Inr ()
   \<and> indexes (snd (create_snowflake_schema empty_store)) = snowflake_indexes"
  by (simp add: create_snowflake_schema_def snowflake_tables_to_drop_def
      snowflake_table_definitions_def snowflake_indexes_def create_table_def create_index_def
      drop_table_if_exists_def empty_store_def)

lemma star_main_closes:
  "''data/star_schema.db'' \<notin> set (open_conns w)
   \<Longrightarrow> open_conns (snd (star_main can_connect src w)) = open_conns w"
  by (simp add: star_main_def Let_def remove1_append split: prod.splits)

lemma snowflake_main_closes:
  "''data/snowflake_schema.db'' \<notin> set (open_conns w)
   \<Longrightarrow> open_conns (snd (snowflake_main can_connect src w)) = open_conns w"
  by (simp add: snowflake_main_def Let_def remove1_append split: prod.splits)


lemma star_build_indexes_gone:
  assumes "star_build (Some d) s = (Inr stats, s')"
  shows "\<forall>(i, t, c)\<in>set (indexes s'). t \<notin> set star_tables_to_drop"
proof -
  obtain r1 s1 where c: "create_star_schema s = (r1, s1)" by (cases "create_star_schema s")
  with assms have "star_load_data (Some d) s1 = (Inr stats, s')"
    by (cases r1) (simp_all add: star_build_def)
  then show ?thesis
    by (auto simp: star_load_data_def Let_def indexes_to_sql_replace star_tables_to_drop_def)
qed

lemma snowflake_build_indexes_gone:
  assumes "snowflake_build (Some d) s = (Inr stats, s')"
  shows "\<forall>(i, t, c)\<in>set (indexes s'). t \<notin> set snowflake_tables_to_drop"
proof -
  obtain r1 s1 where c: "create_snowflake_schema s = (r1, s1)"
    by (cases "create_snowflake_schema s")
  with assms have "snowflake_load_data (Some d) s1 = (Inr stats, s')"
    by (cases r1) (simp_all add: snowflake_build_def)
  then show ?thesis
    by (auto simp: snowflake_load_data_def Let_def indexes_to_sql_replace
        snowflake_tables_to_drop_def)
qed


text \<open>
  Claim C3: after the build sequence every secondary index created by the schema step is
  still in the store. It is not: on a fresh database file the schema step creates the nine
  (star) and twelve (snowflake) indexes, the build succeeds, and the store it leaves has no
  index at all, because each \<open>to_sql(..., if_exists='replace')\<close> of the load drops its
  table together with the indexes on it.
\<close>

theorem build_leaves_no_index:
  "indexes (snd (create_star_schema empty_store)) = star_indexes
   \<and> (\<exists>stats. fst (star_build (Some d) empty_store) = Inr stats)
   \<and> indexes (snd (star_build (Some d) empty_store)) = []
   \<and> indexes (snd (create_snowflake_schema empty_store)) = snowflake_indexes
   \<and> (\<exists>stats. fst (snowflake_build (Some d) empty_store) = Inr stats)
   \<and> indexes (snd (snowflake_build (Some d) empty_store)) = []"
  by (simp add: star_build_empty_store snowflake_build_empty_store
      create_star_schema_empty_store create_snowflake_schema_empty_store)

text \<open>
  Claim C7: a second build on the same CSV files leaves the store as the first build left
  it, for both builders: the tables, and with them the indexes and the outcome of the build.
  This holds from every initial store, also when the files are missing or a statement raises.
\<close>

theorem rebuild_idempotent:
  "star_build src (snd (star_build src s)) = star_build src s
   \<and> tables (snd (star_build src (snd (star_build src s)))) = tables (snd (star_build src s))
   \<and> snowflake_build src (snd (snowflake_build src s)) = snowflake_build src s
   \<and> tables (snd (snowflake_build src (snd (snowflake_build src s))))
       = tables (snd (snowflake_build src s))"
  by (simp add: star_build_idem snowflake_build_idem)

section \<open>Properties of the denormalisation and of the query pairs\<close>

text \<open>Joins, merges, maps and filters are all iterated binds of lists.\<close>

lemma bind_append: "List.bind (xs @ ys) f = List.bind xs f @ List.bind ys f"
  by (induction xs) simp_all

lemma bind_assoc: "List.bind (List.bind xs f) g = List.bind xs (\<lambda>x. List.bind (f x) g)"
  by (induction xs) (simp_all add: bind_append)

lemma bind_map: "List.bind (map f xs) g = List.bind xs (\<lambda>x. g (f x))"
  by (induction xs) simp_all

lemma map_bind: "map f (List.bind xs g) = List.bind xs (\<lambda>x. map f (g x))"
  by (induction xs) simp_all

lemma filter_bind: "filter P (List.bind xs g) = List.bind xs (\<lambda>x. filter P (g x))"
  by (induction xs) simp_all

lemma bind_if: "List.bind (if c then [a] else []) g = (if c then g a else [])"
  by simp

lemma map_if: "map f (if c then [a] else []) = (if c then [f a] else [])"
  by simp

lemma map_if': "map f (if c then xs else []) = (if c then map f xs else [])"
  by simp

lemma filter_as_bind: "filter P xs = List.bind xs (\<lambda>x. if P x then [x] else [])"
  by (induction xs) simp_all

lemma sql_join_bind:
  "sql_join xs ys on = List.bind xs (\<lambda>x. List.bind ys (\<lambda>y. if on x y then [(x, y)] else []))"
  by (simp add: sql_join_def List.bind_def filter_as_bind map_bind[unfolded List.bind_def] map_if
      cong: map_cong) 

lemma pd_merge_bind:
  "pd_merge xs ys kx ky
     = List.bind xs (\<lambda>x. List.bind ys (\<lambda>y. if kx x = ky y then [(x, y)] else []))"
  by (simp add: pd_merge_def sql_join_bind[symmetric] sql_join_def)

lemma bind_none: "filter P ys = [] \<Longrightarrow> List.bind ys (\<lambda>y. if P y then X else []) = []"
  by (induction ys) (auto split: if_splits)

lemma bind_unique:
  "length (filter P ys) = 1 \<Longrightarrow> List.bind ys (\<lambda>y. if P y then X else []) = X"
proof (induction ys)
  case Nil
  then show ?case by simp
next
  case (Cons y ys)
  show ?case
  proof (cases "P y")
    case True
    with Cons.prems have "filter P ys = []" by simp
    from bind_none[OF this] True show ?thesis by simp
  next
    case False
    with Cons show ?thesis by simp
  qed
qed

lemma if_push_bind:
  "(if c then List.bind ys f else []) = List.bind ys (\<lambda>y. if c then f y else [])"
  by (cases c) (simp_all add: List.bind_def)

lemma if_if_conj: "(if a then (if b then X else []) else []) = (if a \<and> b then X else [])"
  by simp

lemma bind_if': "List.bind (if c then xs else []) g = (if c then List.bind xs g else [])"
  by simp

lemma filter_if': "filter P (if c then xs else []) = (if c then filter P xs else [])"
  by simp

lemma bind_cong:
  "xs = ys \<Longrightarrow> (\<And>x. x \<in> set ys \<Longrightarrow> f x = g x) \<Longrightarrow> List.bind xs f = List.bind ys g"
  by (simp add: List.bind_def cong: map_cong)

lemmas bind_norm = sql_join_bind pd_merge_bind map_bind bind_map bind_assoc bind_if' map_if'
  filter_bind filter_if'

lemma q1_rows:
  assumes "regions_resolve d"
  shows "map (\<lambda>(sf, dc). (dc_region_name dc, total_amount sf))
          (sql_join sf (star_dim_customer d) (\<lambda>sf dc. sale_customer_id sf = dc_customer_id dc))
       = map (\<lambda>(((sf, dc), dci), dr). (region_name dr, total_amount sf))
          (sql_join
             (sql_join
                (sql_join sf (customers d) (\<lambda>sf dc. sale_customer_id sf = customer_id dc))
                (cities d) (\<lambda>(sf, dc) dci. customer_city_id dc = city_id dci))
             (regions d) (\<lambda>((sf, dc), dci) dr. city_region_id dci = region_id dr))"
proof -
  have u: "\<And>r X. r \<in> set (regions d) \<Longrightarrow>
     List.bind (countries d) (\<lambda>co. if region_country_id r = country_id co then X else []) = X"
    using assms by (intro bind_unique) (simp add: regions_resolve_def list_all_iff)
  show ?thesis
    apply (simp add: star_dim_customer_def bind_norm u cong: bind_cong if_cong)
    apply (simp only: if_push_bind if_if_conj)
    apply (simp only: conj_ac)
    done
qed


lemma star_build_tables:
  assumes "star_build (Some d) s = (Inr stats, st)"
  shows "sales_facts_of st = Some (sales_facts d)"
    and "dim_time_of st = Some (time_dimension d)"
    and "star_dim_product_of st = Some (star_dim_product d)"
    and "star_dim_customer_of st = Some (star_dim_customer d)"
    and "star_dim_salesperson_of st = Some (star_dim_salesperson d)"
proof -
  obtain r1 s1 where c: "create_star_schema s = (r1, s1)" by (cases "create_star_schema s")
  with assms have "star_load_data (Some d) s1 = (Inr stats, st)"
    by (cases r1) (simp_all add: star_build_def)
  then have st: "st = to_sql_replace ''sales_facts'' (Sales (sales_facts d))
       (to_sql_replace ''dim_time'' (Times (time_dimension d))
         (to_sql_replace ''dim_salesperson'' (DimSalespeople (star_dim_salesperson d))
           (to_sql_replace ''dim_customer'' (DimCustomers (star_dim_customer d))
             (to_sql_replace ''dim_product'' (DimProducts (star_dim_product d)) s1))))"
    by (auto simp: star_load_data_def Let_def)
  show "sales_facts_of st = Some (sales_facts d)"
    by (simp add: st sales_facts_of_def tables_to_sql_replace)
  show "dim_time_of st = Some (time_dimension d)"
    by (simp add: st dim_time_of_def tables_to_sql_replace)
  show "star_dim_product_of st = Some (star_dim_product d)"
    by (simp add: st star_dim_product_of_def tables_to_sql_replace)
  show "star_dim_customer_of st = Some (star_dim_customer d)"
    by (simp add: st star_dim_customer_of_def tables_to_sql_replace)
  show "star_dim_salesperson_of st = Some (star_dim_salesperson d)"
    by (simp add: st star_dim_salesperson_of_def tables_to_sql_replace)
qed

lemma snowflake_build_tables:
  assumes "snowflake_build (Some d) s = (Inr stats, sf)"
  shows "sales_facts_of sf = Some (sales_facts d)"
    and "dim_time_of sf = Some (time_dimension d)"
    and "dim_product_of sf = Some (products d)"
    and "dim_subcategory_of sf = Some (subcategories d)"
    and "dim_category_of sf = Some (categories d)"
    and "dim_customer_of sf = Some (customers d)"
    and "dim_city_of sf = Some (cities d)"
    and "dim_region_of sf = Some (regions d)"
    and "dim_country_of sf = Some (countries d)"
    and "dim_salesperson_of sf = Some (sales_people d)"
proof -
  obtain r1 s1 where c: "create_snowflake_schema s = (r1, s1)"
    by (cases "create_snowflake_schema s")
  with assms have "snowflake_load_data (Some d) s1 = (Inr stats, sf)"
    by (cases r1) (simp_all add: snowflake_build_def)
  then have sf: "sf = to_sql_replace ''sales_facts'' (Sales (sales_facts d))
       (to_sql_replace ''dim_time'' (Times (time_dimension d))
       (to_sql_replace ''dim_salesperson'' (SalesPeople (sales_people d))
       (to_sql_replace ''dim_customer'' (Customers (customers d))
       (to_sql_replace ''dim_product'' (Products (products d))
       (to_sql_replace ''dim_subcategory'' (Subcategories (subcategories d))
       (to_sql_replace ''dim_category'' (Categories (categories d))
       (to_sql_replace ''dim_city'' (Cities (cities d))
       (to_sql_replace ''dim_region'' (Regions (regions d))
       (to_sql_replace ''dim_country'' (Countries (countries d)) s1)))))))))"
    by (auto simp: snowflake_load_data_def Let_def)
  show "sales_facts_of sf = Some (sales_facts d)"
    by (simp add: sf sales_facts_of_def tables_to_sql_replace)
  show "dim_time_of sf = Some (time_dimension d)"
    by (simp add: sf dim_time_of_def tables_to_sql_replace)
  show "dim_product_of sf = Some (products d)"
    by (simp add: sf dim_product_of_def tables_to_sql_replace)
  show "dim_subcategory_of sf = Some (subcategories d)"
    by (simp add: sf dim_subcategory_of_def tables_to_sql_replace)
  show "dim_category_of sf = Some (categories d)"
    by (simp add: sf dim_category_of_def tables_to_sql_replace)
  show "dim_customer_of sf = Some (customers d)"
    by (simp add: sf dim_customer_of_def tables_to_sql_replace)
  show "dim_city_of sf = Some (cities d)"
    by (simp add: sf dim_city_of_def tables_to_sql_replace)
  show "dim_region_of sf = Some (regions d)"
    by (simp add: sf dim_region_of_def tables_to_sql_replace)
  show "dim_country_of sf = Some (countries d)"
    by (simp add: sf dim_country_of_def tables_to_sql_replace)
  show "dim_salesperson_of sf = Some (sales_people d)"
    by (simp add: sf dim_salesperson_of_def tables_to_sql_replace)
qed

lemma product_names_rows:
  "map (\<lambda>r. (dp_product_id r, dp_subcategory_name r, dp_category_name r)) (star_dim_product d)
     = [(product_id p, subcategory_name s, category_name c).
          p \<leftarrow> products d, s \<leftarrow> subcategories d, product_subcategory_id p = subcategory_id s,
          c \<leftarrow> categories d, subcategory_category_id s = category_id c]"
  by (simp add: star_dim_product_def List.bind_def[symmetric] bind_norm cong: bind_cong if_cong)

lemma customer_names_rows:
  "map (\<lambda>r. (dc_customer_id r, dc_city_name r, dc_region_name r, dc_country_name r))
       (star_dim_customer d)
     = [(customer_id c, city_name ci, region_name r, country_name co).
             c \<leftarrow> customers d, ci \<leftarrow> cities d, customer_city_id c = city_id ci,
             r \<leftarrow> regions d, city_region_id ci = region_id r,
             co \<leftarrow> countries d, region_country_id r = country_id co]"
  by (simp add: star_dim_customer_def List.bind_def[symmetric] bind_norm cong: bind_cong if_cong)

lemma salesperson_names_rows:
  "map (\<lambda>r. (ds_salesperson_id r, ds_region_name r, ds_country_name r)) (star_dim_salesperson d)
     = [(salesperson_id sp, region_name r, country_name co).
             sp \<leftarrow> sales_people d, r \<leftarrow> regions d, salesperson_region_id sp = region_id r,
             co \<leftarrow> countries d, region_country_id r = country_id co]"
  by (simp add: star_dim_salesperson_def List.bind_def[symmetric] bind_norm cong: bind_cong if_cong)

text \<open>
  Claim C2: after both builds from one dataset, the subcategory and category names embedded
  in the star product dimension are, product id by product id, the names reached in the
  snowflake store along product, subcategory, category; likewise the city, region and
  country names of every customer and the region and country names of every salesperson.
  The two lists of (key, names) rows are equal, so no embedded name lacks its chain and no
  chain lacks its embedded row.
\<close>

theorem denormalised_names_follow_chain:
  assumes "star_build (Some d) s1 = (Inr stats1, st)"
    and "snowflake_build (Some d) s2 = (Inr stats2, sf)"
  shows "embedded_product_names st = reached_product_names sf
    \<and> embedded_customer_names st = reached_customer_names sf
    \<and> embedded_salesperson_names st = reached_salesperson_names sf
    \<and> embedded_product_names st \<noteq> None \<and> embedded_customer_names st \<noteq> None
    \<and> embedded_salesperson_names st \<noteq> None"
  by (simp add: embedded_product_names_def reached_product_names_def
      embedded_customer_names_def reached_customer_names_def
      embedded_salesperson_names_def reached_salesperson_names_def
      star_build_tables[OF assms(1)] snowflake_build_tables[OF assms(2)]
      product_names_rows customer_names_rows salesperson_names_rows)


lemma countries_unique:
  assumes "regions_resolve d" and "r \<in> set (regions d)"
  shows "List.bind (countries d) (\<lambda>co. if region_country_id r = country_id co then X else []) = X"
  using assms by (intro bind_unique) (simp add: regions_resolve_def list_all_iff)

lemma q2_rows:
  "map (\<lambda>(sf, dp). (dp_product_id dp, dp_product_name dp, dp_category_name dp,
                          total_amount sf, quantity sf))
          (sql_join sf (star_dim_product d) (\<lambda>sf dp. sale_product_id sf = dp_product_id dp))
   = map (\<lambda>(((sf, dp), dsub), dcat).
               (product_id dp, product_name dp, category_name dcat,
                total_amount sf, quantity sf))
          (sql_join
             (sql_join
                (sql_join sf (products d) (\<lambda>sf dp. sale_product_id sf = product_id dp))
                (subcategories d) (\<lambda>(sf, dp) dsub. product_subcategory_id dp = subcategory_id dsub))
             (categories d) (\<lambda>((sf, dp), dsub) dcat. subcategory_category_id dsub = category_id dcat))"
  apply (simp add: star_dim_product_def bind_norm cong: bind_cong if_cong)
  apply (simp only: if_push_bind if_if_conj)
  apply (simp only: conj_ac)
  done

lemma q4_rows:
  assumes "regions_resolve d"
  shows "map (\<lambda>(sf, ds). (ds_salesperson_id ds, ds_salesperson_name ds, ds_region_name ds,
                          total_amount sf))
          (sql_join sf (star_dim_salesperson d) (\<lambda>sf ds. sale_salesperson_id sf = ds_salesperson_id ds))
   = map (\<lambda>((sf, ds), dr). (salesperson_id ds, salesperson_name ds, region_name dr,
                                total_amount sf))
          (sql_join
             (sql_join sf (sales_people d) (\<lambda>sf ds. sale_salesperson_id sf = salesperson_id ds))
             (regions d) (\<lambda>(sf, ds) dr. salesperson_region_id ds = region_id dr))"
  apply (simp add: star_dim_salesperson_def bind_norm countries_unique[OF assms]
      cong: bind_cong if_cong)
  apply (simp only: if_push_bind if_if_conj)
  apply (simp only: conj_ac)
  done

lemma q5_rows:
  assumes "regions_resolve d"
  shows "map (\<lambda>(((sf, dp), dc), dt).
               \<lparr>a_category_name = dp_category_name dp, a_region_name = dc_region_name dc,
                a_quarter = quarter dt, a_year = year dt, a_total_amount = total_amount sf,
                a_quantity = quantity sf, a_discount = discount sf,
                a_customer_id = sale_customer_id sf\<rparr>)
          (sql_join
             (sql_join
                (sql_join sf (star_dim_product d) (\<lambda>sf dp. sale_product_id sf = dp_product_id dp))
                (star_dim_customer d) (\<lambda>(sf, dp) dc. sale_customer_id sf = dc_customer_id dc))
             dt (\<lambda>((sf, dp), dc) dt. sale_time_id sf = time_id dt))
    = map (\<lambda>(((((((sf, dp), dsub), dcat), dc), dci), dr), dt).
               \<lparr>a_category_name = category_name dcat, a_region_name = region_name dr,
                a_quarter = quarter dt, a_year = year dt, a_total_amount = total_amount sf,
                a_quantity = quantity sf, a_discount = discount sf,
                a_customer_id = sale_customer_id sf\<rparr>)
          (sql_join (sql_join (sql_join (sql_join (sql_join (sql_join
             (sql_join sf (products d) (\<lambda>sf dp. sale_product_id sf = product_id dp))
             (subcategories d) (\<lambda>(sf, dp) dsub. product_subcategory_id dp = subcategory_id dsub))
             (categories d) (\<lambda>((sf, dp), dsub) dcat. subcategory_category_id dsub = category_id dcat))
             (customers d) (\<lambda>(((sf, dp), dsub), dcat) dc. sale_customer_id sf = customer_id dc))
             (cities d) (\<lambda>((((sf, dp), dsub), dcat), dc) dci. customer_city_id dc = city_id dci))
             (regions d) (\<lambda>(((((sf, dp), dsub), dcat), dc), dci) dr. city_region_id dci = region_id dr))
             dt (\<lambda>((((((sf, dp), dsub), dcat), dc), dci), dr) dt.
                   sale_time_id sf = time_id dt))"
  apply (simp add: star_dim_product_def star_dim_customer_def bind_norm
      countries_unique[OF assms] cong: bind_cong if_cong)
  apply (simp only: if_push_bind if_if_conj)
  apply (simp only: conj_ac)
  done


text \<open>
  When both stores are built from one flat dataset whose region rows each name exactly one
  country row, every query pair of the suite returns the same rows from the star store as
  from the snowflake store, and none of them raises.
\<close>

lemma cross_schema_equivalence:
  assumes "star_build (Some d) s1 = (Inr stats1, st)"
    and "snowflake_build (Some d) s2 = (Inr stats2, sf)"
    and "regions_resolve d"
  shows "star_sales_by_region st = snowflake_sales_by_region sf
    \<and> star_top_products st = snowflake_top_products sf
    \<and> star_monthly_trend st = snowflake_monthly_trend sf
    \<and> star_salesperson_performance st = snowflake_salesperson_performance sf
    \<and> star_complex_analysis st = snowflake_complex_analysis sf
    \<and> (\<exists>rows. star_sales_by_region st = Inr rows)
    \<and> (\<exists>rows. star_top_products st = Inr rows)
    \<and> (\<exists>rows. star_monthly_trend st = Inr rows)
    \<and> (\<exists>rows. star_salesperson_performance st = Inr rows)
    \<and> (\<exists>rows. star_complex_analysis st = Inr rows)"
proof -
  note t1 = star_build_tables[OF assms(1)]
  note t2 = snowflake_build_tables[OF assms(2)]
  have "star_sales_by_region st = snowflake_sales_by_region sf"
    by (simp add: star_sales_by_region_def snowflake_sales_by_region_def t1 t2
        q1_rows[OF assms(3)])
  moreover have "star_top_products st = snowflake_top_products sf"
    by (simp add: star_top_products_def snowflake_top_products_def t1 t2 q2_rows)
  moreover have "star_monthly_trend st = snowflake_monthly_trend sf"
    by (simp add: star_monthly_trend_def snowflake_monthly_trend_def t1 t2)
  moreover have "star_salesperson_performance st = snowflake_salesperson_performance sf"
    by (simp add: star_salesperson_performance_def snowflake_salesperson_performance_def t1 t2
        q4_rows[OF assms(3)])
  moreover have "star_complex_analysis st = snowflake_complex_analysis sf"
    by (simp add: star_complex_analysis_def snowflake_complex_analysis_def t1 t2
        q5_rows[OF assms(3)])
  moreover have "\<exists>rows. star_sales_by_region st = Inr rows"
    by (simp add: star_sales_by_region_def t1 or_raise_def)
  moreover have "\<exists>rows. star_top_products st = Inr rows"
    by (simp add: star_top_products_def t1 or_raise_def)
  moreover have "\<exists>rows. star_monthly_trend st = Inr rows"
    by (simp add: star_monthly_trend_def t1 or_raise_def)
  moreover have "\<exists>rows. star_salesperson_performance st = Inr rows"
    by (simp add: star_salesperson_performance_def t1 or_raise_def)
  moreover have "\<exists>rows. star_complex_analysis st = Inr rows"
    by (simp add: star_complex_analysis_def t1 or_raise_def)
  ultimately show ?thesis by blast
qed

lemma regions_resolve_small: "regions_resolve small_dataset"
  by (simp add: regions_resolve_def small_dataset_def dangling_dataset_def)

lemma star_sales_by_region_small:
  "star_sales_by_region (snd (star_build (Some small_dataset) empty_store))
     = Inr [[SqlText ''North'', SqlReal 20, SqlInt 1, SqlReal 20]]"
  by (simp add: star_build_empty_store star_sales_by_region_def sales_facts_of_def
      star_dim_customer_of_def or_raise_def select_sales_by_region_def group_by_def
      order_by_desc_def sql_avg_def sql_join_def star_dim_customer_def pd_merge_def
      small_dataset_def dangling_dataset_def)

lemma cross_schema_equivalence_small:
  "regions_resolve small_dataset
   \<and> star_sales_by_region (snd (star_build (Some small_dataset) empty_store))
       = Inr [[SqlText ''North'', SqlReal 20, SqlInt 1, SqlReal 20]]
   \<and> snowflake_sales_by_region (snd (snowflake_build (Some small_dataset) empty_store))
       = Inr [[SqlText ''North'', SqlReal 20, SqlInt 1, SqlReal 20]]
   \<and> star_complex_analysis (snd (star_build (Some small_dataset) empty_store))
       = snowflake_complex_analysis (snd (snowflake_build (Some small_dataset) empty_store))"
proof -
  obtain stats1 where b1: "star_build (Some small_dataset) empty_store
      = (Inr stats1, snd (star_build (Some small_dataset) empty_store))"
    by (simp add: star_build_empty_store)
  obtain stats2 where b2: "snowflake_build (Some small_dataset) empty_store
      = (Inr stats2, snd (snowflake_build (Some small_dataset) empty_store))"
    by (simp add: snowflake_build_empty_store)
  from cross_schema_equivalence[OF b1 b2 regions_resolve_small]
  show ?thesis
    using regions_resolve_small star_sales_by_region_small by simp
qed

text \<open>
  The condition on the regions matters for hand-made files only, which the generator never
  writes: with a region whose country is missing from the country file, the star customer
  dimension loses the customer in its inner join with the countries and the first star
  query returns no row, while the snowflake query, which never joins the countries,
  returns the region's total.
\<close>

lemma dangling_country_changes_result:
  "star_sales_by_region (snd (star_build (Some dangling_dataset) empty_store)) = Inr []
   \<and> snowflake_sales_by_region (snd (snowflake_build (Some dangling_dataset) empty_store))
       = Inr [[SqlText ''North'', SqlReal 20, SqlInt 1, SqlReal 20]]
   \<and> star_sales_by_region (snd (star_build (Some dangling_dataset) empty_store))
       \<noteq> snowflake_sales_by_region (snd (snowflake_build (Some dangling_dataset) empty_store))"
  by (simp add: star_build_empty_store snowflake_build_empty_store
      star_sales_by_region_def snowflake_sales_by_region_def sales_facts_of_def
      star_dim_customer_of_def dim_customer_of_def dim_city_of_def dim_region_of_def
      or_raise_def select_sales_by_region_def group_by_def
      order_by_desc_def sql_avg_def sql_join_def star_dim_customer_def pd_merge_def
      dangling_dataset_def)

theorem denormalised_names_follow_chain_witness:
  "embedded_customer_names (snd (star_build (Some small_dataset) empty_store))
     = Some [(1, ''Town'', ''North'', ''Land'')]
   \<and> reached_customer_names (snd (snowflake_build (Some small_dataset) empty_store))
     = Some [(1, ''Town'', ''North'', ''Land'')]
   \<and> embedded_product_names (snd (star_build (Some small_dataset) empty_store))
     = reached_product_names (snd (snowflake_build (Some small_dataset) empty_store))"
proof -
  obtain stats1 where b1: "star_build (Some small_dataset) empty_store
      = (Inr stats1, snd (star_build (Some small_dataset) empty_store))"
    by (simp add: star_build_empty_store)
  obtain stats2 where b2: "snowflake_build (Some small_dataset) empty_store
      = (Inr stats2, snd (snowflake_build (Some small_dataset) empty_store))"
    by (simp add: snowflake_build_empty_store)
  have "embedded_customer_names (snd (star_build (Some small_dataset) empty_store))
     = Some [(1, ''Town'', ''North'', ''Land'')]"
    by (simp add: star_build_empty_store embedded_customer_names_def star_dim_customer_of_def
        star_dim_customer_def pd_merge_def small_dataset_def dangling_dataset_def)
  with denormalised_names_follow_chain[OF b1 b2] show ?thesis by simp
qed

section \<open>Properties of the generated time dimension\<close>

lemma days_in_month_bounds: "28 \<le> days_in_month y m \<and> days_in_month y m \<le> 31"
  by (simp add: days_in_month_def)

lemma valid_add_one_day: "valid_date dt \<Longrightarrow> valid_date (add_one_day dt)"
  using days_in_month_bounds[of "d_year dt" "d_month dt + 1"]
    days_in_month_bounds[of "d_year dt + 1" 1]
  by (auto simp: valid_date_def add_one_day_def)

lemma days_before_month_Suc:
  "1 \<le> m \<Longrightarrow> m < 12 \<Longrightarrow>
     days_before_month y (m + 1) = days_before_month y m + days_in_month y m"
proof -
  assume "1 \<le> m" "m < 12"
  then have "m = 1 \<or> m = 2 \<or> m = 3 \<or> m = 4 \<or> m = 5 \<or> m = 6 \<or> m = 7 \<or> m = 8 \<or> m = 9
      \<or> m = 10 \<or> m = 11" by arith
  then show ?thesis
    by (elim disjE) (simp_all add: days_before_month_def days_in_month_def)
qed

lemma div_pred: "0 < k \<Longrightarrow> (y::int) div k = (y - 1) div k + (if y mod k = 0 then 1 else 0)"
proof -
  assume k: "0 < k"
  define q where "q = y div k"
  define r where "r = y mod k"
  have y: "y = k * q + r" and r: "0 \<le> r" "r < k"
    using k by (simp_all add: q_def r_def)
  show ?thesis
  proof (cases "r = 0")
    case True
    have "y - 1 = k * (q - 1) + (k - 1)" using y True by (simp add: algebra_simps)
    from int_div_pos_eq[OF this] k have "(y - 1) div k = q - 1" by simp
    with True show ?thesis by (simp add: q_def r_def)
  next
    case False
    have "y - 1 = k * q + (r - 1)" using y by simp
    from int_div_pos_eq[OF this] r False have "(y - 1) div k = q" by simp
    with False show ?thesis by (simp add: q_def r_def)
  qed
qed

lemma mod_400_100: "(y::int) mod 400 = 0 \<Longrightarrow> y mod 100 = 0"
proof -
  assume "y mod 400 = 0"
  then have "400 dvd y" by (simp add: dvd_eq_mod_eq_0)
  moreover have "(100::int) dvd 400" by simp
  ultimately have "100 dvd y" by (rule dvd_trans[rotated])
  then show ?thesis by (simp add: dvd_eq_mod_eq_0)
qed

lemma mod_100_4: "(y::int) mod 100 = 0 \<Longrightarrow> y mod 4 = 0"
proof -
  assume "y mod 100 = 0"
  then have "100 dvd y" by (simp add: dvd_eq_mod_eq_0)
  moreover have "(4::int) dvd 100" by simp
  ultimately have "4 dvd y" by (rule dvd_trans[rotated])
  then show ?thesis by (simp add: dvd_eq_mod_eq_0)
qed

lemma days_before_year_Suc:
  "days_before_year (y + 1) = days_before_year y + 365 + (if is_leap y then 1 else 0)"
proof -
  define a where "a = (y - 1) div 4"
  define b where "b = (y - 1) div 100"
  define c where "c = (y - 1) div 400"
  have d4: "y div 4 = a + (if y mod 4 = 0 then 1 else 0)"
    unfolding a_def by (rule div_pred) simp
  have d100: "y div 100 = b + (if y mod 100 = 0 then 1 else 0)"
    unfolding b_def by (rule div_pred) simp
  have d400: "y div 400 = c + (if y mod 400 = 0 then 1 else 0)"
    unfolding c_def by (rule div_pred) simp
  have lhs: "days_before_year (y + 1) = y * 365 + y div 4 - y div 100 + y div 400"
    by (simp add: days_before_year_def)
  have rhs: "days_before_year y = (y - 1) * 365 + a - b + c"
    by (simp add: days_before_year_def a_def b_def c_def Let_def)
  show ?thesis
  proof (cases "y mod 400 = 0")
    case True
    then have "y mod 100 = 0" by (rule mod_400_100)
    moreover from this have "y mod 4 = 0" by (rule mod_100_4)
    ultimately have "y mod 100 = 0" "y mod 4 = 0" by simp_all
    with True show ?thesis
      unfolding lhs rhs d4 d100 d400 by (simp add: is_leap_def algebra_simps)
  next
    case n400: False
    show ?thesis
    proof (cases "y mod 100 = 0")
      case True
      then have "y mod 4 = 0" by (rule mod_100_4)
      with True n400 show ?thesis
        unfolding lhs rhs d4 d100 d400 by (simp add: is_leap_def algebra_simps)
    next
      case n100: False
      show ?thesis
      proof (cases "y mod 4 = 0")
        case True
        with n100 n400 show ?thesis
          unfolding lhs rhs d4 d100 d400 by (simp add: is_leap_def algebra_simps)
      next
        case False
        with n100 n400 show ?thesis
          unfolding lhs rhs d4 d100 d400 by (simp add: is_leap_def algebra_simps)
      qed
    qed
  qed
qed

lemma toordinal_add_one_day:
  assumes "valid_date dt"
  shows "toordinal (add_one_day dt) = toordinal dt + 1"
proof -
  have v: "1 \<le> d_month dt" "d_month dt \<le> 12" "1 \<le> d_day dt"
    "d_day dt \<le> days_in_month (d_year dt) (d_month dt)"
    using assms by (simp_all add: valid_date_def)
  show ?thesis
  proof (cases "d_day dt < days_in_month (d_year dt) (d_month dt)")
    case True
    then show ?thesis by (simp add: add_one_day_def toordinal_def)
  next
    case False
    with v have eq: "d_day dt = days_in_month (d_year dt) (d_month dt)" by simp
    show ?thesis
    proof (cases "d_month dt < 12")
      case True
      have "add_one_day dt = dt\<lparr>d_month := d_month dt + 1, d_day := 1\<rparr>"
        using False True by (simp add: add_one_day_def)
      then have "toordinal (add_one_day dt)
          = days_before_year (d_year dt) + days_before_month (d_year dt) (d_month dt + 1) + 1"
        by (simp add: toordinal_def)
      also have "\<dots> = days_before_year (d_year dt) + days_before_month (d_year dt) (d_month dt)
          + days_in_month (d_year dt) (d_month dt) + 1"
        using days_before_month_Suc[OF v(1) True] by simp
      also have "\<dots> = toordinal dt + 1"
        unfolding toordinal_def eq[symmetric] by simp
      finally show ?thesis .
    next
      case nm: False
      with v have m: "d_month dt = 12" by simp
      have "add_one_day dt = \<lparr>d_year = d_year dt + 1, d_month = 1, d_day = 1\<rparr>"
        using False nm by (simp add: add_one_day_def)
      then have "toordinal (add_one_day dt) = days_before_year (d_year dt + 1) + 1"
        by (simp add: toordinal_def days_before_month_def)
      also have "\<dots> = days_before_year (d_year dt) + 365
          + (if is_leap (d_year dt) then 1 else 0) + 1"
        by (simp only: days_before_year_Suc)
      also have "\<dots> = toordinal dt + 1"
        using eq by (simp add: toordinal_def m days_before_month_def days_in_month_def)
      finally show ?thesis .
    qed
  qed
qed

lemma time_loop_rows:
  "valid_date c \<Longrightarrow> r \<in> set (time_loop c e t) \<Longrightarrow>
     \<exists>i. time_id r = t + int i \<and> toordinal (date r) = toordinal c + int i
         \<and> valid_date (date r) \<and> r = mk_time_record (time_id r) (date r)"
proof (induction c e t rule: time_loop.induct)
  case (1 c e t)
  from "1.prems"(2) have le: "date_le c e"
    by (subst (asm) time_loop.simps) (auto split: if_splits)
  from "1.prems"(2) le
  consider "r = mk_time_record t c" | "r \<in> set (time_loop (add_one_day c) e (t + 1))"
    by (subst (asm) time_loop.simps) auto
  then show ?case
  proof cases
    case 1
    have "time_id r = t + int 0 \<and> toordinal (date r) = toordinal c + int 0
         \<and> valid_date (date r) \<and> r = mk_time_record (time_id r) (date r)"
      using 1 "1.prems"(1) by (simp add: mk_time_record_def)
    then show ?thesis by blast
  next
    case 2
    from "1.IH"[OF le valid_add_one_day[OF "1.prems"(1)] 2]
    obtain i where i: "time_id r = t + 1 + int i"
      "toordinal (date r) = toordinal (add_one_day c) + int i"
      "valid_date (date r)" "r = mk_time_record (time_id r) (date r)" by blast
    have "time_id r = t + int (Suc i) \<and> toordinal (date r) = toordinal c + int (Suc i)
         \<and> valid_date (date r) \<and> r = mk_time_record (time_id r) (date r)"
      using i toordinal_add_one_day[OF "1.prems"(1)] by simp
    then show ?thesis by blast
  qed
qed

lemma quarter_ceiling: "(m - 1) div 3 + 1 = \<lceil>(of_int m :: rat) / 3\<rceil>" for m :: int
proof -
  have "\<lceil>(of_int m :: rat) / of_int 3\<rceil> = - (- m div 3)"
    by (rule ceiling_divide_eq_div)
  moreover have "- (- m div 3) = (m - 1) div 3 + 1" by presburger
  ultimately show ?thesis by simp
qed

lemma toordinal_start: "toordinal \<lparr>d_year = 2022, d_month = 1, d_day = 1\<rparr> = 738156"
  by (simp add: toordinal_def days_before_year_def days_before_month_def)

lemma valid_start: "valid_date \<lparr>d_year = 2022, d_month = 1, d_day = 1\<rparr>"
  by (simp add: valid_date_def days_in_month_def)

lemma first_time_row:
  "mk_time_record 1 \<lparr>d_year = 2022, d_month = 1, d_day = 1\<rparr> \<in> set generate_time_data"
  unfolding generate_time_data_def
  by (subst time_loop.simps) (simp add: date_le_def)

text \<open>
  Claim C6: in every row of the generated time dimension the quarter label is \<open>Q\<close> followed
  by the ceiling of a third of the row's month, and the weekday number and name are those
  of the row's date: the number is the date's day count from 0001-01-01, a Monday, taken
  modulo 7 with Monday as 1 and Sunday as 7; it advances by one from row to row, starting
  at Saturday for the first row, 2022-01-01; the name is the entry of that number in the
  list of day names.
\<close>

theorem time_dimension_derivation:
  "\<forall>r\<in>set generate_time_data.
      quarter r = ''Q'' @ format_int \<lceil>(of_int (month r) :: rat) / 3\<rceil>
    \<and> month r = d_month (date r) \<and> 1 \<le> month r \<and> month r \<le> 12
    \<and> weekday r = (toordinal (date r) + 6) mod 7 + 1
    \<and> weekday r = (time_id r + 4) mod 7 + 1
    \<and> 1 \<le> weekday r \<and> weekday r \<le> 7
    \<and> weekday_name r = day_names ! nat (weekday r - 1)"
proof
  fix r assume "r \<in> set generate_time_data"
  from time_loop_rows[OF valid_start this[unfolded generate_time_data_def]]
  obtain i where i: "time_id r = 1 + int i"
    "toordinal (date r) = toordinal \<lparr>d_year = 2022, d_month = 1, d_day = 1\<rparr> + int i"
    "valid_date (date r)" "r = mk_time_record (time_id r) (date r)" by blast
  define dt where "dt = date r"
  define tid where "tid = time_id r"
  have r: "r = mk_time_record tid dt" using i(4) by (simp only: dt_def tid_def)
  have q: "quarter r = ''Q'' @ format_int ((d_month dt - 1) div 3 + 1)"
    by (simp add: r mk_time_record_def)
  have m: "month r = d_month dt" by (simp add: r mk_time_record_def)
  have w: "weekday r = (toordinal dt + 6) mod 7 + 1"
    by (simp add: r mk_time_record_def py_weekday_def)
  have n: "weekday_name r = day_names ! nat ((toordinal dt + 6) mod 7)"
    by (simp add: r mk_time_record_def strftime_A_def py_weekday_def)
  have o: "toordinal dt = tid + 738155"
    using i(1,2) by (simp add: toordinal_start dt_def tid_def)
  have p: "(tid + 738155 + 6) mod 7 = (tid + 4) mod 7" by presburger
  have b: "0 \<le> (tid + 4) mod 7" "(tid + 4) mod 7 < 7" by simp_all
  have v: "1 \<le> d_month dt" "d_month dt \<le> 12" using i(3) by (simp_all add: valid_date_def dt_def)
  have c1: "quarter r = ''Q'' @ format_int \<lceil>(of_int (month r) :: rat) / 3\<rceil>"
    by (simp only: q m quarter_ceiling)
  have c2: "month r = d_month (date r)" by (simp only: m dt_def)
  have c3: "1 \<le> month r" "month r \<le> 12" using v by (simp_all only: m)
  have c4: "weekday r = (toordinal (date r) + 6) mod 7 + 1" by (simp only: w dt_def)
  have "weekday r = (tid + 4) mod 7 + 1" by (simp only: w o p)
  then have c5: "weekday r = (time_id r + 4) mod 7 + 1" by (simp only: tid_def)
  have c6: "1 \<le> weekday r" "weekday r \<le> 7" using b by (simp_all add: w o p)
  have "nat (weekday r - 1) = nat ((toordinal dt + 6) mod 7)" by (simp add: w)
  then have c7: "weekday_name r = day_names ! nat (weekday r - 1)" by (simp only: n)
  from c1 c2 c3 c4 c5 c6 c7
  show "quarter r = ''Q'' @ format_int \<lceil>(of_int (month r) :: rat) / 3\<rceil>
    \<and> month r = d_month (date r) \<and> 1 \<le> month r \<and> month r \<le> 12
    \<and> weekday r = (toordinal (date r) + 6) mod 7 + 1
    \<and> weekday r = (time_id r + 4) mod 7 + 1
    \<and> 1 \<le> weekday r \<and> weekday r \<le> 7
    \<and> weekday_name r = day_names ! nat (weekday r - 1)"
    by (intro conjI)
qed

lemma char_of_49: "char_of (49::nat) = CHR ''1''"
  by code_simp

lemma decimal_1: "decimal (Suc 0) = ''1''"
  by (subst decimal.simps) (simp add: char_of_49)

lemma first_quarter:
  "quarter (mk_time_record 1 \<lparr>d_year = 2022, d_month = 1, d_day = 1\<rparr>) = ''Q1''"
  by (simp add: mk_time_record_def format_int_def decimal_1)

lemma first_weekday:
  "weekday (mk_time_record 1 \<lparr>d_year = 2022, d_month = 1, d_day = 1\<rparr>) = 6"
  by (simp add: mk_time_record_def py_weekday_def toordinal_start)

lemma first_weekday_name:
  "weekday_name (mk_time_record 1 \<lparr>d_year = 2022, d_month = 1, d_day = 1\<rparr>) = ''Saturday''"
  by (simp add: mk_time_record_def strftime_A_def py_weekday_def toordinal_start day_names_def)

theorem time_dimension_derivation_witness:
  "mk_time_record 1 \<lparr>d_year = 2022, d_month = 1, d_day = 1\<rparr> \<in> set generate_time_data
   \<and> quarter (mk_time_record 1 \<lparr>d_year = 2022, d_month = 1, d_day = 1\<rparr>) = ''Q1''
   \<and> weekday (mk_time_record 1 \<lparr>d_year = 2022, d_month = 1, d_day = 1\<rparr>) = 6
   \<and> weekday_name (mk_time_record 1 \<lparr>d_year = 2022, d_month = 1, d_day = 1\<rparr>) = ''Saturday''
   \<and> weekday (mk_time_record 1 \<lparr>d_year = 2022, d_month = 1, d_day = 1\<rparr>)
       = (time_id (mk_time_record 1 \<lparr>d_year = 2022, d_month = 1, d_day = 1\<rparr>) + 4) mod 7 + 1"
proof -
  from time_dimension_derivation[rule_format, OF first_time_row]
  have "weekday (mk_time_record 1 \<lparr>d_year = 2022, d_month = 1, d_day = 1\<rparr>)
       = (time_id (mk_time_record 1 \<lparr>d_year = 2022, d_month = 1, d_day = 1\<rparr>) + 4) mod 7 + 1"
    by (elim conjE)
  with first_time_row first_quarter first_weekday first_weekday_name
  show ?thesis by (intro conjI)
qed

section \<open>Properties of the generator\<close>

lemma sample_one_ok:
  "rows \<noteq> [] \<Longrightarrow> \<exists>r s'. sample_one e rows s = Inr (r, s') \<and> r \<in> set rows"
  by (simp add: sample_one_def)

lemma sample_one_mem: "sample_one e rows s = Inr (r, s') \<Longrightarrow> r \<in> set rows"
  by (auto simp: sample_one_def split: if_splits)

lemma sales_loop_total:
  assumes "time_df \<noteq> []" "products_df \<noteq> []" "customers_df \<noteq> []" "sales_people_df \<noteq> []"
  shows "\<exists>rows s'. sales_loop e time_df products_df customers_df sales_people_df n i s = Inr (rows, s')"
proof (induction n arbitrary: i s)
  case 0
  then show ?case by simp
next
  case (Suc n)
  obtain t s1 where t: "sample_one e time_df s = Inr (t, s1)"
    using sample_one_ok[OF assms(1)] by blast
  obtain p s2 where p: "sample_one e products_df s1 = Inr (p, s2)"
    using sample_one_ok[OF assms(2)] by blast
  obtain c s3 where c: "sample_one e customers_df s2 = Inr (c, s3)"
    using sample_one_ok[OF assms(3)] by blast
  obtain sp s4 where sp: "sample_one e sales_people_df s3 = Inr (sp, s4)"
    using sample_one_ok[OF assms(4)] by blast
  obtain q s5 where q: "randint e 1 10 s4 = (q, s5)" by (cases "randint e 1 10 s4")
  obtain u s6 where u: "uniform e 0 (2 / 10) s5 = (u, s6)" by (cases "uniform e 0 (2 / 10) s5")
  from Suc[of "i + 1" s6] obtain rows s7 where
    "sales_loop e time_df products_df customers_df sales_people_df n (i + 1) s6 = Inr (rows, s7)"
    by blast
  with t p c sp q u show ?case by (simp add: Let_def)
qed

lemma randint_range:
  "a \<le> b \<Longrightarrow> randint e a b s = (x, s') \<Longrightarrow> a \<le> x \<and> x \<le> b"
proof -
  assume ab: "a \<le> b" and r: "randint e a b s = (x, s')"
  define k where "k = int (random_bits e (random_pos s)) mod (b - a + 1)"
  have pos: "0 < b - a + 1" using ab by simp
  have "0 \<le> k" "k < b - a + 1"
    unfolding k_def using pos_mod_sign[OF pos] pos_mod_bound[OF pos] by blast+
  moreover have "x = a + k" using r by (auto simp: randint_def k_def)
  ultimately show ?thesis by simp
qed

lemma set_enumerate_from:
  "(i, x) \<in> set (enumerate_from k xs) \<Longrightarrow> k \<le> i \<and> i < k + int (length xs) \<and> x \<in> set xs"
  by (induction k xs rule: enumerate_from.induct) auto

lemma fst_enumerate_from:
  "k \<le> i \<Longrightarrow> i < k + int (length xs) \<Longrightarrow> i \<in> fst ` set (enumerate_from k xs)"
proof (induction k xs rule: enumerate_from.induct)
  case (1 i)
  then show ?case by simp
next
  case (2 k x xs)
  show ?case
  proof (cases "i = k")
    case True
    then show ?thesis by simp
  next
    case False
    with 2 have "i \<in> fst ` set (enumerate_from (k + 1) xs)" by simp
    then show ?thesis by auto
  qed
qed

lemma cities_loop_rows:
  "cities_loop e xs s = (rows, s') \<Longrightarrow>
     map city_id rows = map fst xs
     \<and> (\<forall>c\<in>set rows. 1 \<le> city_region_id c \<and> city_region_id c \<le> int NUM_REGIONS)"
proof (induction e xs s arbitrary: rows s' rule: cities_loop.induct)
  case (1 e s)
  then show ?case by simp
next
  case (2 e i city rest s)
  obtain rid s1 where r: "randint e 1 (int NUM_REGIONS) s = (rid, s1)"
    by (cases "randint e 1 (int NUM_REGIONS) s")
  obtain rows' s2 where l: "cities_loop e rest s1 = (rows', s2)"
    by (cases "cities_loop e rest s1")
  have rg: "1 \<le> rid \<and> rid \<le> int NUM_REGIONS"
    by (rule randint_range[OF _ r]) (simp add: NUM_REGIONS_def)
  from "2.IH"[OF r[symmetric] refl l]
  have ih: "map city_id rows' = map fst rest"
    "\<forall>c\<in>set rows'. 1 \<le> city_region_id c \<and> city_region_id c \<le> int NUM_REGIONS" by auto
  from "2.prems" r l
  have "rows = \<lparr>city_id = i, city_name = city, city_region_id = rid\<rparr> # rows'" by simp
  with ih rg show ?case by simp
qed

lemma products_loop_rows:
  "products_loop e subs n i s = (rows, s') \<Longrightarrow> subs \<noteq> [] \<Longrightarrow>
     map product_id rows = map (\<lambda>k. i + int k) [0..<n]
     \<and> (\<forall>p\<in>set rows. 1 \<le> product_subcategory_id p
            \<and> product_subcategory_id p \<le> int (length subs))"
proof (induction n arbitrary: i s rows s')
  case 0
  then show ?case by simp
next
  case (Suc n)
  obtain sid s1 where r: "randint e 1 (int (length subs)) s = (sid, s1)"
    by (cases "randint e 1 (int (length subs)) s")
  obtain w1 s2 where w1: "fake e s1 = (w1, s2)" by (cases "fake e s1")
  obtain w2 s3 where w2: "fake e s2 = (w2, s3)" by (cases "fake e s2")
  obtain price s4 where u: "uniform e 10 5000 s3 = (price, s4)" by (cases "uniform e 10 5000 s3")
  obtain rows' s5 where l: "products_loop e subs n (i + 1) s4 = (rows', s5)"
    by (cases "products_loop e subs n (i + 1) s4")
  have "1 \<le> int (length subs)" using Suc.prems(2) by (cases subs) simp_all
  from randint_range[OF this r]
  have rg: "1 \<le> sid \<and> sid \<le> int (length subs)" .
  from Suc.IH[OF l Suc.prems(2)]
  have ih: "map product_id rows' = map (\<lambda>k. i + 1 + int k) [0..<n]"
    "\<forall>p\<in>set rows'. 1 \<le> product_subcategory_id p
            \<and> product_subcategory_id p \<le> int (length subs)" by auto
  from Suc.prems(1) r w1 w2 u l
  have rows: "rows = \<lparr>product_id = i,
           product_name = capitalize e w1 @ '' '' @ capitalize e w2,
           product_code = ''PRD'' @ format_05d i,
           product_subcategory_id = sid,
           unit_price = py_round price 2\<rparr> # rows'" by simp
  have "map (\<lambda>k. i + int k) [0..<Suc n] = i # map (\<lambda>k. i + 1 + int k) [0..<n]"
    by (simp add: upt_rec[of 0 "Suc n"] map_Suc_upt[symmetric] del: upt_Suc)
  with rows ih rg show ?case by simp
qed

lemma upt_shift: "map (\<lambda>k. i + int k) [0..<Suc n] = i # map (\<lambda>k. i + 1 + int k) [0..<n]"
  by (simp add: upt_rec[of 0 "Suc n"] map_Suc_upt[symmetric] del: upt_Suc)

lemma customers_loop_rows:
  "customers_loop e n i s = (rows, s') \<Longrightarrow>
     map customer_id rows = map (\<lambda>k. i + int k) [0..<n]
     \<and> (\<forall>c\<in>set rows. 1 \<le> customer_city_id c \<and> customer_city_id c \<le> int NUM_CITIES)"
proof (induction n arbitrary: i s rows s')
  case 0
  then show ?case by simp
next
  case (Suc n)
  obtain name s1 where f1: "fake e s = (name, s1)" by (cases "fake e s")
  obtain mail s2 where f2: "fake e s1 = (mail, s2)" by (cases "fake e s1")
  obtain ph s3 where f3: "fake e s2 = (ph, s3)" by (cases "fake e s2")
  obtain cid s4 where r: "randint e 1 (int NUM_CITIES) s3 = (cid, s4)"
    by (cases "randint e 1 (int NUM_CITIES) s3")
  obtain reg s5 where dt: "date_between e s4 = (reg, s5)" by (cases "date_between e s4")
  obtain rows' s6 where l: "customers_loop e n (i + 1) s5 = (rows', s6)"
    by (cases "customers_loop e n (i + 1) s5")
  have rg: "1 \<le> cid \<and> cid \<le> int NUM_CITIES"
    by (rule randint_range[OF _ r]) (simp add: NUM_CITIES_def)
  from Suc.IH[OF l]
  have ih: "map customer_id rows' = map (\<lambda>k. i + 1 + int k) [0..<n]"
    "\<forall>c\<in>set rows'. 1 \<le> customer_city_id c \<and> customer_city_id c \<le> int NUM_CITIES" by auto
  from Suc.prems f1 f2 f3 r dt l
  have rows: "rows = \<lparr>customer_id = i, customer_name = name, email = mail, phone = ph,
           customer_city_id = cid, registration_date = reg\<rparr> # rows'" by simp
  from rows ih rg show ?case by (simp add: upt_shift del: upt_Suc)
qed

lemma sales_people_loop_rows:
  "sales_people_loop e n i s = (rows, s') \<Longrightarrow>
     map salesperson_id rows = map (\<lambda>k. i + int k) [0..<n]
     \<and> (\<forall>c\<in>set rows. 1 \<le> salesperson_region_id c
            \<and> salesperson_region_id c \<le> int NUM_REGIONS)"
proof (induction n arbitrary: i s rows s')
  case 0
  then show ?case by simp
next
  case (Suc n)
  obtain name s1 where f1: "fake e s = (name, s1)" by (cases "fake e s")
  obtain hired s2 where dt: "date_between e s1 = (hired, s2)" by (cases "date_between e s1")
  obtain rid s3 where r: "randint e 1 (int NUM_REGIONS) s2 = (rid, s3)"
    by (cases "randint e 1 (int NUM_REGIONS) s2")
  obtain rows' s4 where l: "sales_people_loop e n (i + 1) s3 = (rows', s4)"
    by (cases "sales_people_loop e n (i + 1) s3")
  have rg: "1 \<le> rid \<and> rid \<le> int NUM_REGIONS"
    by (rule randint_range[OF _ r]) (simp add: NUM_REGIONS_def)
  from Suc.IH[OF l]
  have ih: "map salesperson_id rows' = map (\<lambda>k. i + 1 + int k) [0..<n]"
    "\<forall>c\<in>set rows'. 1 \<le> salesperson_region_id c
            \<and> salesperson_region_id c \<le> int NUM_REGIONS" by auto
  from Suc.prems f1 dt r l
  have rows: "rows = \<lparr>salesperson_id = i, salesperson_name = name, hire_date = hired,
           salesperson_region_id = rid\<rparr> # rows'" by simp
  from rows ih rg show ?case by (simp add: upt_shift del: upt_Suc)
qed

lemma round_half_even_bounds:
  assumes "0 \<le> y" "y \<le> of_int n"
  shows "0 \<le> round_half_even y \<and> round_half_even y \<le> n"
proof -
  define f where "f = \<lfloor>y\<rfloor>"
  have f0: "0 \<le> f" using assms(1) by (simp add: f_def)
  have fn: "f \<le> n" using assms(2) by (simp add: f_def floor_le_iff)
  have up: "y - of_int f \<noteq> 0 \<Longrightarrow> f + 1 \<le> n"
  proof -
    assume "y - of_int f \<noteq> 0"
    moreover have "of_int f \<le> y" unfolding f_def by (rule of_int_floor_le)
    ultimately have "of_int f < y" by simp
    with assms(2) have "(of_int f :: rat) < of_int n" by simp
    then show ?thesis by simp
  qed
  have "round_half_even y = f \<or> (round_half_even y = f + 1 \<and> y - of_int f \<noteq> 0)"
    by (auto simp: round_half_even_def Let_def f_def[symmetric])
  with f0 fn up show ?thesis by auto
qed

lemma uniform_range:
  assumes "a \<le> b" "uniform e a b s = (x, s')"
  shows "a \<le> x \<and> x \<le> b"
proof -
  define u :: rat where "u = of_nat (random_bits e (random_pos s) mod 2 ^ 53) / 2 ^ 53"
  have u0: "0 \<le> u" by (simp add: u_def)
  have "random_bits e (random_pos s) mod 2 ^ 53 < 2 ^ 53" by simp
  then have "(of_nat (random_bits e (random_pos s) mod 2 ^ 53) :: rat) < of_nat (2 ^ 53)"
    by (simp only: of_nat_less_iff)
  then have u1: "u \<le> 1" by (simp add: u_def)
  have x: "x = a + (b - a) * u" using assms(2) by (auto simp: uniform_def u_def)
  have "0 \<le> (b - a) * u" using assms(1) u0 by simp
  moreover have "(b - a) * u \<le> (b - a) * 1"
    using assms(1) u1 by (intro mult_left_mono) simp_all
  ultimately show ?thesis by (simp add: x)
qed

lemma discount_range:
  assumes "uniform e 0 (2 / 10) s = (u, s')"
  shows "0 \<le> py_round u 3 \<and> py_round u 3 \<le> 2 / 10"
proof -
  from uniform_range[OF _ assms] have u: "0 \<le> u" "u \<le> 2 / 10" by simp_all
  have "0 \<le> u * 10 ^ 3" using u(1) by simp
  moreover have "u * 10 ^ 3 \<le> of_int 200" using u(2) by simp
  ultimately have "0 \<le> round_half_even (u * 10 ^ 3) \<and> round_half_even (u * 10 ^ 3) \<le> 200"
    by (rule round_half_even_bounds)
  then have "(0::rat) \<le> of_int (round_half_even (u * 10 ^ 3))"
    "(of_int (round_half_even (u * 10 ^ 3)) :: rat) \<le> of_int 200"
    by (simp_all only: of_int_0_le_iff of_int_le_iff)
  then show ?thesis by (simp add: py_round_def)
qed

lemma sales_loop_rows:
  "sales_loop e T P C S n i s = Inr (rows, s') \<Longrightarrow>
     length rows = n
     \<and> (\<forall>f\<in>set rows.
           (\<exists>t\<in>set T. time_id t = sale_time_id f)
         \<and> (\<exists>p\<in>set P. product_id p = sale_product_id f \<and> unit_price p = sale_unit_price f)
         \<and> (\<exists>c\<in>set C. customer_id c = sale_customer_id f)
         \<and> (\<exists>sp\<in>set S. salesperson_id sp = sale_salesperson_id f)
         \<and> 1 \<le> quantity f \<and> quantity f \<le> 10
         \<and> 0 \<le> discount f \<and> discount f \<le> 2 / 10
         \<and> total_amount f
             = py_round (of_int (quantity f) * sale_unit_price f * (1 - discount f)) 2)"
proof (induction n arbitrary: i s rows s')
  case 0
  then show ?case by simp
next
  case (Suc n)
  from Suc.prems obtain t s1 p s2 c s3 sp s4 q s5 u s6 rows' s7 where
    st: "sample_one e T s = Inr (t, s1)" and
    sp: "sample_one e P s1 = Inr (p, s2)" and
    sc: "sample_one e C s2 = Inr (c, s3)" and
    ss: "sample_one e S s3 = Inr (sp, s4)" and
    rq: "randint e 1 10 s4 = (q, s5)" and
    ru: "uniform e 0 (2 / 10) s5 = (u, s6)" and
    l: "sales_loop e T P C S n (i + 1) s6 = Inr (rows', s7)" and
    rows: "rows = \<lparr>sale_id = i, sale_time_id = time_id t, sale_product_id = product_id p,
        sale_customer_id = customer_id c, sale_salesperson_id = salesperson_id sp,
        quantity = q, sale_unit_price = unit_price p, discount = py_round u 3,
        total_amount = py_round (of_int q * unit_price p * (1 - py_round u 3)) 2\<rparr> # rows'"
    by (auto simp: Let_def split: sum.splits prod.splits)
  note m = sample_one_mem[OF st] sample_one_mem[OF sp] sample_one_mem[OF sc]
    sample_one_mem[OF ss]
  have q: "1 \<le> q \<and> q \<le> 10" by (rule randint_range[OF _ rq]) simp
  note d = discount_range[OF ru]
  from Suc.IH[OF l] rows m q d show ?case by auto
qed

lemma save_data_to_csv_parts:
  assumes "save_data_to_csv e = Inr d"
  shows "countries d = map (\<lambda>(i, name). \<lparr>country_id = i, country_name = name\<rparr>)
                        (enumerate_from 1 country_names)"
    and "regions d = map (\<lambda>(i, region). \<lparr>region_id = i, region_name = region @ oblast_suffix,
                                          region_country_id = 1\<rparr>)
                      (enumerate_from 1 ukrainian_regions)"
    and "\<exists>s s'. cities_loop e (enumerate_from 1 ukrainian_cities) s = (cities d, s')"
    and "categories d = map (\<lambda>(i, name). \<lparr>category_id = i, category_name = name\<rparr>)
                         (enumerate_from 1 category_names)"
    and "subcategories d = subcategories_loop subcategory_data 1"
    and "\<exists>s s'. products_loop e (subcategories_loop subcategory_data 1) NUM_PRODUCTS 1 s
                  = (products d, s')"
    and "\<exists>s s'. customers_loop e NUM_CUSTOMERS 1 s = (customers d, s')"
    and "\<exists>s s'. sales_people_loop e NUM_SALES_PEOPLE 1 s = (sales_people d, s')"
    and "time_dimension d = generate_time_data"
    and "\<exists>s s'. sales_loop e (time_dimension d) (products d) (customers d) (sales_people d)
                  NUM_SALES_RECORDS 1 s = Inr (sales_facts d, s')"
proof -
  from assms obtain ci s1 pr s2 cu s3 sp s4 sf s5 where
    p1: "cities_loop e (enumerate_from 1 ukrainian_cities) init_state = (ci, s1)" and
    p2: "products_loop e (subcategories_loop subcategory_data 1) NUM_PRODUCTS 1 s1 = (pr, s2)" and
    p3: "customers_loop e NUM_CUSTOMERS 1 s2 = (cu, s3)" and
    p4: "sales_people_loop e NUM_SALES_PEOPLE 1 s3 = (sp, s4)" and
    p5: "sales_loop e generate_time_data pr cu sp NUM_SALES_RECORDS 1 s4 = Inr (sf, s5)" and
    d: "d = \<lparr>countries = map (\<lambda>(i, name). \<lparr>country_id = i, country_name = name\<rparr>)
                        (enumerate_from 1 country_names),
            regions = map (\<lambda>(i, region). \<lparr>region_id = i, region_name = region @ oblast_suffix,
                                          region_country_id = 1\<rparr>)
                      (enumerate_from 1 ukrainian_regions),
            cities = ci,
            categories = map (\<lambda>(i, name). \<lparr>category_id = i, category_name = name\<rparr>)
                         (enumerate_from 1 category_names),
            subcategories = subcategories_loop subcategory_data 1,
            products = pr, customers = cu, sales_people = sp,
            time_dimension = generate_time_data, sales_facts = sf\<rparr>"
    by (auto simp: save_data_to_csv_def generate_geography_data_def generate_product_data_def
        generate_customer_data_def generate_sales_people_data_def generate_sales_data_def Let_def
        split: prod.splits sum.splits)
  show "countries d = map (\<lambda>(i, name). \<lparr>country_id = i, country_name = name\<rparr>)
                        (enumerate_from 1 country_names)" by (simp add: d)
  show "regions d = map (\<lambda>(i, region). \<lparr>region_id = i, region_name = region @ oblast_suffix,
                                          region_country_id = 1\<rparr>)
                      (enumerate_from 1 ukrainian_regions)" by (simp add: d)
  show "\<exists>s s'. cities_loop e (enumerate_from 1 ukrainian_cities) s = (cities d, s')"
    using p1 by (auto simp: d)
  show "categories d = map (\<lambda>(i, name). \<lparr>category_id = i, category_name = name\<rparr>)
                         (enumerate_from 1 category_names)" by (simp add: d)
  show "subcategories d = subcategories_loop subcategory_data 1" by (simp add: d)
  show "\<exists>s s'. products_loop e (subcategories_loop subcategory_data 1) NUM_PRODUCTS 1 s
                  = (products d, s')" using p2 by (auto simp: d)
  show "\<exists>s s'. customers_loop e NUM_CUSTOMERS 1 s = (customers d, s')"
    using p3 by (auto simp: d)
  show "\<exists>s s'. sales_people_loop e NUM_SALES_PEOPLE 1 s = (sales_people d, s')"
    using p4 by (auto simp: d)
  show "time_dimension d = generate_time_data" by (simp add: d)
  show "\<exists>s s'. sales_loop e (time_dimension d) (products d) (customers d) (sales_people d)
                  NUM_SALES_RECORDS 1 s = Inr (sales_facts d, s')"
    using p5 by (auto simp: d)
qed

lemma generated_countries:
  "save_data_to_csv e = Inr d \<Longrightarrow> map country_id (countries d) = [1, 2, 3]"
  by (simp add: save_data_to_csv_parts(1) country_names_def)

lemma generated_regions:
  "save_data_to_csv e = Inr d \<Longrightarrow>
     map (\<lambda>r. (region_id r, region_country_id r)) (regions d)
       = [(1, 1), (2, 1), (3, 1), (4, 1), (5, 1)]"
  by (simp add: save_data_to_csv_parts(2) ukrainian_regions_def)

lemma generated_categories:
  "save_data_to_csv e = Inr d \<Longrightarrow> map category_id (categories d) = [1, 2, 3, 4, 5, 6, 7, 8]"
  by (simp add: save_data_to_csv_parts(4) category_names_def)

lemma generated_subcategories:
  "map (\<lambda>s. (subcategory_id s, subcategory_category_id s)) (subcategories_loop subcategory_data 1)
     = [(1, 1), (2, 1), (3, 1), (4, 2), (5, 2), (6, 2), (7, 3), (8, 3), (9, 3), (10, 4), (11, 4),
        (12, 4), (13, 5), (14, 5), (15, 5), (16, 6), (17, 6), (18, 6), (19, 7), (20, 7), (21, 7),
        (22, 8), (23, 8), (24, 8)]"
  by (simp add: subcategory_data_def)

lemma generated_regions_resolve: "save_data_to_csv e = Inr d \<Longrightarrow> regions_resolve d"
  by (simp add: regions_resolve_def save_data_to_csv_parts(1,2) ukrainian_regions_def
      country_names_def)

lemma products_loop_nonempty:
  "products_loop e subs (Suc n) i s = (rows, s') \<Longrightarrow> rows \<noteq> []"
  by (auto simp: Let_def split: prod.splits)

lemma customers_loop_nonempty:
  "customers_loop e (Suc n) i s = (rows, s') \<Longrightarrow> rows \<noteq> []"
  by (auto simp: Let_def split: prod.splits)

lemma sales_people_loop_nonempty:
  "sales_people_loop e (Suc n) i s = (rows, s') \<Longrightarrow> rows \<noteq> []"
  by (auto simp: Let_def split: prod.splits)

lemma generate_time_data_nonempty: "generate_time_data \<noteq> []"
  using first_time_row by auto

lemma save_data_to_csv_total: "\<exists>d. save_data_to_csv e = Inr d"
proof -
  obtain g s1 where g: "generate_geography_data e init_state = (g, s1)"
    by (cases "generate_geography_data e init_state")
  obtain co re ci where gg: "g = (co, re, ci)" by (cases g)
  obtain ca su pr s2 where p: "generate_product_data e s1 = ((ca, su, pr), s2)"
    by (cases "generate_product_data e s1") auto
  obtain cu s3 where c: "generate_customer_data e s2 = (cu, s3)"
    by (cases "generate_customer_data e s2")
  obtain sp s4 where s: "generate_sales_people_data e s3 = (sp, s4)"
    by (cases "generate_sales_people_data e s3")
  have "products_loop e su (Suc 499) 1 s1 = (pr, s2)"
    using p by (auto simp: generate_product_data_def NUM_PRODUCTS_def Let_def split: prod.splits)
  then have pr: "pr \<noteq> []" by (rule products_loop_nonempty)
  have "customers_loop e (Suc 1999) 1 s2 = (cu, s3)"
    using c by (simp add: generate_customer_data_def NUM_CUSTOMERS_def)
  then have cu: "cu \<noteq> []" by (rule customers_loop_nonempty)
  have "sales_people_loop e (Suc 49) 1 s3 = (sp, s4)"
    using s by (simp add: generate_sales_people_data_def NUM_SALES_PEOPLE_def)
  then have sp: "sp \<noteq> []" by (rule sales_people_loop_nonempty)
  from sales_loop_total[OF generate_time_data_nonempty pr cu sp]
  obtain rows s5 where
    "generate_sales_data e generate_time_data pr cu sp s4 = Inr (rows, s5)"
    unfolding generate_sales_data_def by blast
  with g gg p c s show ?thesis by (simp add: save_data_to_csv_def)
qed

lemma int_range_24:
  "1 \<le> x \<Longrightarrow> x \<le> 24 \<Longrightarrow>
     x \<in> set [1, 2, 3, 4, 5, 6, 7, 8, 9, 10, 11, 12, 13, 14, 15, 16, 17, 18, 19, 20, 21, 22, 23,
               24 :: int]"
  by (simp del: One_nat_def) arith

lemma pd_merge_mem:
  "(l, r) \<in> set (pd_merge L R kl kr) \<longleftrightarrow> l \<in> set L \<and> r \<in> set R \<and> kl l = kr r"
  by (auto simp: pd_merge_def)

lemma length_generated_subcategories: "length (subcategories_loop subcategory_data 1) = 24"
  using arg_cong[OF generated_subcategories, of length] by simp

lemma subcategory_of_id:
  assumes "1 \<le> x" "x \<le> 24"
  shows "\<exists>s\<in>set (subcategories_loop subcategory_data 1).
           subcategory_id s = x \<and> 1 \<le> subcategory_category_id s \<and> subcategory_category_id s \<le> 8"
proof -
  let ?subs = "subcategories_loop subcategory_data 1"
  have "map subcategory_id ?subs = map fst (map (\<lambda>s. (subcategory_id s, subcategory_category_id s)) ?subs)"
    by (simp add: comp_def)
  also have "\<dots> = [1, 2, 3, 4, 5, 6, 7, 8, 9, 10, 11, 12, 13, 14, 15, 16, 17, 18, 19, 20, 21,
      22, 23, 24]"
    by (simp only: generated_subcategories) simp
  finally have "x \<in> set (map subcategory_id ?subs)"
    using int_range_24[OF assms] by simp
  then obtain s where s: "s \<in> set ?subs" "subcategory_id s = x" by auto
  from s(1) have "(\<lambda>s. (subcategory_id s, subcategory_category_id s)) s
      \<in> (\<lambda>s. (subcategory_id s, subcategory_category_id s)) ` set ?subs" by (rule imageI)
  then have "(subcategory_id s, subcategory_category_id s)
      \<in> set (map (\<lambda>s. (subcategory_id s, subcategory_category_id s)) ?subs)" by simp
  then have "1 \<le> subcategory_category_id s \<and> subcategory_category_id s \<le> 8"
    by (simp only: generated_subcategories) auto
  with s show ?thesis by blast
qed

lemma member_of_ids: "map f xs = ys \<Longrightarrow> y \<in> set ys \<Longrightarrow> \<exists>x\<in>set xs. f x = y"
  by auto

lemma products_in_star:
  assumes "save_data_to_csv e = Inr d" "p \<in> set (products d)"
  shows "\<exists>x\<in>set (star_dim_product d). dp_product_id x = product_id p"
proof -
  note parts = save_data_to_csv_parts[OF assms(1)]
  from parts(6) obtain s s' where
    l: "products_loop e (subcategories_loop subcategory_data 1) NUM_PRODUCTS 1 s = (products d, s')"
    by blast
  have ne: "subcategories_loop subcategory_data 1 \<noteq> []"
    using length_generated_subcategories by auto
  from products_loop_rows[OF l ne] assms(2)
  have "1 \<le> product_subcategory_id p" "product_subcategory_id p \<le> 24"
    by (auto simp: length_generated_subcategories)
  from subcategory_of_id[OF this] obtain sc where
    sc: "sc \<in> set (subcategories d)" "subcategory_id sc = product_subcategory_id p"
    "1 \<le> subcategory_category_id sc" "subcategory_category_id sc \<le> 8"
    by (auto simp: parts(5))
  from sc(3,4) have "subcategory_category_id sc \<in> set [1, 2, 3, 4, 5, 6, 7, 8 :: int]"
    by (simp del: One_nat_def) arith
  from member_of_ids[OF generated_categories[OF assms(1)] this]
  obtain c where c: "c \<in> set (categories d)" "category_id c = subcategory_category_id sc" by blast
  let ?W = "pd_merge
          (pd_merge (products d) (subcategories d) product_subcategory_id subcategory_id)
          (categories d) (\<lambda>(p, s). subcategory_category_id s) category_id"
  let ?f = "\<lambda>((p, s), c).
            \<lparr>dp_product_id = product_id p, dp_product_name = product_name p,
             dp_product_code = product_code p, dp_unit_price = unit_price p,
             dp_subcategory_name = subcategory_name s, dp_category_name = category_name c\<rparr>"
  have "((p, sc), c) \<in> set ?W"
    using assms(2) sc(1,2) c by (simp add: pd_merge_mem)
  then have "?f ((p, sc), c) \<in> ?f ` set ?W" by (rule imageI)
  moreover have "dp_product_id (?f ((p, sc), c)) = product_id p" by simp
  moreover have "set (star_dim_product d) = ?f ` set ?W" by (simp add: star_dim_product_def)
  ultimately show ?thesis by blast
qed

lemma region_of_id:
  assumes "save_data_to_csv e = Inr d" "1 \<le> x" "x \<le> int NUM_REGIONS"
  shows "\<exists>r\<in>set (regions d). region_id r = x \<and> region_country_id r = 1"
proof -
  have "x \<in> set [1, 2, 3, 4, 5 :: int]"
    using assms(2,3) by (simp add: NUM_REGIONS_def del: One_nat_def) arith
  then have "(x, 1) \<in> set [(1, 1), (2, 1), (3, 1), (4, 1), (5, 1 :: int)]" by auto
  from member_of_ids[OF generated_regions[OF assms(1)] this] show ?thesis by auto
qed

lemma country_one:
  assumes "save_data_to_csv e = Inr d"
  shows "\<exists>co\<in>set (countries d). country_id co = 1"
proof -
  have "(1::int) \<in> set [1, 2, 3]" by simp
  from member_of_ids[OF generated_countries[OF assms] this] show ?thesis .
qed

lemma city_of_id:
  assumes "save_data_to_csv e = Inr d" "1 \<le> x" "x \<le> int NUM_CITIES"
  shows "\<exists>ci\<in>set (cities d). city_id ci = x \<and> 1 \<le> city_region_id ci
           \<and> city_region_id ci \<le> int NUM_REGIONS"
proof -
  from save_data_to_csv_parts(3)[OF assms(1)] obtain s s' where
    l: "cities_loop e (enumerate_from 1 ukrainian_cities) s = (cities d, s')" by blast
  note rows = cities_loop_rows[OF l]
  have "length ukrainian_cities = 20" by (simp add: ukrainian_cities_def)
  with assms(2,3) have "x \<in> fst ` set (enumerate_from 1 ukrainian_cities)"
    by (intro fst_enumerate_from) (simp_all add: NUM_CITIES_def)
  then have "x \<in> set (map fst (enumerate_from 1 ukrainian_cities))" by simp
  with rows have "x \<in> set (map city_id (cities d))" by simp
  then obtain ci where "ci \<in> set (cities d)" "city_id ci = x" by auto
  with rows show ?thesis by blast
qed

lemma customers_in_star:
  assumes "save_data_to_csv e = Inr d" "c \<in> set (customers d)"
  shows "\<exists>x\<in>set (star_dim_customer d). dc_customer_id x = customer_id c"
proof -
  from save_data_to_csv_parts(7)[OF assms(1)] obtain s s' where
    l: "customers_loop e NUM_CUSTOMERS 1 s = (customers d, s')" by blast
  from customers_loop_rows[OF l] assms(2)
  have "1 \<le> customer_city_id c" "customer_city_id c \<le> int NUM_CITIES" by auto
  from city_of_id[OF assms(1) this] obtain ci where
    ci: "ci \<in> set (cities d)" "city_id ci = customer_city_id c"
    "1 \<le> city_region_id ci" "city_region_id ci \<le> int NUM_REGIONS" by blast
  from region_of_id[OF assms(1) ci(3,4)] obtain r where
    r: "r \<in> set (regions d)" "region_id r = city_region_id ci" "region_country_id r = 1" by blast
  from country_one[OF assms(1)] obtain co where
    co: "co \<in> set (countries d)" "country_id co = 1" by blast
  let ?W = "pd_merge
          (pd_merge
             (pd_merge (customers d) (cities d) customer_city_id city_id)
             (regions d) (\<lambda>(c, ci). city_region_id ci) region_id)
          (countries d) (\<lambda>((c, ci), r). region_country_id r) country_id"
  let ?f = "\<lambda>(((c, ci), r), co).
            \<lparr>dc_customer_id = customer_id c, dc_customer_name = customer_name c,
             dc_email = email c, dc_phone = phone c,
             dc_registration_date = registration_date c, dc_city_name = city_name ci,
             dc_region_name = region_name r, dc_country_name = country_name co\<rparr>"
  have "(((c, ci), r), co) \<in> set ?W"
    using assms(2) ci(1,2) r co by (simp add: pd_merge_mem)
  then have "?f (((c, ci), r), co) \<in> ?f ` set ?W" by (rule imageI)
  moreover have "dc_customer_id (?f (((c, ci), r), co)) = customer_id c" by simp
  moreover have "set (star_dim_customer d) = ?f ` set ?W" by (simp add: star_dim_customer_def)
  ultimately show ?thesis by blast
qed

lemma salespeople_in_star:
  assumes "save_data_to_csv e = Inr d" "sp \<in> set (sales_people d)"
  shows "\<exists>x\<in>set (star_dim_salesperson d). ds_salesperson_id x = salesperson_id sp"
proof -
  from save_data_to_csv_parts(8)[OF assms(1)] obtain s s' where
    l: "sales_people_loop e NUM_SALES_PEOPLE 1 s = (sales_people d, s')" by blast
  from sales_people_loop_rows[OF l] assms(2)
  have "1 \<le> salesperson_region_id sp" "salesperson_region_id sp \<le> int NUM_REGIONS" by auto
  from region_of_id[OF assms(1) this] obtain r where
    r: "r \<in> set (regions d)" "region_id r = salesperson_region_id sp" "region_country_id r = 1"
    by blast
  from country_one[OF assms(1)] obtain co where
    co: "co \<in> set (countries d)" "country_id co = 1" by blast
  let ?W = "pd_merge
          (pd_merge (sales_people d) (regions d) salesperson_region_id region_id)
          (countries d) (\<lambda>(sp, r). region_country_id r) country_id"
  let ?f = "\<lambda>((sp, r), co).
            \<lparr>ds_salesperson_id = salesperson_id sp, ds_salesperson_name = salesperson_name sp,
             ds_hire_date = hire_date sp, ds_region_name = region_name r,
             ds_country_name = country_name co\<rparr>"
  have "((sp, r), co) \<in> set ?W"
    using assms(2) r co by (simp add: pd_merge_mem)
  then have "?f ((sp, r), co) \<in> ?f ` set ?W" by (rule imageI)
  moreover have "ds_salesperson_id (?f ((sp, r), co)) = salesperson_id sp" by simp
  moreover have "set (star_dim_salesperson d) = ?f ` set ?W"
    by (simp add: star_dim_salesperson_def)
  ultimately show ?thesis by blast
qed

lemma generated_facts:
  assumes "save_data_to_csv e = Inr d"
  shows "length (sales_facts d) = NUM_SALES_RECORDS"
    and "\<forall>f\<in>set (sales_facts d).
           (\<exists>t\<in>set (time_dimension d). time_id t = sale_time_id f)
         \<and> (\<exists>p\<in>set (products d). product_id p = sale_product_id f
                \<and> unit_price p = sale_unit_price f)
         \<and> (\<exists>c\<in>set (customers d). customer_id c = sale_customer_id f)
         \<and> (\<exists>sp\<in>set (sales_people d). salesperson_id sp = sale_salesperson_id f)
         \<and> 1 \<le> quantity f \<and> quantity f \<le> 10
         \<and> 0 \<le> discount f \<and> discount f \<le> 2 / 10
         \<and> total_amount f
             = py_round (of_int (quantity f) * sale_unit_price f * (1 - discount f)) 2"
proof -
  from save_data_to_csv_parts(10)[OF assms] obtain s s' where
    l: "sales_loop e (time_dimension d) (products d) (customers d) (sales_people d)
          NUM_SALES_RECORDS 1 s = Inr (sales_facts d, s')" by blast
  from sales_loop_rows[OF l] show "length (sales_facts d) = NUM_SALES_RECORDS"
    and "\<forall>f\<in>set (sales_facts d).
           (\<exists>t\<in>set (time_dimension d). time_id t = sale_time_id f)
         \<and> (\<exists>p\<in>set (products d). product_id p = sale_product_id f
                \<and> unit_price p = sale_unit_price f)
         \<and> (\<exists>c\<in>set (customers d). customer_id c = sale_customer_id f)
         \<and> (\<exists>sp\<in>set (sales_people d). salesperson_id sp = sale_salesperson_id f)
         \<and> 1 \<le> quantity f \<and> quantity f \<le> 10
         \<and> 0 \<le> discount f \<and> discount f \<le> 2 / 10
         \<and> total_amount f
             = py_round (of_int (quantity f) * sale_unit_price f * (1 - discount f)) 2"
    by blast+
qed


section \<open>Equivalence of the query pairs on the generated dataset\<close>

text \<open>
  Claim C1: for every query pair of the comparator's suite, the star variant run on the star
  store and the snowflake variant run on the snowflake store return the same rows, when both
  stores were built from the same flat dataset, the one the generator writes (for any
  seed). None of the ten queries raises.
\<close>

theorem generated_cross_schema_equivalence:
  assumes "save_data_to_csv e = Inr d"
    and "star_build (Some d) s1 = (Inr stats1, st)"
    and "snowflake_build (Some d) s2 = (Inr stats2, sf)"
  shows "star_sales_by_region st = snowflake_sales_by_region sf
    \<and> star_top_products st = snowflake_top_products sf
    \<and> star_monthly_trend st = snowflake_monthly_trend sf
    \<and> star_salesperson_performance st = snowflake_salesperson_performance sf
    \<and> star_complex_analysis st = snowflake_complex_analysis sf
    \<and> (\<exists>rows. star_sales_by_region st = Inr rows)
    \<and> (\<exists>rows. star_top_products st = Inr rows)
    \<and> (\<exists>rows. star_monthly_trend st = Inr rows)
    \<and> (\<exists>rows. star_salesperson_performance st = Inr rows)
    \<and> (\<exists>rows. star_complex_analysis st = Inr rows)"
  by (rule cross_schema_equivalence[OF assms(2) assms(3) generated_regions_resolve[OF assms(1)]])

theorem generated_cross_schema_equivalence_witness:
  "\<exists>d. save_data_to_csv zero_entropy = Inr d
     \<and> star_sales_by_region (snd (star_build (Some d) empty_store))
         = snowflake_sales_by_region (snd (snowflake_build (Some d) empty_store))
     \<and> star_top_products (snd (star_build (Some d) empty_store))
         = snowflake_top_products (snd (snowflake_build (Some d) empty_store))
     \<and> star_monthly_trend (snd (star_build (Some d) empty_store))
         = snowflake_monthly_trend (snd (snowflake_build (Some d) empty_store))
     \<and> star_salesperson_performance (snd (star_build (Some d) empty_store))
         = snowflake_salesperson_performance (snd (snowflake_build (Some d) empty_store))
     \<and> star_complex_analysis (snd (star_build (Some d) empty_store))
         = snowflake_complex_analysis (snd (snowflake_build (Some d) empty_store))
     \<and> (\<exists>rows. star_sales_by_region (snd (star_build (Some d) empty_store)) = Inr rows)"
proof -
  obtain d where d: "save_data_to_csv zero_entropy = Inr d"
    using save_data_to_csv_total by blast
  obtain stats1 where b1: "star_build (Some d) empty_store
      = (Inr stats1, snd (star_build (Some d) empty_store))"
    by (simp add: star_build_empty_store)
  obtain stats2 where b2: "snowflake_build (Some d) empty_store
      = (Inr stats2, snd (snowflake_build (Some d) empty_store))"
    by (simp add: snowflake_build_empty_store)
  from generated_cross_schema_equivalence[OF d b1 b2] d show ?thesis by blast
qed

section \<open>Properties of the generated fact rows\<close>

text \<open>
  Claim C4: in the dataset the generator writes (for any seed), the time, product, customer
  and salesperson key of each of the 50000 fact rows is the key of a row of the
  corresponding dimension table; and the same holds for the fact rows in the star store and
  in the snowflake store built from that dataset, whose dimension tables keep every
  generated key.
\<close>

theorem generated_foreign_keys_resolve:
  assumes "save_data_to_csv e = Inr d"
    and "star_build (Some d) s1 = (Inr stats1, st)"
    and "snowflake_build (Some d) s2 = (Inr stats2, sf)"
  shows "dataset_keys_resolve d \<and> star_keys_resolve st \<and> snowflake_keys_resolve sf
    \<and> length (sales_facts d) = NUM_SALES_RECORDS"
proof -
  note f = generated_facts[OF assms(1)]
  note t1 = star_build_tables[OF assms(2)]
  note t2 = snowflake_build_tables[OF assms(3)]
  have k: "\<forall>f\<in>set (sales_facts d).
      sale_time_id f \<in> time_id ` set (time_dimension d)
    \<and> sale_product_id f \<in> product_id ` set (products d)
    \<and> sale_customer_id f \<in> customer_id ` set (customers d)
    \<and> sale_salesperson_id f \<in> salesperson_id ` set (sales_people d)"
    using f(2) by (metis imageI)
  have s: "\<forall>f\<in>set (sales_facts d).
      sale_product_id f \<in> dp_product_id ` set (star_dim_product d)
    \<and> sale_customer_id f \<in> dc_customer_id ` set (star_dim_customer d)
    \<and> sale_salesperson_id f \<in> ds_salesperson_id ` set (star_dim_salesperson d)"
  proof
    fix x assume x: "x \<in> set (sales_facts d)"
    from f(2) x obtain p c sp where
      p: "p \<in> set (products d)" "product_id p = sale_product_id x" and
      c: "c \<in> set (customers d)" "customer_id c = sale_customer_id x" and
      sp: "sp \<in> set (sales_people d)" "salesperson_id sp = sale_salesperson_id x"
      by blast
    from products_in_star[OF assms(1) p(1)] p(2)
    have "sale_product_id x \<in> dp_product_id ` set (star_dim_product d)" by (metis imageI)
    moreover from customers_in_star[OF assms(1) c(1)] c(2)
    have "sale_customer_id x \<in> dc_customer_id ` set (star_dim_customer d)" by (metis imageI)
    moreover from salespeople_in_star[OF assms(1) sp(1)] sp(2)
    have "sale_salesperson_id x \<in> ds_salesperson_id ` set (star_dim_salesperson d)"
      by (metis imageI)
    ultimately show "sale_product_id x \<in> dp_product_id ` set (star_dim_product d)
      \<and> sale_customer_id x \<in> dc_customer_id ` set (star_dim_customer d)
      \<and> sale_salesperson_id x \<in> ds_salesperson_id ` set (star_dim_salesperson d)" by blast
  qed
  have "dataset_keys_resolve d"
    using k by (simp add: dataset_keys_resolve_def list_all_iff)
  moreover have "star_keys_resolve st"
    using k s by (simp add: star_keys_resolve_def t1 list_all_iff)
  moreover have "snowflake_keys_resolve sf"
    using k by (simp add: snowflake_keys_resolve_def t2 list_all_iff)
  ultimately show ?thesis using f(1) by blast
qed

theorem generated_foreign_keys_resolve_witness:
  "\<exists>d. save_data_to_csv zero_entropy = Inr d
     \<and> length (sales_facts d) = 50000
     \<and> dataset_keys_resolve d
     \<and> star_keys_resolve (snd (star_build (Some d) empty_store))
     \<and> snowflake_keys_resolve (snd (snowflake_build (Some d) empty_store))"
proof -
  obtain d where d: "save_data_to_csv zero_entropy = Inr d"
    using save_data_to_csv_total by blast
  obtain stats1 where b1: "star_build (Some d) empty_store
      = (Inr stats1, snd (star_build (Some d) empty_store))"
    by (simp add: star_build_empty_store)
  obtain stats2 where b2: "snowflake_build (Some d) empty_store
      = (Inr stats2, snd (snowflake_build (Some d) empty_store))"
    by (simp add: snowflake_build_empty_store)
  from generated_foreign_keys_resolve[OF d b1 b2] d show ?thesis
    by (auto simp: NUM_SALES_RECORDS_def)
qed




end
